theory Spec2Isabelle
  imports Complex_Main "HOL-Library.Word" "HOL-Library.Sublist" "HOL-Library.Multiset"
    "HOL-Library.Log_Nat"
begin

section \<open>Values and SQL's three-valued logic\<close>

text \<open>
  A \<^verbatim>\<open>uuid\<close> is a 128-bit value compared as an unsigned number; a \<^verbatim>\<open>timestamptz\<close> is a
  count of microseconds; \<^verbatim>\<open>numeric\<close> and \<^verbatim>\<open>decimal\<close> values are exact, so they are reals here;
  a nullable column is an \<open>option\<close>, \<open>None\<close> being \<^verbatim>\<open>NULL\<close>; a \<^verbatim>\<open>NOT NULL\<close> column has the plain
  type. A \<^verbatim>\<open>GEOGRAPHY(POINT, 4326)\<close> is the pair (longitude, latitude) that
  \<^verbatim>\<open>ST_MakePoint\<close> was given.
\<close>

type_synonym uuid = "128 word"
type_synonym timestamptz = int
type_synonym numeric = real
type_synonym geography = "real \<times> real"

definition ST_MakePoint :: "real \<Rightarrow> real \<Rightarrow> geography" where
  "ST_MakePoint x y = (x, y)"

datatype user_role = buyer | seller | both
datatype product_condition = new | like_new | good | fair | poor
datatype product_status = active | sold | inactive
datatype order_status = pending | confirmed | shipped | delivered | cancelled | returned

text \<open>
  Every way a statement of the schema, a stored procedure or a client function can fail.
  The constructors are named after the PostgreSQL error conditions; \<open>PGRST202\<close> is the
  data API's answer when no procedure matches a call, \<open>raise_exception\<close> carries the
  message of a \<^verbatim>\<open>RAISE EXCEPTION\<close> or of a JavaScript \<^verbatim>\<open>throw new Error\<close>.
\<close>

datatype error =
    raise_exception string
  | check_violation string
  | not_null_violation string
  | unique_violation string
  | foreign_key_violation string
  | insufficient_privilege string
  | numeric_value_out_of_range
  | ambiguous_column string
  | invalid_row_count_in_limit_clause
  | PGRST202 string

text \<open>
  Comparisons with \<^verbatim>\<open>NULL\<close> are \<^verbatim>\<open>NULL\<close>; a \<^verbatim>\<open>WHERE\<close> clause and an \<^verbatim>\<open>IF\<close> keep only
  what is true.
\<close>

definition sql_eq :: "'a option \<Rightarrow> 'a option \<Rightarrow> bool option" where
  "sql_eq a b = (case (a, b) of (Some x, Some y) \<Rightarrow> Some (x = y) | _ \<Rightarrow> None)"

definition sql_lt :: "('a::linorder) option \<Rightarrow> 'a option \<Rightarrow> bool option" where
  "sql_lt a b = (case (a, b) of (Some x, Some y) \<Rightarrow> Some (x < y) | _ \<Rightarrow> None)"

definition sql_and :: "bool option \<Rightarrow> bool option \<Rightarrow> bool option" where
  "sql_and a b =
     (if a = Some False \<or> b = Some False then Some False
      else if a = Some True \<and> b = Some True then Some True else None)"

definition sql_or :: "bool option \<Rightarrow> bool option \<Rightarrow> bool option" where
  "sql_or a b =
     (if a = Some True \<or> b = Some True then Some True
      else if a = Some False \<and> b = Some False then Some False else None)"

definition is_null :: "'a option \<Rightarrow> bool option" where
  "is_null a = Some (a = None)"

definition is_true :: "bool option \<Rightarrow> bool" where
  "is_true b = (b = Some True)"

text \<open>\<^verbatim>\<open>a IS DISTINCT FROM b\<close> treats \<^verbatim>\<open>NULL\<close> as an ordinary value.\<close>

definition is_distinct_from :: "'a option \<Rightarrow> 'a option \<Rightarrow> bool" where
  "is_distinct_from a b = (a \<noteq> b)"

text \<open>
  A value assigned to a \<^verbatim>\<open>decimal(10,2)\<close> column is rounded to two decimal places, half
  away from zero, and rejected when the rounded value needs more than eight digits before
  the point.
\<close>

definition decimal_10_2 :: "numeric \<Rightarrow> error + numeric" where
  "decimal_10_2 v =
     (let cents = sgn v * of_int \<lfloor>\<bar>v\<bar> * 100 + 1 / 2\<rfloor>
      in if \<bar>cents\<bar> \<ge> 10 ^ 10 then Inl numeric_value_out_of_range else Inr (cents / 100))"

section \<open>Tables\<close>

text \<open>
  One record per table, with the columns of all three migrations. A field is named by the
  alias the stored procedures use for its table (\<^verbatim>\<open>p.status\<close> is \<open>p_status\<close>) and the
  column name.
\<close>

record user_profile =
  up_id :: uuid
  up_full_name :: string
  up_phone :: "string option"
  up_address :: "string option"
  up_role :: user_role
  up_avatar_url :: "string option"
  up_created_at :: "timestamptz option"
  up_updated_at :: "timestamptz option"
  up_city :: "string option"
  up_state :: "string option"
  up_pincode :: "string option"
  up_latitude :: "numeric option"
  up_longitude :: "numeric option"
  up_location_point :: "geography option"

record category =
  c_id :: uuid
  c_name :: string
  c_description :: "string option"
  c_icon :: "string option"
  c_is_special :: "bool option"
  c_created_at :: "timestamptz option"

record product =
  p_id :: uuid
  p_seller_id :: uuid
  p_title :: string
  p_description :: string
  p_price :: numeric
  p_category_id :: uuid
  p_condition :: product_condition
  p_location :: string
  p_image_urls :: "string list option"
  p_status :: product_status
  p_views :: "int option"
  p_created_at :: "timestamptz option"
  p_updated_at :: "timestamptz option"
  p_city :: "string option"
  p_state :: "string option"
  p_pincode :: "string option"
  p_latitude :: "numeric option"
  p_longitude :: "numeric option"
  p_location_point :: "geography option"
  p_is_donation :: "bool option"
  p_is_urgent :: "bool option"

record order =
  o_id :: uuid
  o_buyer_id :: uuid
  o_seller_id :: uuid
  o_total_amount :: numeric
  o_status :: order_status
  o_delivery_address :: string
  o_payment_method :: string
  o_notes :: "string option"
  o_created_at :: "timestamptz option"
  o_updated_at :: "timestamptz option"

record order_item =
  oi_id :: uuid
  oi_order_id :: uuid
  oi_product_id :: uuid
  oi_quantity :: int
  oi_unit_price :: numeric
  oi_total_price :: numeric
  oi_created_at :: "timestamptz option"

record wishlist =
  w_id :: uuid
  w_user_id :: uuid
  w_product_id :: uuid
  w_created_at :: "timestamptz option"

record conversation =
  cv_id :: uuid
  cv_user1_id :: uuid
  cv_user2_id :: uuid
  cv_product_id :: "uuid option"
  cv_last_message_at :: "timestamptz option"
  cv_created_at :: "timestamptz option"

record message =
  m_id :: uuid
  m_conversation_id :: uuid
  m_sender_id :: uuid
  m_receiver_id :: uuid
  m_product_id :: "uuid option"
  m_message_text :: string
  m_is_read :: "bool option"
  m_created_at :: "timestamptz option"
  m_updated_at :: "timestamptz option"

text \<open>The database: every table is the list of its rows, in the order of a plain scan.\<close>

record database =
  user_profiles :: "user_profile list"
  categories :: "category list"
  products :: "product list"
  orders :: "order list"
  order_items :: "order_item list"
  wishlists :: "wishlist list"
  conversations :: "conversation list"
  messages :: "message list"

section \<open>Row-level security\<close>

text \<open>
  The requesting identity. Every policy of the migrations is declared \<^verbatim>\<open>TO authenticated\<close>:
  with row-level security enabled, \<open>anon\<close> is granted no row, and \<open>service_role\<close> (like
  the owner of a \<^verbatim>\<open>SECURITY DEFINER\<close> function) bypasses the policies. \<^verbatim>\<open>auth.uid()\<close> is the
  identifier of an authenticated session and \<^verbatim>\<open>NULL\<close> otherwise.
\<close>

datatype role = anon | authenticated uuid | service_role

definition auth_uid :: "role \<Rightarrow> uuid option" where
  "auth_uid r = (case r of authenticated u \<Rightarrow> Some u | _ \<Rightarrow> None)"

datatype command = FOR_SELECT | FOR_INSERT | FOR_UPDATE | FOR_DELETE | FOR_ALL

record 'r policy =
  polname :: string
  polcmd :: command
  polqual :: "(role \<Rightarrow> database \<Rightarrow> 'r \<Rightarrow> bool) option"
  polwithcheck :: "(role \<Rightarrow> database \<Rightarrow> 'r \<Rightarrow> bool) option"

definition applies :: "command \<Rightarrow> 'r policy \<Rightarrow> bool" where
  "applies cmd pol = (polcmd pol = cmd \<or> polcmd pol = FOR_ALL)"

text \<open>
  Permissive policies are combined with \<^verbatim>\<open>OR\<close>. \<open>rls_using\<close> decides which existing rows a
  command may touch; \<open>rls_with_check\<close> decides which new rows it may write, from
  \<^verbatim>\<open>WITH CHECK\<close> or, where a policy has none, from its \<^verbatim>\<open>USING\<close> expression.
\<close>

definition rls_using :: "'r policy list \<Rightarrow> command \<Rightarrow> role \<Rightarrow> database \<Rightarrow> 'r \<Rightarrow> bool" where
  "rls_using pols cmd r db row =
     (case r of
        service_role \<Rightarrow> True
      | anon \<Rightarrow> False
      | authenticated u \<Rightarrow>
          list_ex (\<lambda>pol. applies cmd pol \<and>
                     (case polqual pol of Some q \<Rightarrow> q r db row | None \<Rightarrow> True)) pols)"

definition rls_with_check :: "'r policy list \<Rightarrow> command \<Rightarrow> role \<Rightarrow> database \<Rightarrow> 'r \<Rightarrow> bool" where
  "rls_with_check pols cmd r db row =
     (case r of
        service_role \<Rightarrow> True
      | anon \<Rightarrow> False
      | authenticated u \<Rightarrow>
          list_ex (\<lambda>pol. applies cmd pol \<and>
                     (case polwithcheck pol of
                        Some q \<Rightarrow> q r db row
                      | None \<Rightarrow> (case polqual pol of Some q \<Rightarrow> q r db row | None \<Rightarrow> True))) pols)"

definition rls_error :: error where
  "rls_error = insufficient_privilege ''new row violates row-level security policy''"

subsection \<open>The policies of the migrations\<close>

definition user_profiles_policies :: "user_profile policy list" where
  "user_profiles_policies =
     [\<lparr>polname = ''Users can view own profile'', polcmd = FOR_SELECT,
       polqual = Some (\<lambda>r db up. is_true (sql_eq (auth_uid r) (Some (up_id up)))),
       polwithcheck = None\<rparr>,
      \<lparr>polname = ''Users can update own profile'', polcmd = FOR_UPDATE,
       polqual = Some (\<lambda>r db up. is_true (sql_eq (auth_uid r) (Some (up_id up)))),
       polwithcheck = None\<rparr>,
      \<lparr>polname = ''Public profiles are viewable by everyone'', polcmd = FOR_SELECT,
       polqual = Some (\<lambda>r db up. True), polwithcheck = None\<rparr>]"

definition categories_policies :: "category policy list" where
  "categories_policies =
     [\<lparr>polname = ''Categories are viewable by everyone'', polcmd = FOR_SELECT,
       polqual = Some (\<lambda>r db c. True), polwithcheck = None\<rparr>]"

definition products_policies :: "product policy list" where
  "products_policies =
     [\<lparr>polname = ''Products are viewable by everyone'', polcmd = FOR_SELECT,
       polqual = Some (\<lambda>r db p. p_status p = active), polwithcheck = None\<rparr>,
      \<lparr>polname = ''Sellers can insert own products'', polcmd = FOR_INSERT,
       polqual = None,
       polwithcheck = Some (\<lambda>r db p. is_true (sql_eq (auth_uid r) (Some (p_seller_id p))))\<rparr>,
      \<lparr>polname = ''Sellers can update own products'', polcmd = FOR_UPDATE,
       polqual = Some (\<lambda>r db p. is_true (sql_eq (auth_uid r) (Some (p_seller_id p)))),
       polwithcheck = None\<rparr>,
      \<lparr>polname = ''Sellers can delete own products'', polcmd = FOR_DELETE,
       polqual = Some (\<lambda>r db p. is_true (sql_eq (auth_uid r) (Some (p_seller_id p)))),
       polwithcheck = None\<rparr>,
      \<lparr>polname = ''Active products are viewable by everyone'', polcmd = FOR_SELECT,
       polqual = Some (\<lambda>r db p. p_status p = active), polwithcheck = None\<rparr>,
      \<lparr>polname = ''Sellers can manage own products'', polcmd = FOR_ALL,
       polqual = Some (\<lambda>r db p. is_true (sql_eq (auth_uid r) (Some (p_seller_id p)))),
       polwithcheck = None\<rparr>]"

definition orders_policies :: "order policy list" where
  "orders_policies =
     [\<lparr>polname = ''Users can view own orders as buyer'', polcmd = FOR_SELECT,
       polqual = Some (\<lambda>r db od. is_true (sql_eq (auth_uid r) (Some (o_buyer_id od)))),
       polwithcheck = None\<rparr>,
      \<lparr>polname = ''Users can view own orders as seller'', polcmd = FOR_SELECT,
       polqual = Some (\<lambda>r db od. is_true (sql_eq (auth_uid r) (Some (o_seller_id od)))),
       polwithcheck = None\<rparr>,
      \<lparr>polname = ''Buyers can create orders'', polcmd = FOR_INSERT,
       polqual = None,
       polwithcheck = Some (\<lambda>r db od. is_true (sql_eq (auth_uid r) (Some (o_buyer_id od))))\<rparr>,
      \<lparr>polname = ''Sellers can update order status'', polcmd = FOR_UPDATE,
       polqual = Some (\<lambda>r db od. is_true (sql_eq (auth_uid r) (Some (o_seller_id od)))),
       polwithcheck = None\<rparr>]"

definition order_items_policies :: "order_item policy list" where
  "order_items_policies =
     [\<lparr>polname = ''Users can view order items for their orders'', polcmd = FOR_SELECT,
       polqual = Some (\<lambda>r db oi.
         list_ex (\<lambda>od. o_id od = oi_order_id oi \<and>
                    is_true (sql_or (sql_eq (Some (o_buyer_id od)) (auth_uid r))
                                    (sql_eq (Some (o_seller_id od)) (auth_uid r))))
           (filter (rls_using orders_policies FOR_SELECT r db) (orders db))),
       polwithcheck = None\<rparr>,
      \<lparr>polname = ''Buyers can create order items'', polcmd = FOR_INSERT,
       polqual = None,
       polwithcheck = Some (\<lambda>r db oi.
         list_ex (\<lambda>od. o_id od = oi_order_id oi \<and>
                    is_true (sql_eq (Some (o_buyer_id od)) (auth_uid r)))
           (filter (rls_using orders_policies FOR_SELECT r db) (orders db)))\<rparr>]"

definition conversations_policies :: "conversation policy list" where
  "conversations_policies =
     [\<lparr>polname = ''Users can view own conversations'', polcmd = FOR_SELECT,
       polqual = Some (\<lambda>r db cv.
         is_true (sql_or (sql_eq (auth_uid r) (Some (cv_user1_id cv)))
                         (sql_eq (auth_uid r) (Some (cv_user2_id cv))))),
       polwithcheck = None\<rparr>,
      \<lparr>polname = ''Users can create conversations'', polcmd = FOR_INSERT,
       polqual = None,
       polwithcheck = Some (\<lambda>r db cv.
         is_true (sql_or (sql_eq (auth_uid r) (Some (cv_user1_id cv)))
                         (sql_eq (auth_uid r) (Some (cv_user2_id cv)))))\<rparr>]"

definition messages_policies :: "message policy list" where
  "messages_policies =
     [\<lparr>polname = ''Users can view own messages'', polcmd = FOR_SELECT,
       polqual = Some (\<lambda>r db m.
         is_true (sql_or (sql_eq (auth_uid r) (Some (m_sender_id m)))
                         (sql_eq (auth_uid r) (Some (m_receiver_id m))))),
       polwithcheck = None\<rparr>,
      \<lparr>polname = ''Users can send messages'', polcmd = FOR_INSERT,
       polqual = None,
       polwithcheck = Some (\<lambda>r db m. is_true (sql_eq (auth_uid r) (Some (m_sender_id m))))\<rparr>,
      \<lparr>polname = ''Users can update own messages'', polcmd = FOR_UPDATE,
       polqual = Some (\<lambda>r db m.
         is_true (sql_or (sql_eq (auth_uid r) (Some (m_sender_id m)))
                         (sql_eq (auth_uid r) (Some (m_receiver_id m))))),
       polwithcheck = None\<rparr>]"

definition wishlists_policies :: "wishlist policy list" where
  "wishlists_policies =
     [\<lparr>polname = ''Users can view own wishlist'', polcmd = FOR_SELECT,
       polqual = Some (\<lambda>r db w. is_true (sql_eq (auth_uid r) (Some (w_user_id w)))),
       polwithcheck = None\<rparr>,
      \<lparr>polname = ''Users can add to own wishlist'', polcmd = FOR_INSERT,
       polqual = None,
       polwithcheck = Some (\<lambda>r db w. is_true (sql_eq (auth_uid r) (Some (w_user_id w))))\<rparr>,
      \<lparr>polname = ''Users can remove from own wishlist'', polcmd = FOR_DELETE,
       polqual = Some (\<lambda>r db w. is_true (sql_eq (auth_uid r) (Some (w_user_id w)))),
       polwithcheck = None\<rparr>]"

section \<open>Statements\<close>

text \<open>
  A statement either fails, and then changes nothing, or yields the new table. \<open>outcome\<close> is
  the database after a statement that was run on \<open>db\<close>.
\<close>

definition outcome :: "database \<Rightarrow> error + database \<Rightarrow> database" where
  "outcome db res = (case res of Inl e \<Rightarrow> db | Inr db' \<Rightarrow> db')"

definition rejected :: "database \<Rightarrow> error + database \<Rightarrow> bool" where
  "rejected db res = (isl res \<and> outcome db res = db)"

text \<open>
  \<^verbatim>\<open>SELECT\<close>: the rows the policies show to the role. \<^verbatim>\<open>INSERT\<close>: the new row passes the
  policies' checks (and, with \<^verbatim>\<open>RETURNING\<close>, the \<^verbatim>\<open>SELECT\<close> policies), then the table's
  constraints, and is appended.
\<close>

definition select_rows :: "'r policy list \<Rightarrow> role \<Rightarrow> database \<Rightarrow> 'r list \<Rightarrow> 'r list" where
  "select_rows pols r db tbl = filter (rls_using pols FOR_SELECT r db) tbl"

definition insert_row ::
  "'r policy list \<Rightarrow> ('r \<Rightarrow> error option) \<Rightarrow> bool \<Rightarrow> role \<Rightarrow> database \<Rightarrow> 'r \<Rightarrow> 'r list
     \<Rightarrow> error + 'r list" where
  "insert_row pols constraints returning r db row tbl =
     (if \<not> rls_with_check pols FOR_INSERT r db row then Inl rls_error
      else if returning \<and> \<not> rls_using pols FOR_SELECT r db row then Inl rls_error
      else case constraints row of Some e \<Rightarrow> Inl e | None \<Rightarrow> Inr (tbl @ [row]))"

text \<open>
  \<^verbatim>\<open>UPDATE\<close> visits the table row by row: a row that the \<^verbatim>\<open>WHERE\<close> clause and the policies
  select is replaced by what \<open>upd\<close> computes for it, and the first row for which \<open>upd\<close> fails
  aborts the whole statement.
\<close>

fun update_each :: "('r \<Rightarrow> bool) \<Rightarrow> ('r \<Rightarrow> error + 'r) \<Rightarrow> 'r list \<Rightarrow> error + 'r list" where
  "update_each target upd [] = Inr []"
| "update_each target upd (row # rows) =
     (if target row then
        (case upd row of
           Inl e \<Rightarrow> Inl e
         | Inr row' \<Rightarrow>
             (case update_each target upd rows of
                Inl e \<Rightarrow> Inl e
              | Inr rows' \<Rightarrow> Inr (row' # rows')))
      else
        (case update_each target upd rows of
           Inl e \<Rightarrow> Inl e
         | Inr rows' \<Rightarrow> Inr (row # rows')))"

text \<open>
  The new row of an \<^verbatim>\<open>UPDATE\<close> is the assigned row \<open>st row\<close> after column coercion and the
  \<^verbatim>\<open>BEFORE UPDATE\<close> triggers (\<open>before\<close>, which may fail); it must pass the \<^verbatim>\<open>UPDATE\<close> and
  \<^verbatim>\<open>SELECT\<close> policies and then the constraints, which see the old row as well.
\<close>

definition update_target ::
  "'r policy list \<Rightarrow> role \<Rightarrow> database \<Rightarrow> ('r \<Rightarrow> bool) \<Rightarrow> 'r \<Rightarrow> bool" where
  "update_target pols r db wh row =
     (wh row \<and> rls_using pols FOR_UPDATE r db row \<and> rls_using pols FOR_SELECT r db row)"

definition update_rows ::
  "'r policy list \<Rightarrow> ('r \<Rightarrow> 'r \<Rightarrow> error + 'r) \<Rightarrow> ('r \<Rightarrow> 'r \<Rightarrow> error option) \<Rightarrow> role \<Rightarrow> database
     \<Rightarrow> ('r \<Rightarrow> bool) \<Rightarrow> ('r \<Rightarrow> 'r) \<Rightarrow> 'r list \<Rightarrow> error + 'r list" where
  "update_rows pols before constraints r db wh st tbl =
     update_each (update_target pols r db wh)
       (\<lambda>row. case before row (st row) of
                 Inl e \<Rightarrow> Inl e
               | Inr row' \<Rightarrow>
                   if \<not> rls_with_check pols FOR_UPDATE r db row' then Inl rls_error
                   else if \<not> rls_using pols FOR_SELECT r db row' then Inl rls_error
                   else (case constraints row row' of Some e \<Rightarrow> Inl e | None \<Rightarrow> Inr row'))
       tbl"

text \<open>\<^verbatim>\<open>DELETE\<close> removes the rows that the \<^verbatim>\<open>WHERE\<close> clause and the policies select.\<close>

definition delete_target ::
  "'r policy list \<Rightarrow> role \<Rightarrow> database \<Rightarrow> ('r \<Rightarrow> bool) \<Rightarrow> 'r \<Rightarrow> bool" where
  "delete_target pols r db wh row =
     (wh row \<and> rls_using pols FOR_DELETE r db row \<and> rls_using pols FOR_SELECT r db row)"

definition delete_rows ::
  "'r policy list \<Rightarrow> role \<Rightarrow> database \<Rightarrow> ('r \<Rightarrow> bool) \<Rightarrow> 'r list \<Rightarrow> 'r list" where
  "delete_rows pols r db wh tbl = filter (\<lambda>row. \<not> delete_target pols r db wh row) tbl"

section \<open>Wishlist\<close>

text \<open>
  The constraints of \<^verbatim>\<open>wishlists\<close>: primary key, \<^verbatim>\<open>UNIQUE(user_id, product_id)\<close>, and the
  two foreign keys.
\<close>

definition wishlists_constraints :: "database \<Rightarrow> wishlist \<Rightarrow> error option" where
  "wishlists_constraints db w =
     (if list_ex (\<lambda>x. w_id x = w_id w) (wishlists db)
        then Some (unique_violation ''wishlists_pkey'')
      else if list_ex (\<lambda>x. w_user_id x = w_user_id w \<and> w_product_id x = w_product_id w)
                (wishlists db)
        then Some (unique_violation ''wishlists_user_id_product_id_key'')
      else if \<not> list_ex (\<lambda>up. up_id up = w_user_id w) (user_profiles db)
        then Some (foreign_key_violation ''wishlists_user_id_fkey'')
      else if \<not> list_ex (\<lambda>p. p_id p = w_product_id w) (products db)
        then Some (foreign_key_violation ''wishlists_product_id_fkey'')
      else None)"

text \<open>
  \<^verbatim>\<open>toggle_wishlist(product_uuid)\<close>, a \<^verbatim>\<open>SECURITY DEFINER\<close> function: its statements run
  with the owner's rights, so the policies of \<^verbatim>\<open>wishlists\<close> do not filter them, while
  \<^verbatim>\<open>auth.uid()\<close> is still the caller's. \<open>gen_random_uuid\<close> and \<open>now\<close> are the values the
  column defaults produce for the inserted row.
\<close>

definition toggle_wishlist ::
  "role \<Rightarrow> uuid \<Rightarrow> timestamptz \<Rightarrow> database \<Rightarrow> uuid option \<Rightarrow> error + (bool \<times> database)" where
  "toggle_wishlist r gen_random_uuid now db product_uuid =
     (case auth_uid r of
        None \<Rightarrow> Inl (raise_exception ''User not authenticated'')
      | Some user_uuid \<Rightarrow>
          let this = (\<lambda>w. is_true (sql_and (sql_eq (Some (w_user_id w)) (Some user_uuid))
                                           (sql_eq (Some (w_product_id w)) product_uuid)));
              wishlist_exists = list_ex this (wishlists db)
          in if wishlist_exists then
               Inr (False,
                    db\<lparr>wishlists := delete_rows wishlists_policies service_role db this
                                      (wishlists db)\<rparr>)
             else
               (case product_uuid of
                  None \<Rightarrow> Inl (not_null_violation ''product_id'')
                | Some pid \<Rightarrow>
                    (case insert_row wishlists_policies (wishlists_constraints db) False
                            service_role db
                            \<lparr>w_id = gen_random_uuid, w_user_id = user_uuid, w_product_id = pid,
                             w_created_at = Some now\<rparr>
                            (wishlists db) of
                       Inl e \<Rightarrow> Inl e
                     | Inr tbl \<Rightarrow> Inr (True, db\<lparr>wishlists := tbl\<rparr>))))"

text \<open>Membership of a (user, product) pair in the wishlist table.\<close>

definition in_wishlist :: "database \<Rightarrow> uuid \<Rightarrow> uuid \<Rightarrow> bool" where
  "in_wishlist db u p = list_ex (\<lambda>w. w_user_id w = u \<and> w_product_id w = p) (wishlists db)"

section \<open>Products, orders and order items\<close>

subsection \<open>Triggers\<close>

text \<open>
  \<^verbatim>\<open>handle_updated_at\<close> (\<^verbatim>\<open>NEW.updated_at = now()\<close>) as the triggers
  \<^verbatim>\<open>set_updated_at_products\<close> and \<^verbatim>\<open>set_updated_at_orders\<close> run it, and
  \<^verbatim>\<open>update_location_point\<close> as \<^verbatim>\<open>trigger_products_location\<close> runs it.
\<close>

definition set_updated_at_products :: "timestamptz \<Rightarrow> product \<Rightarrow> product" where
  "set_updated_at_products now NEW = NEW\<lparr>p_updated_at := Some now\<rparr>"

definition set_updated_at_orders :: "timestamptz \<Rightarrow> order \<Rightarrow> order" where
  "set_updated_at_orders now NEW = NEW\<lparr>o_updated_at := Some now\<rparr>"

definition trigger_products_location :: "product \<Rightarrow> product" where
  "trigger_products_location NEW =
     (case p_latitude NEW of
        None \<Rightarrow> NEW
      | Some lat \<Rightarrow>
          (case p_longitude NEW of
             None \<Rightarrow> NEW
           | Some lon \<Rightarrow> NEW\<lparr>p_location_point := Some (ST_MakePoint lon lat)\<rparr>))"

subsection \<open>Declared constraints\<close>

text \<open>
  The \<^verbatim>\<open>CHECK\<close> constraints: \<^verbatim>\<open>price > 0\<close> on products, \<^verbatim>\<open>total_amount > 0\<close> on orders,
  \<^verbatim>\<open>quantity > 0\<close>, \<^verbatim>\<open>unit_price > 0\<close> and \<^verbatim>\<open>total_price > 0\<close> on order items (checked in the
  order of the constraint names).
\<close>

definition products_check :: "product \<Rightarrow> error option" where
  "products_check p =
     (if p_price p > 0 then None else Some (check_violation ''products_price_check''))"

definition orders_check :: "order \<Rightarrow> error option" where
  "orders_check od =
     (if o_total_amount od > 0 then None
      else Some (check_violation ''orders_total_amount_check''))"

definition order_items_check :: "order_item \<Rightarrow> error option" where
  "order_items_check oi =
     (if \<not> oi_quantity oi > 0 then Some (check_violation ''order_items_quantity_check'')
      else if \<not> oi_total_price oi > 0
        then Some (check_violation ''order_items_total_price_check'')
      else if \<not> oi_unit_price oi > 0
        then Some (check_violation ''order_items_unit_price_check'')
      else None)"

text \<open>
  Primary and foreign keys. On \<^verbatim>\<open>INSERT\<close> every key of the new row is checked; on
  \<^verbatim>\<open>UPDATE\<close> a key is checked when the statement changed it. (References from other tables
  to a primary key that an \<^verbatim>\<open>UPDATE\<close> changes are not followed.)
\<close>

definition products_keys :: "database \<Rightarrow> product option \<Rightarrow> product \<Rightarrow> error option" where
  "products_keys db OLD NEW =
     (if map_option p_id OLD \<noteq> Some (p_id NEW)
         \<and> list_ex (\<lambda>x. p_id x = p_id NEW) (products db)
        then Some (unique_violation ''products_pkey'')
      else if map_option p_seller_id OLD \<noteq> Some (p_seller_id NEW)
         \<and> \<not> list_ex (\<lambda>up. up_id up = p_seller_id NEW) (user_profiles db)
        then Some (foreign_key_violation ''products_seller_id_fkey'')
      else if map_option p_category_id OLD \<noteq> Some (p_category_id NEW)
         \<and> \<not> list_ex (\<lambda>c. c_id c = p_category_id NEW) (categories db)
        then Some (foreign_key_violation ''products_category_id_fkey'')
      else None)"

definition orders_keys :: "database \<Rightarrow> order option \<Rightarrow> order \<Rightarrow> error option" where
  "orders_keys db OLD NEW =
     (if map_option o_id OLD \<noteq> Some (o_id NEW)
         \<and> list_ex (\<lambda>x. o_id x = o_id NEW) (orders db)
        then Some (unique_violation ''orders_pkey'')
      else if map_option o_buyer_id OLD \<noteq> Some (o_buyer_id NEW)
         \<and> \<not> list_ex (\<lambda>up. up_id up = o_buyer_id NEW) (user_profiles db)
        then Some (foreign_key_violation ''orders_buyer_id_fkey'')
      else if map_option o_seller_id OLD \<noteq> Some (o_seller_id NEW)
         \<and> \<not> list_ex (\<lambda>up. up_id up = o_seller_id NEW) (user_profiles db)
        then Some (foreign_key_violation ''orders_seller_id_fkey'')
      else None)"

definition order_items_keys ::
  "database \<Rightarrow> order_item option \<Rightarrow> order_item \<Rightarrow> error option" where
  "order_items_keys db OLD NEW =
     (if map_option oi_id OLD \<noteq> Some (oi_id NEW)
         \<and> list_ex (\<lambda>x. oi_id x = oi_id NEW) (order_items db)
        then Some (unique_violation ''order_items_pkey'')
      else if map_option oi_order_id OLD \<noteq> Some (oi_order_id NEW)
         \<and> \<not> list_ex (\<lambda>x. o_id x = oi_order_id NEW) (orders db)
        then Some (foreign_key_violation ''order_items_order_id_fkey'')
      else if map_option oi_product_id OLD \<noteq> Some (oi_product_id NEW)
         \<and> \<not> list_ex (\<lambda>x. p_id x = oi_product_id NEW) (products db)
        then Some (foreign_key_violation ''order_items_product_id_fkey'')
      else None)"

definition first_error :: "error option \<Rightarrow> error option \<Rightarrow> error option" where
  "first_error a b = (case a of Some e \<Rightarrow> Some e | None \<Rightarrow> b)"

text \<open>
  Coercion of an assigned \<^verbatim>\<open>decimal(10,2)\<close> value. A column whose value the statement
  leaves as stored is not coerced again.
\<close>

definition assign_decimal :: "numeric option \<Rightarrow> numeric \<Rightarrow> error + numeric" where
  "assign_decimal stored v = (if stored = Some v then Inr v else decimal_10_2 v)"

text \<open>
  A value assigned to an \<^verbatim>\<open>INTEGER\<close> column is rejected outside the 32-bit range.
\<close>

definition int4 :: "int \<Rightarrow> error + int" where
  "int4 v = (if v < - (2 ^ 31) \<or> 2 ^ 31 \<le> v then Inl numeric_value_out_of_range else Inr v)"

definition assign_integer :: "int option \<Rightarrow> int \<Rightarrow> error + int" where
  "assign_integer stored v = (if stored = Some v then Inr v else int4 v)"

subsection \<open>Statements on products\<close>

text \<open>
  \<^verbatim>\<open>INSERT INTO products\<close>: the row is given with the values of all its columns (the
  caller supplies what the defaults would). \<^verbatim>\<open>UPDATE products SET ... WHERE ...\<close>: \<open>wh\<close> is
  the \<^verbatim>\<open>WHERE\<close> clause and \<open>st\<close> the assignments. \<^verbatim>\<open>DELETE FROM products WHERE ...\<close> with the
  declared actions on the referencing tables (\<^verbatim>\<open>ON DELETE CASCADE\<close> for order items and
  wishlists, \<^verbatim>\<open>ON DELETE SET NULL\<close> for conversations and messages).
\<close>

definition insert_product :: "role \<Rightarrow> database \<Rightarrow> product \<Rightarrow> error + database" where
  "insert_product r db p =
     (case decimal_10_2 (p_price p) of
        Inl e \<Rightarrow> Inl e
      | Inr v \<Rightarrow>
          (case insert_row products_policies
                  (\<lambda>NEW. first_error (products_check NEW) (products_keys db None NEW))
                  False r db (trigger_products_location (p\<lparr>p_price := v\<rparr>)) (products db) of
             Inl e \<Rightarrow> Inl e
           | Inr tbl \<Rightarrow> Inr (db\<lparr>products := tbl\<rparr>)))"

definition update_products ::
  "role \<Rightarrow> timestamptz \<Rightarrow> database \<Rightarrow> (product \<Rightarrow> bool) \<Rightarrow> (product \<Rightarrow> product)
     \<Rightarrow> error + database" where
  "update_products r now db wh st =
     (case update_rows products_policies
             (\<lambda>OLD assigned.
                case assign_decimal (Some (p_price OLD)) (p_price assigned) of
                  Inl e \<Rightarrow> Inl e
                | Inr v \<Rightarrow> Inr (trigger_products_location
                                 (set_updated_at_products now (assigned\<lparr>p_price := v\<rparr>))))
             (\<lambda>OLD NEW. first_error (products_check NEW) (products_keys db (Some OLD) NEW))
             r db wh st (products db) of
        Inl e \<Rightarrow> Inl e
      | Inr tbl \<Rightarrow> Inr (db\<lparr>products := tbl\<rparr>))"

definition delete_products :: "role \<Rightarrow> database \<Rightarrow> (product \<Rightarrow> bool) \<Rightarrow> error + database" where
  "delete_products r db wh =
     (let remaining = delete_rows products_policies r db wh (products db);
          gone = (\<lambda>pid. list_ex (\<lambda>p. p_id p = pid) (products db)
                        \<and> \<not> list_ex (\<lambda>p. p_id p = pid) remaining);
          gone_ref = (\<lambda>ref. case ref of None \<Rightarrow> False | Some pid \<Rightarrow> gone pid)
      in Inr (db\<lparr>products := remaining,
                 order_items := filter (\<lambda>oi. \<not> gone (oi_product_id oi)) (order_items db),
                 wishlists := filter (\<lambda>w. \<not> gone (w_product_id w)) (wishlists db),
                 conversations :=
                   map (\<lambda>cv. if gone_ref (cv_product_id cv) then cv\<lparr>cv_product_id := None\<rparr>
                              else cv) (conversations db),
                 messages :=
                   map (\<lambda>m. if gone_ref (m_product_id m) then m\<lparr>m_product_id := None\<rparr>
                             else m) (messages db)\<rparr>))"

subsection \<open>Statements on orders and order items\<close>

text \<open>\<open>stored_order\<close> is the row as the table stores it (and as \<^verbatim>\<open>RETURNING\<close> reports it).\<close>

definition stored_order :: "order \<Rightarrow> error + order" where
  "stored_order od =
     (case decimal_10_2 (o_total_amount od) of
        Inl e \<Rightarrow> Inl e
      | Inr v \<Rightarrow> Inr (od\<lparr>o_total_amount := v\<rparr>))"

definition insert_order :: "bool \<Rightarrow> role \<Rightarrow> database \<Rightarrow> order \<Rightarrow> error + database" where
  "insert_order returning r db od =
     (case stored_order od of
        Inl e \<Rightarrow> Inl e
      | Inr NEW \<Rightarrow>
          (case insert_row orders_policies
                  (\<lambda>NEW. first_error (orders_check NEW) (orders_keys db None NEW))
                  returning r db NEW (orders db) of
             Inl e \<Rightarrow> Inl e
           | Inr tbl \<Rightarrow> Inr (db\<lparr>orders := tbl\<rparr>)))"

definition update_orders ::
  "role \<Rightarrow> timestamptz \<Rightarrow> database \<Rightarrow> (order \<Rightarrow> bool) \<Rightarrow> (order \<Rightarrow> order)
     \<Rightarrow> error + database" where
  "update_orders r now db wh st =
     (case update_rows orders_policies
             (\<lambda>OLD assigned.
                case assign_decimal (Some (o_total_amount OLD)) (o_total_amount assigned) of
                  Inl e \<Rightarrow> Inl e
                | Inr v \<Rightarrow> Inr (set_updated_at_orders now (assigned\<lparr>o_total_amount := v\<rparr>)))
             (\<lambda>OLD NEW. first_error (orders_check NEW) (orders_keys db (Some OLD) NEW))
             r db wh st (orders db) of
        Inl e \<Rightarrow> Inl e
      | Inr tbl \<Rightarrow> Inr (db\<lparr>orders := tbl\<rparr>))"

text \<open>
  The assigned values of an order item are converted to the types of their columns, in the
  order of the columns: \<^verbatim>\<open>quantity integer\<close>, \<^verbatim>\<open>unit_price decimal(10,2)\<close>,
  \<^verbatim>\<open>total_price decimal(10,2)\<close>.
\<close>

definition coerce_order_item :: "order_item option \<Rightarrow> order_item \<Rightarrow> error + order_item" where
  "coerce_order_item OLD oi =
     (case assign_integer (map_option oi_quantity OLD) (oi_quantity oi) of
        Inl e \<Rightarrow> Inl e
      | Inr q \<Rightarrow>
          (case assign_decimal (map_option oi_unit_price OLD) (oi_unit_price oi) of
             Inl e \<Rightarrow> Inl e
           | Inr u \<Rightarrow>
               (case assign_decimal (map_option oi_total_price OLD) (oi_total_price oi) of
                  Inl e \<Rightarrow> Inl e
                | Inr t \<Rightarrow> Inr (oi\<lparr>oi_quantity := q, oi_unit_price := u,
                                    oi_total_price := t\<rparr>))))"

definition insert_order_item :: "role \<Rightarrow> database \<Rightarrow> order_item \<Rightarrow> error + database" where
  "insert_order_item r db oi =
     (case coerce_order_item None oi of
        Inl e \<Rightarrow> Inl e
      | Inr NEW \<Rightarrow>
          (case insert_row order_items_policies
                  (\<lambda>NEW. first_error (order_items_check NEW) (order_items_keys db None NEW))
                  False r db NEW (order_items db) of
             Inl e \<Rightarrow> Inl e
           | Inr tbl \<Rightarrow> Inr (db\<lparr>order_items := tbl\<rparr>)))"

text \<open>
  \<^verbatim>\<open>INSERT INTO order_items\<close> of several rows in one statement, as the data API runs it for
  an array of objects. The array is converted to rows of the table's type before the first
  row is inserted, so a value that does not fit its column fails the statement first. Then
  each row in turn passes the policies' checks, the \<^verbatim>\<open>CHECK\<close> constraints and the primary
  key, which sees the rows that the statement has already added. The foreign keys are
  checked when all rows are in, again row by row.
\<close>

fun coerce_order_items :: "order_item list \<Rightarrow> error + order_item list" where
  "coerce_order_items [] = Inr []"
| "coerce_order_items (oi # ois) =
     (case coerce_order_item None oi of
        Inl e \<Rightarrow> Inl e
      | Inr NEW \<Rightarrow>
          (case coerce_order_items ois of
             Inl e \<Rightarrow> Inl e
           | Inr NEWs \<Rightarrow> Inr (NEW # NEWs)))"

definition order_items_pkey :: "order_item list \<Rightarrow> order_item \<Rightarrow> error option" where
  "order_items_pkey tbl NEW =
     (if list_ex (\<lambda>x. oi_id x = oi_id NEW) tbl
        then Some (unique_violation ''order_items_pkey'')
      else None)"

definition order_items_fkeys :: "database \<Rightarrow> order_item \<Rightarrow> error option" where
  "order_items_fkeys db NEW =
     (if \<not> list_ex (\<lambda>x. o_id x = oi_order_id NEW) (orders db)
        then Some (foreign_key_violation ''order_items_order_id_fkey'')
      else if \<not> list_ex (\<lambda>x. p_id x = oi_product_id NEW) (products db)
        then Some (foreign_key_violation ''order_items_product_id_fkey'')
      else None)"

fun append_order_items ::
  "role \<Rightarrow> database \<Rightarrow> order_item list \<Rightarrow> order_item list \<Rightarrow> error + order_item list" where
  "append_order_items r db tbl [] = Inr tbl"
| "append_order_items r db tbl (NEW # NEWs) =
     (if \<not> rls_with_check order_items_policies FOR_INSERT r db NEW then Inl rls_error
      else case first_error (order_items_check NEW) (order_items_pkey tbl NEW) of
             Some e \<Rightarrow> Inl e
           | None \<Rightarrow> append_order_items r db (tbl @ [NEW]) NEWs)"

fun check_order_items_fkeys :: "database \<Rightarrow> order_item list \<Rightarrow> error option" where
  "check_order_items_fkeys db [] = None"
| "check_order_items_fkeys db (NEW # NEWs) =
     first_error (order_items_fkeys db NEW) (check_order_items_fkeys db NEWs)"

definition insert_order_items :: "role \<Rightarrow> database \<Rightarrow> order_item list \<Rightarrow> error + database" where
  "insert_order_items r db ois =
     (case coerce_order_items ois of
        Inl e \<Rightarrow> Inl e
      | Inr NEWs \<Rightarrow>
          (case append_order_items r db (order_items db) NEWs of
             Inl e \<Rightarrow> Inl e
           | Inr tbl \<Rightarrow>
               (case check_order_items_fkeys db NEWs of
                  Some e \<Rightarrow> Inl e
                | None \<Rightarrow> Inr (db\<lparr>order_items := tbl\<rparr>))))"

definition update_order_items ::
  "role \<Rightarrow> database \<Rightarrow> (order_item \<Rightarrow> bool) \<Rightarrow> (order_item \<Rightarrow> order_item)
     \<Rightarrow> error + database" where
  "update_order_items r db wh st =
     (case update_rows order_items_policies
             (\<lambda>OLD assigned. coerce_order_item (Some OLD) assigned)
             (\<lambda>OLD NEW. first_error (order_items_check NEW)
                           (order_items_keys db (Some OLD) NEW))
             r db wh st (order_items db) of
        Inl e \<Rightarrow> Inl e
      | Inr tbl \<Rightarrow> Inr (db\<lparr>order_items := tbl\<rparr>))"

subsection \<open>Location synchronisation\<close>

text \<open>
  \<^verbatim>\<open>sync_product_location\<close>, the \<^verbatim>\<open>AFTER UPDATE\<close> row trigger of \<^verbatim>\<open>user_profiles\<close>. It runs
  with the rights of the role whose statement fired it, so its \<^verbatim>\<open>UPDATE products\<close> is an
  ordinary update under that role.
\<close>

definition sync_product_location ::
  "role \<Rightarrow> timestamptz \<Rightarrow> string \<Rightarrow> user_profile \<Rightarrow> user_profile \<Rightarrow> database
     \<Rightarrow> error + database" where
  "sync_product_location r now TG_OP OLD NEW db =
     (if TG_OP = ''UPDATE'' \<and>
         (is_distinct_from (up_city OLD) (up_city NEW) \<or>
          is_distinct_from (up_state OLD) (up_state NEW) \<or>
          is_distinct_from (up_pincode OLD) (up_pincode NEW) \<or>
          is_distinct_from (up_latitude OLD) (up_latitude NEW) \<or>
          is_distinct_from (up_longitude OLD) (up_longitude NEW))
      then
        update_products r now db
          (\<lambda>p. p_seller_id p = up_id NEW \<and> p_status p = active)
          (\<lambda>p. p\<lparr>p_city := up_city NEW,
                  p_state := up_state NEW,
                  p_pincode := up_pincode NEW,
                  p_latitude := up_latitude NEW,
                  p_longitude := up_longitude NEW,
                  p_location_point := up_location_point NEW,
                  p_updated_at := Some now\<rparr>)
      else Inr db)"

section \<open>Nearby products\<close>

text \<open>
  \<^verbatim>\<open>ORDER BY\<close> as a stable insertion sort by a comparison \<open>le a b\<close> (``\<open>a\<close> may come
  before \<open>b\<close>''); PostgreSQL leaves the order of rows with equal keys open, the model keeps
  their scan order. \<^verbatim>\<open>DESC\<close> puts \<^verbatim>\<open>NULL\<close> first, \<^verbatim>\<open>ASC\<close> puts it last. \<open>lex_le\<close> orders
  by a first key and, among equals, by a second one.
\<close>

fun insort_by :: "('a \<Rightarrow> 'a \<Rightarrow> bool) \<Rightarrow> 'a \<Rightarrow> 'a list \<Rightarrow> 'a list" where
  "insort_by le x [] = [x]"
| "insort_by le x (y # ys) = (if le x y then x # y # ys else y # insort_by le x ys)"

definition order_by :: "('a \<Rightarrow> 'a \<Rightarrow> bool) \<Rightarrow> 'a list \<Rightarrow> 'a list" where
  "order_by le xs = foldr (insort_by le) xs []"

definition desc_nulls_first :: "('k::linorder) option \<Rightarrow> 'k option \<Rightarrow> bool" where
  "desc_nulls_first a b =
     (case a of None \<Rightarrow> True | Some x \<Rightarrow> (case b of None \<Rightarrow> False | Some y \<Rightarrow> y \<le> x))"

definition asc_nulls_last :: "('k::linorder) option \<Rightarrow> 'k option \<Rightarrow> bool" where
  "asc_nulls_last a b =
     (case b of None \<Rightarrow> True | Some y \<Rightarrow> (case a of None \<Rightarrow> False | Some x \<Rightarrow> x \<le> y))"

definition lex_le :: "('a \<Rightarrow> 'a \<Rightarrow> bool) \<Rightarrow> ('a \<Rightarrow> 'a \<Rightarrow> bool) \<Rightarrow> 'a \<Rightarrow> 'a \<Rightarrow> bool" where
  "lex_le le1 le2 a b = (le1 a b \<and> (le1 b a \<longrightarrow> le2 a b))"

text \<open>\<^verbatim>\<open>LIMIT n\<close>: no limit for \<^verbatim>\<open>NULL\<close>, an error for a negative count.\<close>

definition limit :: "int option \<Rightarrow> 'a list \<Rightarrow> error + 'a list" where
  "limit n xs =
     (case n of
        None \<Rightarrow> Inr xs
      | Some k \<Rightarrow> if k < 0 then Inl invalid_row_count_in_limit_clause
                  else Inr (take (nat k) xs))"

text \<open>
  The product of two \<^verbatim>\<open>INTEGER\<close> values is an error outside the 32-bit range and \<^verbatim>\<open>NULL\<close>
  when an operand is.
\<close>

definition int4mul :: "int option \<Rightarrow> int option \<Rightarrow> error + int option" where
  "int4mul a b =
     (case a of
        None \<Rightarrow> Inr None
      | Some x \<Rightarrow>
          (case b of
             None \<Rightarrow> Inr None
           | Some y \<Rightarrow>
               if x * y < - (2 ^ 31) \<or> 2 ^ 31 \<le> x * y then Inl numeric_value_out_of_range
               else Inr (Some (x * y))))"

text \<open>
  The geodesic distance in metres, \<^verbatim>\<open>ST_Distance\<close>, is computed by the database's
  geography extension and is a parameter of the model. \<^verbatim>\<open>ST_DWithin(a, b, d)\<close> holds when
  the distance of \<open>a\<close> and \<open>b\<close> is at most \<open>d\<close>; like every strict function it is \<^verbatim>\<open>NULL\<close>
  on a \<^verbatim>\<open>NULL\<close> argument.
\<close>

definition ST_DWithin ::
  "(geography \<Rightarrow> geography \<Rightarrow> real) \<Rightarrow> geography option \<Rightarrow> geography option \<Rightarrow> real option
     \<Rightarrow> bool option" where
  "ST_DWithin ST_Distance a b d =
     (case a of
        None \<Rightarrow> None
      | Some x \<Rightarrow>
          (case b of
             None \<Rightarrow> None
           | Some y \<Rightarrow> (case d of None \<Rightarrow> None | Some t \<Rightarrow> Some (ST_Distance x y \<le> t))))"

text \<open>The row type of \<^verbatim>\<open>get_nearby_products\<close> (\<^verbatim>\<open>RETURNS TABLE\<close>).\<close>

record nearby_product =
  np_id :: uuid
  np_title :: string
  np_description :: string
  np_price :: numeric
  np_category_id :: uuid
  np_condition :: product_condition
  np_city :: "string option"
  np_state :: "string option"
  np_pincode :: "string option"
  np_image_urls :: "string list option"
  np_status :: product_status
  np_views :: "int option"
  np_created_at :: "timestamptz option"
  np_updated_at :: "timestamptz option"
  np_seller_id :: uuid
  np_seller_name :: string
  np_seller_rating :: numeric
  np_category_name :: string
  np_distance_km :: "numeric option"

text \<open>The select list of both queries; only \<^verbatim>\<open>distance_km\<close> differs.\<close>

definition nearby_row ::
  "product \<Rightarrow> user_profile \<Rightarrow> category \<Rightarrow> numeric option \<Rightarrow> nearby_product" where
  "nearby_row p up c distance_km =
     \<lparr>np_id = p_id p, np_title = p_title p, np_description = p_description p,
      np_price = p_price p, np_category_id = p_category_id p, np_condition = p_condition p,
      np_city = p_city p, np_state = p_state p, np_pincode = p_pincode p,
      np_image_urls = p_image_urls p, np_status = p_status p, np_views = p_views p,
      np_created_at = p_created_at p, np_updated_at = p_updated_at p,
      np_seller_id = p_seller_id p, np_seller_name = up_full_name up,
      np_seller_rating = 4.5, np_category_name = c_name c,
      np_distance_km = distance_km\<rparr>"

text \<open>
  \<^verbatim>\<open>FROM products p JOIN user_profiles up ON p.seller_id = up.id
  JOIN categories c ON p.category_id = c.id\<close>, over the rows the role may see (the function
  is not \<^verbatim>\<open>SECURITY DEFINER\<close>).
\<close>

definition products_joined :: "role \<Rightarrow> database \<Rightarrow> (product \<times> user_profile \<times> category) list" where
  "products_joined r db =
     [(p, up, c).
        p \<leftarrow> select_rows products_policies r db (products db),
        up \<leftarrow> select_rows user_profiles_policies r db (user_profiles db),
        p_seller_id p = up_id up,
        c \<leftarrow> select_rows categories_policies r db (categories db),
        p_category_id p = c_id c]"

text \<open>
  \<^verbatim>\<open>get_nearby_products(user_lat, user_lon, radius_km, limit_count)\<close>. The first branch is
  taken when \<^verbatim>\<open>user_lat IS NULL OR user_lon IS NULL\<close>. In the second branch
  \<^verbatim>\<open>radius_km * 1000\<close> is an \<^verbatim>\<open>INTEGER\<close> product, \<^verbatim>\<open>distance_km\<close> is the distance in metres
  divided by 1000, and the rows are ordered by \<^verbatim>\<open>distance_km ASC, p.created_at DESC\<close>.
\<close>

definition get_nearby_products ::
  "(geography \<Rightarrow> geography \<Rightarrow> real) \<Rightarrow> role \<Rightarrow> database
     \<Rightarrow> numeric option \<Rightarrow> numeric option \<Rightarrow> int option \<Rightarrow> int option
     \<Rightarrow> error + nearby_product list" where
  "get_nearby_products ST_Distance r db user_lat user_lon radius_km limit_count =
     (let recent =
            limit limit_count
              (order_by (\<lambda>a b. desc_nulls_first (np_created_at a) (np_created_at b))
                 [nearby_row p up c None.
                    (p, up, c) \<leftarrow> products_joined r db, p_status p = active])
      in case user_lat of
           None \<Rightarrow> recent
         | Some lat \<Rightarrow>
             (case user_lon of
                None \<Rightarrow> recent
              | Some lon \<Rightarrow>
                  (case int4mul radius_km (Some 1000) of
                     Inl e \<Rightarrow> Inl e
                   | Inr metres \<Rightarrow>
                       limit limit_count
                         (order_by
                            (lex_le
                               (\<lambda>a b. asc_nulls_last (np_distance_km a) (np_distance_km b))
                               (\<lambda>a b. desc_nulls_first (np_created_at a) (np_created_at b)))
                            [nearby_row p up c
                               (map_option (\<lambda>g. ST_Distance g (ST_MakePoint lon lat) / 1000)
                                  (p_location_point p)).
                               (p, up, c) \<leftarrow> products_joined r db,
                               p_status p = active
                               \<and> p_location_point p \<noteq> None
                               \<and> is_true (ST_DWithin ST_Distance (p_location_point p)
                                             (Some (ST_MakePoint lon lat))
                                             (map_option real_of_int metres))]))))"

section \<open>Conversations and messages\<close>

text \<open>
  The constraints of \<^verbatim>\<open>conversations\<close>: primary key,
  \<^verbatim>\<open>UNIQUE(user1_id, user2_id, product_id)\<close> (which never matches a row whose
  \<^verbatim>\<open>product_id\<close> is \<^verbatim>\<open>NULL\<close>) and the three foreign keys.
\<close>

definition conversations_keys :: "database \<Rightarrow> conversation \<Rightarrow> error option" where
  "conversations_keys db NEW =
     (if list_ex (\<lambda>x. cv_id x = cv_id NEW) (conversations db)
        then Some (unique_violation ''conversations_pkey'')
      else if list_ex (\<lambda>x. cv_user1_id x = cv_user1_id NEW \<and> cv_user2_id x = cv_user2_id NEW
                           \<and> is_true (sql_eq (cv_product_id x) (cv_product_id NEW)))
                (conversations db)
        then Some (unique_violation ''conversations_user1_id_user2_id_product_id_key'')
      else if \<not> list_ex (\<lambda>up. up_id up = cv_user1_id NEW) (user_profiles db)
        then Some (foreign_key_violation ''conversations_user1_id_fkey'')
      else if \<not> list_ex (\<lambda>up. up_id up = cv_user2_id NEW) (user_profiles db)
        then Some (foreign_key_violation ''conversations_user2_id_fkey'')
      else if (case cv_product_id NEW of
                 None \<Rightarrow> False
               | Some pid \<Rightarrow> \<not> list_ex (\<lambda>p. p_id p = pid) (products db))
        then Some (foreign_key_violation ''conversations_product_id_fkey'')
      else None)"

definition insert_conversation :: "role \<Rightarrow> database \<Rightarrow> conversation \<Rightarrow> error + database" where
  "insert_conversation r db cv =
     (case insert_row conversations_policies (conversations_keys db) False r db cv
             (conversations db) of
        Inl e \<Rightarrow> Inl e
      | Inr tbl \<Rightarrow> Inr (db\<lparr>conversations := tbl\<rparr>))"

text \<open>
  In the \<^verbatim>\<open>SELECT\<close> of \<^verbatim>\<open>get_or_create_conversation\<close> the unqualified names \<^verbatim>\<open>user1_id\<close>,
  \<^verbatim>\<open>user2_id\<close> and \<^verbatim>\<open>product_id\<close> are both parameters of the function and columns of
  \<^verbatim>\<open>conversations\<close>. What PL/pgSQL does with such a name is the setting
  \<^verbatim>\<open>plpgsql.variable_conflict\<close>, which no migration sets: with the default, \<^verbatim>\<open>error\<close>, the
  statement raises ``column reference is ambiguous''; \<^verbatim>\<open>use_variable\<close> reads the parameter
  and \<^verbatim>\<open>use_column\<close> the column. The setting is a parameter of the model.
\<close>

datatype variable_conflict = conflict_error | use_variable | use_column

definition resolve :: "variable_conflict \<Rightarrow> 'a \<Rightarrow> 'a \<Rightarrow> 'a" where
  "resolve vc variable column = (case vc of use_column \<Rightarrow> column | _ \<Rightarrow> variable)"

text \<open>
  \<^verbatim>\<open>get_or_create_conversation(user1_id, user2_id, product_id)\<close>. \<^verbatim>\<open>SELECT id INTO\<close> keeps the
  first row found, or \<^verbatim>\<open>NULL\<close>. \<open>uuid_generate_v4\<close> and \<open>now\<close> are the column defaults of the
  inserted row. The function is not \<^verbatim>\<open>SECURITY DEFINER\<close>: the policies of \<^verbatim>\<open>conversations\<close>
  apply to its statements.
\<close>

definition get_or_create_conversation ::
  "variable_conflict \<Rightarrow> role \<Rightarrow> uuid \<Rightarrow> timestamptz \<Rightarrow> database
     \<Rightarrow> uuid option \<Rightarrow> uuid option \<Rightarrow> uuid option \<Rightarrow> error + (uuid \<times> database)" where
  "get_or_create_conversation vc r uuid_generate_v4 now db user1_id user2_id product_id =
     (let ordered_user1 = (if is_true (sql_lt user1_id user2_id) then user1_id else user2_id);
          ordered_user2 = (if is_true (sql_lt user1_id user2_id) then user2_id else user1_id)
      in if vc = conflict_error then Inl (ambiguous_column ''user1_id'')
         else
           (case filter
                   (\<lambda>cv. is_true
                      (sql_and
                         (sql_and
                            (sql_eq (resolve vc user1_id (Some (cv_user1_id cv))) ordered_user1)
                            (sql_eq (resolve vc user2_id (Some (cv_user2_id cv))) ordered_user2))
                         (sql_or (is_null (resolve vc product_id (cv_product_id cv)))
                                 (sql_eq (cv_product_id cv) product_id))))
                   (select_rows conversations_policies r db (conversations db)) of
              cv # _ \<Rightarrow> Inr (cv_id cv, db)
            | [] \<Rightarrow>
                (case ordered_user1 of
                   None \<Rightarrow> Inl (not_null_violation ''user1_id'')
                 | Some u1 \<Rightarrow>
                     (case ordered_user2 of
                        None \<Rightarrow> Inl (not_null_violation ''user2_id'')
                      | Some u2 \<Rightarrow>
                          (case insert_conversation r db
                                  \<lparr>cv_id = uuid_generate_v4, cv_user1_id = u1,
                                   cv_user2_id = u2, cv_product_id = product_id,
                                   cv_last_message_at = Some now, cv_created_at = Some now\<rparr> of
                             Inl e \<Rightarrow> Inl e
                           | Inr db' \<Rightarrow> Inr (uuid_generate_v4, db'))))))"

text \<open>
  The \<^verbatim>\<open>WHERE\<close> clause of that \<^verbatim>\<open>SELECT\<close> as a predicate on the rows of \<^verbatim>\<open>conversations\<close>,
  for reasoning about the rows it finds.
\<close>

definition thread_where ::
  "variable_conflict \<Rightarrow> uuid option \<Rightarrow> uuid option \<Rightarrow> uuid option \<Rightarrow> conversation \<Rightarrow> bool" where
  "thread_where vc user1_id user2_id product_id cv =
     is_true
       (sql_and
          (sql_and
             (sql_eq (resolve vc user1_id (Some (cv_user1_id cv)))
                (if is_true (sql_lt user1_id user2_id) then user1_id else user2_id))
             (sql_eq (resolve vc user2_id (Some (cv_user2_id cv)))
                (if is_true (sql_lt user1_id user2_id) then user2_id else user1_id)))
          (sql_or (is_null (resolve vc product_id (cv_product_id cv)))
                  (sql_eq (cv_product_id cv) product_id)))"

text \<open>
  Two rows are the same thread when they agree on both participants and on the product
  scope, a missing product being a scope of its own.
\<close>

definition same_thread :: "conversation \<Rightarrow> conversation \<Rightarrow> bool" where
  "same_thread a b =
     (cv_user1_id a = cv_user1_id b \<and> cv_user2_id a = cv_user2_id b
      \<and> cv_product_id a = cv_product_id b)"

text \<open>
  The two message retrievals of the client. The first (with the other user and an optional
  product) selects by sender and receiver, \<^verbatim>\<open>or(and(sender_id.eq.user,receiver_id.eq.other),
  and(sender_id.eq.other,receiver_id.eq.user))\<close>, and by \<^verbatim>\<open>product_id\<close> when one is given; the
  second selects by \<^verbatim>\<open>conversation_id\<close>. Both order by \<^verbatim>\<open>created_at\<close> ascending and both read
  through the policies of \<^verbatim>\<open>messages\<close>.
\<close>

definition getMessages_by_user_pair ::
  "role \<Rightarrow> database \<Rightarrow> uuid \<Rightarrow> uuid option \<Rightarrow> error + message list" where
  "getMessages_by_user_pair r db otherUserId productId =
     (case auth_uid r of
        None \<Rightarrow> Inl (raise_exception ''User not authenticated'')
      | Some user_id \<Rightarrow>
          Inr (order_by (\<lambda>a b. asc_nulls_last (m_created_at a) (m_created_at b))
                 (filter
                    (\<lambda>m. ((m_sender_id m = user_id \<and> m_receiver_id m = otherUserId)
                           \<or> (m_sender_id m = otherUserId \<and> m_receiver_id m = user_id))
                          \<and> (case productId of
                                None \<Rightarrow> True
                              | Some pid \<Rightarrow> is_true (sql_eq (m_product_id m) (Some pid))))
                    (select_rows messages_policies r db (messages db)))))"

definition getMessages_by_conversation ::
  "role \<Rightarrow> database \<Rightarrow> uuid \<Rightarrow> error + message list" where
  "getMessages_by_conversation r db conversationId =
     Inr (order_by (\<lambda>a b. asc_nulls_last (m_created_at a) (m_created_at b))
            (filter (\<lambda>m. m_conversation_id m = conversationId)
               (select_rows messages_policies r db (messages db))))"

section \<open>Client functions\<close>

subsection \<open>JavaScript numbers\<close>

text \<open>
  A JavaScript number is an IEEE 754 double: \<^verbatim>\<open>NaN\<close>, an infinity, or a finite value,
  given here by the real number it denotes (the two zeros are one value, as \<^verbatim>\<open>===\<close> has
  them; \<^verbatim>\<open>+\<close> and \<^verbatim>\<open>*\<close> tell them apart in the sign of a zero result only).
  \<open>binary_exponent x\<close> is the integer \<open>e\<close> with \<open>2^e \<le> |x| < 2^(e+1)\<close>, for \<open>x\<close> other
  than zero. \<open>to_double\<close> rounds a real to the nearest double, ties to the even significand
  of 53 bits, with the subnormal spacing below \<open>2^-1022\<close> and an infinity from \<open>2^1024\<close>
  on. A sum or a product of finite numbers is the exact result, rounded.
\<close>

datatype number = NaN | Infinity | Negative_Infinity | Num real

definition pow2 :: "int \<Rightarrow> real" where
  "pow2 q = (if 0 \<le> q then 2 ^ nat q else 1 / 2 ^ nat (- q))"

definition binary_exponent :: "real \<Rightarrow> int" where
  "binary_exponent x =
     (if 1 \<le> \<bar>x\<bar> then bitlen \<lfloor>\<bar>x\<bar>\<rfloor> - 1 else - bitlen (\<lceil>1 / \<bar>x\<bar>\<rceil> - 1))"

definition round_ties_to_even :: "real \<Rightarrow> int" where
  "round_ties_to_even y =
     (if y - of_int \<lfloor>y\<rfloor> < 1 / 2 then \<lfloor>y\<rfloor>
      else if 1 / 2 < y - of_int \<lfloor>y\<rfloor> then \<lfloor>y\<rfloor> + 1
      else if even \<lfloor>y\<rfloor> then \<lfloor>y\<rfloor>
      else \<lfloor>y\<rfloor> + 1)"

definition to_double :: "real \<Rightarrow> number" where
  "to_double x =
     (if x = 0 then Num 0
      else
        (let ulp = pow2 (max (binary_exponent x) (- 1022) - 52);
             v = of_int (round_ties_to_even (x / ulp)) * ulp
         in if 2 ^ 1024 \<le> \<bar>v\<bar> then (if 0 < x then Infinity else Negative_Infinity)
            else Num v))"

definition js_sign :: "number \<Rightarrow> real" where
  "js_sign x =
     (case x of NaN \<Rightarrow> 0 | Infinity \<Rightarrow> 1 | Negative_Infinity \<Rightarrow> - 1 | Num a \<Rightarrow> sgn a)"

definition js_add :: "number \<Rightarrow> number \<Rightarrow> number" where
  "js_add x y =
     (case (x, y) of
        (NaN, _) \<Rightarrow> NaN
      | (_, NaN) \<Rightarrow> NaN
      | (Num a, Num b) \<Rightarrow> to_double (a + b)
      | (Infinity, Negative_Infinity) \<Rightarrow> NaN
      | (Negative_Infinity, Infinity) \<Rightarrow> NaN
      | (Infinity, _) \<Rightarrow> Infinity
      | (_, Infinity) \<Rightarrow> Infinity
      | (_, _) \<Rightarrow> Negative_Infinity)"

definition js_mul :: "number \<Rightarrow> number \<Rightarrow> number" where
  "js_mul x y =
     (case (x, y) of
        (NaN, _) \<Rightarrow> NaN
      | (_, NaN) \<Rightarrow> NaN
      | (Num a, Num b) \<Rightarrow> to_double (a * b)
      | (_, _) \<Rightarrow>
          if js_sign x * js_sign y = 0 then NaN
          else if 0 < js_sign x * js_sign y then Infinity
          else Negative_Infinity)"

subsection \<open>Order creation\<close>

text \<open>
  \<^verbatim>\<open>OrderProvider.createOrder(items, deliveryAddress, paymentMethod)\<close> of the in-memory order
  context. \<open>now_id\<close> and \<open>now_iso\<close> are \<^verbatim>\<open>Date.now().toString()\<close> and
  \<^verbatim>\<open>new Date().toISOString()\<close>. The function returns the new identifier and the new list
  of orders (\<^verbatim>\<open>setOrders(prev => [newOrder, ...prev])\<close>).
\<close>

record cart_item =
  ci_id :: string
  ci_title :: string
  ci_price :: number
  ci_image :: string
  ci_quantity :: number
  ci_seller_name :: string

record client_order =
  co_id :: string
  co_items :: "cart_item list"
  co_totalAmount :: number
  co_status :: string
  co_orderDate :: string
  co_deliveryAddress :: string
  co_paymentMethod :: string

definition OrderProvider_createOrder ::
  "string \<Rightarrow> string \<Rightarrow> client_order list \<Rightarrow> cart_item list \<Rightarrow> string \<Rightarrow> string
     \<Rightarrow> string \<times> client_order list" where
  "OrderProvider_createOrder now_id now_iso prev items deliveryAddress paymentMethod =
     (let newOrder =
            \<lparr>co_id = now_id,
             co_items = items,
             co_totalAmount =
               foldl (\<lambda>total item. js_add total (js_mul (ci_price item) (ci_quantity item)))
                 (Num 0) items,
             co_status = ''ordered'',
             co_orderDate = now_iso,
             co_deliveryAddress = deliveryAddress,
             co_paymentMethod = paymentMethod\<rparr>
      in (co_id newOrder, newOrder # prev))"

text \<open>
  \<^verbatim>\<open>createOrder(orderInput, items)\<close> of the database client: one \<^verbatim>\<open>INSERT\<close> of the order
  with \<^verbatim>\<open>RETURNING\<close>, then one \<^verbatim>\<open>INSERT\<close> of all items. The two requests are separate
  transactions, so the function returns the database it leaves behind together with its
  result: when the second request fails the order row stays. \<open>gen\<close> lists the identifiers
  that \<^verbatim>\<open>uuid_generate_v4()\<close> draws (the order's first), \<open>now\<close> is the time of the defaults.
  The amounts and the quantity are the numbers that the request carries in its JSON body.
\<close>

record order_input =
  in_seller_id :: uuid
  in_total_amount :: numeric
  in_delivery_address :: string
  in_payment_method :: string
  in_notes :: "string option"

record item_input =
  it_product_id :: uuid
  it_quantity :: int
  it_unit_price :: numeric
  it_total_price :: numeric

definition createOrder ::
  "role \<Rightarrow> (nat \<Rightarrow> uuid) \<Rightarrow> timestamptz \<Rightarrow> database \<Rightarrow> order_input \<Rightarrow> item_input list
     \<Rightarrow> database \<times> (error + order)" where
  "createOrder r gen now db orderInput items =
     (case auth_uid r of
        None \<Rightarrow> (db, Inl (raise_exception ''User not authenticated''))
      | Some user_id \<Rightarrow>
          (let row = \<lparr>o_id = gen 0, o_buyer_id = user_id,
                      o_seller_id = in_seller_id orderInput,
                      o_total_amount = in_total_amount orderInput,
                      o_status = pending,
                      o_delivery_address = in_delivery_address orderInput,
                      o_payment_method = in_payment_method orderInput,
                      o_notes = in_notes orderInput,
                      o_created_at = Some now, o_updated_at = Some now\<rparr>
           in case insert_order True r db row of
                Inl orderError \<Rightarrow> (db, Inl orderError)
              | Inr db1 \<Rightarrow>
                  (case stored_order row of
                     Inl orderError \<Rightarrow> (db, Inl orderError)
                   | Inr orderData \<Rightarrow>
                       (let orderItems =
                              map (\<lambda>(i, item).
                                     \<lparr>oi_id = gen (Suc i), oi_order_id = o_id orderData,
                                      oi_product_id = it_product_id item,
                                      oi_quantity = it_quantity item,
                                      oi_unit_price = it_unit_price item,
                                      oi_total_price = it_total_price item,
                                      oi_created_at = Some now\<rparr>)
                                (enumerate 0 items)
                        in case insert_order_items r db1 orderItems of
                             Inl itemsError \<Rightarrow> (db1, Inl itemsError)
                           | Inr db2 \<Rightarrow> (db2, Inr orderData)))))"

text \<open>The sum of the total prices of the line items of an order.\<close>

definition order_items_total :: "database \<Rightarrow> uuid \<Rightarrow> numeric" where
  "order_items_total db oid =
     sum_list (map oi_total_price (filter (\<lambda>oi. oi_order_id oi = oid) (order_items db)))"

subsection \<open>Remote procedure calls and product search\<close>

text \<open>
  The procedures that the migrations create, with their parameter names and the number of
  trailing parameters that have a default. (\<^verbatim>\<open>get_products_by_category\<close> is not among them:
  its declaration uses the name \<^verbatim>\<open>category_name\<close> for a parameter and for a result column,
  which PostgreSQL refuses.) The data API resolves a call by the procedure
  name and the names of the arguments given: every argument must name a parameter and every
  parameter without a default must be given; when no procedure fits, the call fails with
  \<open>PGRST202\<close> and nothing is run.
\<close>

record routine =
  proname :: string
  proargnames :: "string list"
  pronargdefaults :: nat

definition stored_procedures :: "routine list" where
  "stored_procedures =
     [\<lparr>proname = ''toggle_wishlist'', proargnames = [''product_uuid''],
       pronargdefaults = 0\<rparr>,
      \<lparr>proname = ''get_user_wishlist'', proargnames = [], pronargdefaults = 0\<rparr>,
      \<lparr>proname = ''get_special_products'',
       proargnames = [''product_type'', ''limit_count''], pronargdefaults = 2\<rparr>,
      \<lparr>proname = ''get_nearby_products'',
       proargnames = [''user_lat'', ''user_lon'', ''radius_km'', ''limit_count''],
       pronargdefaults = 4\<rparr>,
      \<lparr>proname = ''get_or_create_conversation'',
       proargnames = [''user1_id'', ''user2_id'', ''product_id''], pronargdefaults = 1\<rparr>,
      \<lparr>proname = ''send_message'',
       proargnames = [''sender_id'', ''receiver_id'', ''message_text'', ''product_id''],
       pronargdefaults = 1\<rparr>]"

definition rpc_resolve :: "routine list \<Rightarrow> string \<Rightarrow> string list \<Rightarrow> error + routine" where
  "rpc_resolve procs fn argnames =
     (case filter
             (\<lambda>f. proname f = fn
                   \<and> list_all (\<lambda>a. a \<in> set (proargnames f)) argnames
                   \<and> list_all (\<lambda>a. a \<in> set argnames)
                       (take (length (proargnames f) - pronargdefaults f) (proargnames f)))
             procs of
        [] \<Rightarrow> Inl (PGRST202 fn)
      | f # _ \<Rightarrow> Inr f)"

text \<open>
  JavaScript truthiness of an optional string and of an optional number, and
  \<^verbatim>\<open>toLowerCase\<close> on the ASCII letters.
\<close>

definition truthy_string :: "string option \<Rightarrow> bool" where
  "truthy_string x = (case x of None \<Rightarrow> False | Some t \<Rightarrow> t \<noteq> [])"

definition truthy_number :: "real option \<Rightarrow> bool" where
  "truthy_number x = (case x of None \<Rightarrow> False | Some n \<Rightarrow> n \<noteq> 0)"

definition toLowerCase :: "string \<Rightarrow> string" where
  "toLowerCase t =
     map (\<lambda>ch. let n = (of_char ch :: nat)
                in if 65 \<le> n \<and> n \<le> 90 then char_of (n + 32) else ch) t"

definition condition_text :: "product_condition \<Rightarrow> string" where
  "condition_text cnd =
     (case cnd of new \<Rightarrow> ''new'' | like_new \<Rightarrow> ''like_new'' | good \<Rightarrow> ''good''
      | fair \<Rightarrow> ''fair'' | poor \<Rightarrow> ''poor'')"

record user_location =
  ul_city :: "string option"
  ul_state :: "string option"

record filters =
  f_category :: "string option"
  f_condition :: "string option"
  f_minPrice :: "real option"
  f_maxPrice :: "real option"
  f_city :: "string option"
  f_state :: "string option"
  f_search :: "string option"
  f_userLocation :: "user_location option"

text \<open>The filters that \<^verbatim>\<open>getProducts\<close> applies to the rows of the remote procedure.\<close>

definition apply_filters :: "filters \<Rightarrow> nearby_product list \<Rightarrow> nearby_product list" where
  "apply_filters fs data =
     (let d1 = (if truthy_string (f_category fs) \<and> f_category fs \<noteq> Some ''All''
                then filter (\<lambda>p. Some (np_category_name p) = f_category fs) data else data);
          d2 = (if truthy_string (f_condition fs) \<and> f_condition fs \<noteq> Some ''All''
                then filter (\<lambda>p. Some (condition_text (np_condition p)) = f_condition fs) d1
                else d1);
          d3 = (if truthy_number (f_minPrice fs)
                then filter (\<lambda>p. case f_minPrice fs of None \<Rightarrow> False
                                  | Some m \<Rightarrow> np_price p \<ge> m) d2
                else d2);
          d4 = (if truthy_number (f_maxPrice fs)
                then filter (\<lambda>p. case f_maxPrice fs of None \<Rightarrow> False
                                  | Some m \<Rightarrow> np_price p \<le> m) d3
                else d3)
      in if truthy_string (f_search fs)
         then (case f_search fs of
                 None \<Rightarrow> d4
               | Some t \<Rightarrow>
                   filter (\<lambda>p. sublist (toLowerCase t) (toLowerCase (np_title p))
                              \<or> sublist (toLowerCase t) (toLowerCase (np_description p))) d4)
         else d4)"

text \<open>
  \<^verbatim>\<open>getProducts(filters)\<close>. With a user location whose city and state are both truthy it
  calls \<^verbatim>\<open>supabase.rpc('get_nearby_products', {user_city, user_state})\<close> and throws the
  error of the call, if any. \<open>run\<close> stands for the execution of a procedure that the call
  resolved to, and \<open>fallback\<close> for the query on \<^verbatim>\<open>products\<close> that the function builds
  otherwise.
\<close>

definition getProducts ::
  "routine list \<Rightarrow> (routine \<Rightarrow> (string \<times> string) list \<Rightarrow> error + nearby_product list)
     \<Rightarrow> (filters \<Rightarrow> error + 'q) \<Rightarrow> filters \<Rightarrow> error + (nearby_product list + 'q)" where
  "getProducts procs run fallback fs =
     (case f_userLocation fs of
        None \<Rightarrow> map_sum id Inr (fallback fs)
      | Some loc \<Rightarrow>
          if truthy_string (ul_city loc) \<and> truthy_string (ul_state loc) then
            (let args = [(''user_city'', case_option [] (\<lambda>t. t) (ul_city loc)),
                         (''user_state'', case_option [] (\<lambda>t. t) (ul_state loc))]
             in case rpc_resolve procs ''get_nearby_products'' (map fst args) of
                  Inl e \<Rightarrow> Inl e
                | Inr f \<Rightarrow>
                    (case run f args of
                       Inl e \<Rightarrow> Inl e
                     | Inr data \<Rightarrow> Inr (Inl (apply_filters fs data))))
          else map_sum id Inr (fallback fs))"

section \<open>A sample database\<close>

text \<open>
  Two users, one category, three products (an active product of each user and a sold
  product of the first user) and one order of one item. The closed instances of the theorems below are evaluated on it.
\<close>

definition alice :: user_profile where
  "alice = \<lparr>up_id = 1, up_full_name = ''Alice'', up_phone = None, up_address = None,
     up_role = both, up_avatar_url = None, up_created_at = Some 10, up_updated_at = Some 10,
     up_city = Some ''Pune'', up_state = Some ''MH'', up_pincode = Some ''411001'',
     up_latitude = Some 18, up_longitude = Some 73, up_location_point = Some (73, 18)\<rparr>"

definition bob :: user_profile where
  "bob = \<lparr>up_id = 2, up_full_name = ''Bob'', up_phone = None, up_address = None,
     up_role = seller, up_avatar_url = None, up_created_at = Some 20, up_updated_at = Some 20,
     up_city = None, up_state = None, up_pincode = None,
     up_latitude = None, up_longitude = None, up_location_point = None\<rparr>"

definition books :: category where
  "books = \<lparr>c_id = 10, c_name = ''Books'', c_description = None, c_icon = None,
     c_is_special = Some False, c_created_at = Some 1\<rparr>"

definition atlas :: product where
  "atlas = \<lparr>p_id = 20, p_seller_id = 1, p_title = ''Atlas'', p_description = ''World atlas'',
     p_price = 50, p_category_id = 10, p_condition = good, p_location = ''Pune'',
     p_image_urls = Some [], p_status = active, p_views = Some 0,
     p_created_at = Some 100, p_updated_at = Some 100,
     p_city = Some ''Pune'', p_state = Some ''MH'', p_pincode = Some ''411001'',
     p_latitude = Some 18, p_longitude = Some 73, p_location_point = Some (73, 18),
     p_is_donation = Some False, p_is_urgent = Some False\<rparr>"

definition novel :: product where
  "novel = \<lparr>p_id = 21, p_seller_id = 2, p_title = ''Novel'', p_description = ''A novel'',
     p_price = 30, p_category_id = 10, p_condition = like_new, p_location = ''Delhi'',
     p_image_urls = Some [], p_status = active, p_views = Some 3,
     p_created_at = Some 200, p_updated_at = Some 200,
     p_city = Some ''Delhi'', p_state = Some ''DL'', p_pincode = None,
     p_latitude = Some 28, p_longitude = Some 77, p_location_point = Some (77, 28),
     p_is_donation = Some False, p_is_urgent = Some False\<rparr>"

definition diary :: product where
  "diary = \<lparr>p_id = 22, p_seller_id = 1, p_title = ''Diary'', p_description = ''Old diary'',
     p_price = 5, p_category_id = 10, p_condition = fair, p_location = ''Pune'',
     p_image_urls = None, p_status = sold, p_views = None,
     p_created_at = Some 300, p_updated_at = Some 300,
     p_city = Some ''Pune'', p_state = Some ''MH'', p_pincode = None,
     p_latitude = None, p_longitude = None, p_location_point = None,
     p_is_donation = None, p_is_urgent = None\<rparr>"

definition atlas_order :: order where
  "atlas_order = \<lparr>o_id = 30, o_buyer_id = 2, o_seller_id = 1, o_total_amount = 50,
     o_status = pending, o_delivery_address = ''{}'', o_payment_method = ''card'',
     o_notes = None, o_created_at = Some 400, o_updated_at = Some 400\<rparr>"

definition atlas_item :: order_item where
  "atlas_item = \<lparr>oi_id = 31, oi_order_id = 30, oi_product_id = 20, oi_quantity = 1,
     oi_unit_price = 50, oi_total_price = 50, oi_created_at = Some 400\<rparr>"

definition shop :: database where
  "shop = \<lparr>user_profiles = [alice, bob], categories = [books],
     products = [atlas, novel, diary], orders = [atlas_order], order_items = [atlas_item],
     wishlists = [], conversations = [], messages = []\<rparr>"

text \<open>
  The geodesic distance in metres between the two locations of the sample products,
  (73 E, 18 N) and (77 E, 28 N), on the WGS 84 spheroid and to the nearest metre: about
  1181 km. It stands for \<^verbatim>\<open>ST_Distance\<close> in the closed instances, where no other pair of
  distinct points occurs.
\<close>

definition geodesic_metres :: "geography \<Rightarrow> geography \<Rightarrow> real" where
  "geodesic_metres a b =
     (if (a = (73, 18) \<and> b = (77, 28)) \<or> (a = (77, 28) \<and> b = (73, 18)) then 1180666
      else 0)"

text \<open>
  A second state, in which the two users have a general thread and a thread about the
  atlas, with one message in each.
\<close>

definition thread_general :: conversation where
  "thread_general = \<lparr>cv_id = 50, cv_user1_id = 1, cv_user2_id = 2, cv_product_id = None,
     cv_last_message_at = Some 600, cv_created_at = Some 600\<rparr>"

definition thread_atlas :: conversation where
  "thread_atlas = \<lparr>cv_id = 51, cv_user1_id = 1, cv_user2_id = 2, cv_product_id = Some 20,
     cv_last_message_at = Some 601, cv_created_at = Some 601\<rparr>"

definition hello :: message where
  "hello = \<lparr>m_id = 60, m_conversation_id = 50, m_sender_id = 2, m_receiver_id = 1,
     m_product_id = None, m_message_text = ''hello'', m_is_read = Some False,
     m_created_at = Some 600, m_updated_at = Some 600\<rparr>"

definition offer :: message where
  "offer = \<lparr>m_id = 61, m_conversation_id = 51, m_sender_id = 2, m_receiver_id = 1,
     m_product_id = Some 20, m_message_text = ''offer'', m_is_read = Some False,
     m_created_at = Some 601, m_updated_at = Some 601\<rparr>"

definition forum :: database where
  "forum = shop\<lparr>conversations := [thread_general, thread_atlas], messages := [hello, offer]\<rparr>"

text \<open>
  A request to the database client for an order of one item, with the identifiers drawn for
  its rows and the rows it leaves in the tables; two equal lines of a client-side cart; and
  search filters with a user location.
\<close>

definition sample_ids :: "nat \<Rightarrow> uuid" where
  "sample_ids n = 80 + of_nat n"

definition novel_request :: order_input where
  "novel_request = \<lparr>in_seller_id = 2, in_total_amount = 100, in_delivery_address = ''{}'',
     in_payment_method = ''card'', in_notes = None\<rparr>"

definition novel_line :: item_input where
  "novel_line = \<lparr>it_product_id = 21, it_quantity = 1, it_unit_price = 5, it_total_price = 5\<rparr>"

definition novel_order :: order where
  "novel_order = \<lparr>o_id = 80, o_buyer_id = 1, o_seller_id = 2, o_total_amount = 100,
     o_status = pending, o_delivery_address = ''{}'', o_payment_method = ''card'',
     o_notes = None, o_created_at = Some 900, o_updated_at = Some 900\<rparr>"

definition novel_item :: order_item where
  "novel_item = \<lparr>oi_id = 81, oi_order_id = 80, oi_product_id = 21, oi_quantity = 1,
     oi_unit_price = 5, oi_total_price = 5, oi_created_at = Some 900\<rparr>"

definition pens :: cart_item where
  "pens = \<lparr>ci_id = ''7'', ci_title = ''Pens'', ci_price = Num 2, ci_image = '''',
     ci_quantity = Num 3, ci_seller_name = ''Bob''\<rparr>"

text \<open>A cart line of three items at the price that the literal \<^verbatim>\<open>0.1\<close> denotes.\<close>

definition sweets :: cart_item where
  "sweets = \<lparr>ci_id = ''8'', ci_title = ''Sweets'', ci_price = to_double (1 / 10),
     ci_image = '''', ci_quantity = Num 3, ci_seller_name = ''Bob''\<rparr>"

definition pune_filters :: filters where
  "pune_filters = \<lparr>f_category = None, f_condition = None, f_minPrice = None,
     f_maxPrice = None, f_city = None, f_state = None, f_search = None,
     f_userLocation = Some \<lparr>ul_city = Some ''Pune'', ul_state = Some ''MH''\<rparr>\<rparr>"

section \<open>Verified properties\<close>

subsection \<open>Auxiliary facts\<close>

lemma this_pair_iff:
  "is_true (sql_and (sql_eq (Some a) (Some u)) (sql_eq (Some b) (Some p))) = (a = u \<and> b = p)"
  by (auto simp: is_true_def sql_and_def sql_eq_def)

lemma rls_using_service_role [simp]: "rls_using pols cmd service_role db row"
  by (simp add: rls_using_def)

lemma rls_with_check_service_role [simp]: "rls_with_check pols cmd service_role db row"
  by (simp add: rls_with_check_def)

subsection \<open>Wishlist toggle\<close>

lemma toggle_wishlist_remove:
  assumes "auth_uid r = Some u" "in_wishlist db u p"
  shows "toggle_wishlist r i now db (Some p) =
           Inr (False, db\<lparr>wishlists :=
                  filter (\<lambda>w. \<not> (w_user_id w = u \<and> w_product_id w = p)) (wishlists db)\<rparr>)"
  using assms
  by (simp add: toggle_wishlist_def in_wishlist_def this_pair_iff delete_rows_def
      delete_target_def)

lemma toggle_wishlist_add:
  assumes "auth_uid r = Some u" "\<not> in_wishlist db u p"
    and "list_ex (\<lambda>up. up_id up = u) (user_profiles db)"
    and "list_ex (\<lambda>x. p_id x = p) (products db)"
    and "\<not> list_ex (\<lambda>w. w_id w = i) (wishlists db)"
  shows "toggle_wishlist r i now db (Some p) =
           Inr (True, db\<lparr>wishlists := wishlists db @
                  [\<lparr>w_id = i, w_user_id = u, w_product_id = p, w_created_at = Some now\<rparr>]\<rparr>)"
  using assms
  by (simp add: toggle_wishlist_def in_wishlist_def this_pair_iff insert_row_def
      wishlists_constraints_def)

text \<open>
  C2. For an authenticated user \<open>u\<close> with a profile and an existing product \<open>p\<close>,
  \<open>toggle_wishlist\<close> succeeds and returns the resulting membership of the pair: the pair is
  removed when it was present (result \<open>False\<close>) and inserted when it was absent (result
  \<open>True\<close>), no other pair changes, and a second toggle returns the membership of every
  pair to what it was at the start. The identifiers \<open>i1\<close> and \<open>i2\<close> that
  \<^verbatim>\<open>gen_random_uuid()\<close> draws for the two calls are not yet keys of the table.
\<close>

theorem toggle_wishlist_spec:
  assumes auth: "auth_uid r = Some u"
    and usr: "list_ex (\<lambda>up. up_id up = u) (user_profiles db)"
    and prd: "list_ex (\<lambda>x. p_id x = p) (products db)"
    and fresh1: "\<not> list_ex (\<lambda>w. w_id w = i1) (wishlists db)"
    and fresh2: "\<not> list_ex (\<lambda>w. w_id w = i2) (wishlists db)"
  shows "\<exists>db' db''.
           toggle_wishlist r i1 t1 db (Some p) = Inr (\<not> in_wishlist db u p, db')
         \<and> in_wishlist db' u p = (\<not> in_wishlist db u p)
         \<and> (\<forall>u' p'. (u', p') \<noteq> (u, p) \<longrightarrow> in_wishlist db' u' p' = in_wishlist db u' p')
         \<and> toggle_wishlist r i2 t2 db' (Some p) = Inr (in_wishlist db u p, db'')
         \<and> (\<forall>u' p'. in_wishlist db'' u' p' = in_wishlist db u' p')"
proof (cases "in_wishlist db u p")
  case True
  let ?db' = "db\<lparr>wishlists :=
                 filter (\<lambda>w. \<not> (w_user_id w = u \<and> w_product_id w = p)) (wishlists db)\<rparr>"
  let ?db'' = "?db'\<lparr>wishlists := wishlists ?db' @
                  [\<lparr>w_id = i2, w_user_id = u, w_product_id = p, w_created_at = Some t2\<rparr>]\<rparr>"
  have 1: "toggle_wishlist r i1 t1 db (Some p) = Inr (False, ?db')"
    using toggle_wishlist_remove [OF auth True] .
  have absent: "\<not> in_wishlist ?db' u p"
    by (simp add: in_wishlist_def list_ex_iff)
  have fr: "\<not> list_ex (\<lambda>w. w_id w = i2) (wishlists ?db')"
    using fresh2 by (auto simp: list_ex_iff)
  have 2: "toggle_wishlist r i2 t2 ?db' (Some p) = Inr (True, ?db'')"
    using toggle_wishlist_add [of r u ?db' p i2 t2] auth absent usr prd fr by simp
  have others: "\<forall>u' p'. (u', p') \<noteq> (u, p) \<longrightarrow> in_wishlist ?db' u' p' = in_wishlist db u' p'"
    by (auto simp: in_wishlist_def list_ex_iff)
  have restored: "\<forall>u' p'. in_wishlist ?db'' u' p' = in_wishlist db u' p'"
    using True by (auto simp: in_wishlist_def list_ex_iff)
  show ?thesis
    using 1 2 absent others restored True by (intro exI [of _ ?db'] exI [of _ ?db'']) simp
next
  case False
  let ?db' = "db\<lparr>wishlists := wishlists db @
                  [\<lparr>w_id = i1, w_user_id = u, w_product_id = p, w_created_at = Some t1\<rparr>]\<rparr>"
  let ?db'' = "?db'\<lparr>wishlists :=
                 filter (\<lambda>w. \<not> (w_user_id w = u \<and> w_product_id w = p)) (wishlists ?db')\<rparr>"
  have 1: "toggle_wishlist r i1 t1 db (Some p) = Inr (True, ?db')"
    using toggle_wishlist_add [OF auth False usr prd fresh1] .
  have present: "in_wishlist ?db' u p"
    by (simp add: in_wishlist_def)
  have 2: "toggle_wishlist r i2 t2 ?db' (Some p) = Inr (False, ?db'')"
    using toggle_wishlist_remove [OF auth present] .
  have others: "\<forall>u' p'. (u', p') \<noteq> (u, p) \<longrightarrow> in_wishlist ?db' u' p' = in_wishlist db u' p'"
    by (auto simp: in_wishlist_def list_ex_iff)
  have restored: "\<forall>u' p'. in_wishlist ?db'' u' p' = in_wishlist db u' p'"
    using False by (auto simp: in_wishlist_def list_ex_iff)
  show ?thesis
    using 1 2 present others restored False by (intro exI [of _ ?db'] exI [of _ ?db'']) simp
qed

theorem toggle_wishlist_spec_witness:
  "auth_uid (authenticated 2) = Some 2
   \<and> list_ex (\<lambda>up. up_id up = 2) (user_profiles shop)
   \<and> list_ex (\<lambda>x. p_id x = 20) (products shop)
   \<and> \<not> list_ex (\<lambda>w. w_id w = 40) (wishlists shop)
   \<and> \<not> list_ex (\<lambda>w. w_id w = 41) (wishlists shop)
   \<and> \<not> in_wishlist shop 2 20
   \<and> (\<exists>db' db''.
         toggle_wishlist (authenticated 2) 40 500 shop (Some 20) = Inr (True, db')
       \<and> in_wishlist db' 2 20
       \<and> toggle_wishlist (authenticated 2) 41 501 db' (Some 20) = Inr (False, db'')
       \<and> \<not> in_wishlist db'' 2 20)"
proof -
  have hyps: "auth_uid (authenticated 2) = Some 2"
    "list_ex (\<lambda>up. up_id up = 2) (user_profiles shop)"
    "list_ex (\<lambda>x. p_id x = 20) (products shop)"
    "\<not> list_ex (\<lambda>w. w_id w = 40) (wishlists shop)"
    "\<not> list_ex (\<lambda>w. w_id w = 41) (wishlists shop)"
    by (simp_all add: auth_uid_def shop_def alice_def bob_def atlas_def)
  have absent: "\<not> in_wishlist shop 2 20"
    by (simp add: in_wishlist_def shop_def)
  from toggle_wishlist_spec [OF hyps, of 500 501] absent
  obtain db' db'' where
    "toggle_wishlist (authenticated 2) 40 500 shop (Some 20) = Inr (True, db')"
    "in_wishlist db' 2 20"
    "toggle_wishlist (authenticated 2) 41 501 db' (Some 20) = Inr (False, db'')"
    "\<not> in_wishlist db'' 2 20"
    by auto
  with hyps absent show ?thesis by blast
qed

subsection \<open>Monetary and quantity constraints\<close>

lemma decimal_10_2_nonpos:
  assumes "v \<le> 0"
  shows "decimal_10_2 v = Inl numeric_value_out_of_range \<or> (\<exists>w. decimal_10_2 v = Inr w \<and> w \<le> 0)"
proof -
  define c where "c = sgn v * of_int \<lfloor>\<bar>v\<bar> * 100 + 1 / 2\<rfloor>"
  have "0 \<le> \<lfloor>\<bar>v\<bar> * 100 + 1 / 2\<rfloor>" by simp
  then have "(0::real) \<le> of_int \<lfloor>\<bar>v\<bar> * 100 + 1 / 2\<rfloor>" by simp
  moreover have "sgn v \<le> 0" using assms by (simp add: sgn_if)
  ultimately have "c \<le> 0"
    unfolding c_def by (simp add: mult_nonpos_nonneg)
  then have neg: "c / 100 \<le> 0" by simp
  have eq: "decimal_10_2 v =
      (if \<bar>c\<bar> \<ge> 10 ^ 10 then Inl numeric_value_out_of_range else Inr (c / 100))"
    by (simp add: decimal_10_2_def c_def Let_def)
  show ?thesis
  proof (cases "\<bar>c\<bar> \<ge> 10 ^ 10")
    case True
    with eq show ?thesis by simp
  next
    case False
    with eq have "decimal_10_2 v = Inr (c / 100)" by simp
    with neg show ?thesis by blast
  qed
qed

lemma assign_decimal_nonpos:
  assumes "v \<le> 0"
  shows "assign_decimal stored v = Inl numeric_value_out_of_range
       \<or> (\<exists>w. assign_decimal stored v = Inr w \<and> w \<le> 0)"
  using decimal_10_2_nonpos [OF assms] assms by (auto simp: assign_decimal_def)

lemma update_each_fails:
  assumes "row \<in> set rows" "target row" "isl (upd row)"
  shows "isl (update_each target upd rows)"
  using assms
  by (induction rows) (auto split: sum.splits)

lemma rejected_Inl [simp]: "rejected db (Inl e)"
  by (simp add: rejected_def outcome_def)

lemma insert_product_nonpos:
  assumes "v \<le> 0"
  shows "\<exists>e. insert_product r db (p\<lparr>p_price := v\<rparr>) = Inl e
           \<and> (e = rls_error \<or> e = numeric_value_out_of_range \<or> (\<exists>c. e = check_violation c))"
  using decimal_10_2_nonpos [OF assms]
  by (auto simp: insert_product_def insert_row_def first_error_def products_check_def
      trigger_products_location_def split: option.splits)

lemma update_rows_fails:
  assumes "row \<in> set tbl" "update_target pols r db wh row"
    and "\<And>row'. before row (st row) = Inr row' \<Longrightarrow> constraints row row' \<noteq> None"
  shows "isl (update_rows pols before constraints r db wh st tbl)"
  unfolding update_rows_def
proof (rule update_each_fails [where row = row and target = "update_target pols r db wh"])
  show "row \<in> set tbl" by (rule assms(1))
  show "update_target pols r db wh row" by (rule assms(2))
  show "isl (case before row (st row) of
          Inl e \<Rightarrow> Inl e
        | Inr row' \<Rightarrow>
            if \<not> rls_with_check pols FOR_UPDATE r db row' then Inl rls_error
            else if \<not> rls_using pols FOR_SELECT r db row' then Inl rls_error
            else (case constraints row row' of Some e \<Rightarrow> Inl e | None \<Rightarrow> Inr row'))"
    using assms(3) by (auto split: sum.splits option.splits)
qed

lemma p_price_trigger [simp]: "p_price (trigger_products_location x) = p_price x"
  by (simp add: trigger_products_location_def split: option.splits)

lemma update_products_nonpos:
  assumes "v \<le> 0" "row \<in> set (products db)" "update_target products_policies r db wh row"
  shows "rejected db (update_products r now db wh (\<lambda>x. (st x)\<lparr>p_price := v\<rparr>))"
proof -
  have "isl (update_rows products_policies
             (\<lambda>OLD assigned.
                case assign_decimal (Some (p_price OLD)) (p_price assigned) of
                  Inl e \<Rightarrow> Inl e
                | Inr v \<Rightarrow> Inr (trigger_products_location
                                 (set_updated_at_products now (assigned\<lparr>p_price := v\<rparr>))))
             (\<lambda>OLD NEW. first_error (products_check NEW) (products_keys db (Some OLD) NEW))
             r db wh (\<lambda>x. (st x)\<lparr>p_price := v\<rparr>) (products db))"
    using assign_decimal_nonpos [OF assms(1), of "Some (p_price row)"]
    by (intro update_rows_fails [OF assms(2,3)])
       (auto simp: first_error_def products_check_def set_updated_at_products_def)
  then show ?thesis
    by (auto simp: update_products_def rejected_def outcome_def split: sum.splits)
qed

lemma insert_order_nonpos:
  assumes "v \<le> 0"
  shows "\<exists>e. insert_order ret r db (od\<lparr>o_total_amount := v\<rparr>) = Inl e
           \<and> (e = rls_error \<or> e = numeric_value_out_of_range \<or> (\<exists>c. e = check_violation c))"
  using decimal_10_2_nonpos [OF assms]
  by (auto simp: insert_order_def stored_order_def insert_row_def first_error_def orders_check_def)

lemma update_orders_nonpos:
  assumes "v \<le> 0" "row \<in> set (orders db)" "update_target orders_policies r db wh row"
  shows "rejected db (update_orders r now db wh (\<lambda>x. (st x)\<lparr>o_total_amount := v\<rparr>))"
proof -
  have "isl (update_rows orders_policies
             (\<lambda>OLD assigned.
                case assign_decimal (Some (o_total_amount OLD)) (o_total_amount assigned) of
                  Inl e \<Rightarrow> Inl e
                | Inr v \<Rightarrow> Inr (set_updated_at_orders now (assigned\<lparr>o_total_amount := v\<rparr>)))
             (\<lambda>OLD NEW. first_error (orders_check NEW) (orders_keys db (Some OLD) NEW))
             r db wh (\<lambda>x. (st x)\<lparr>o_total_amount := v\<rparr>) (orders db))"
    using assign_decimal_nonpos [OF assms(1), of "Some (o_total_amount row)"]
    by (intro update_rows_fails [OF assms(2,3)])
       (auto simp: first_error_def orders_check_def set_updated_at_orders_def)
  then show ?thesis
    by (auto simp: update_orders_def rejected_def outcome_def split: sum.splits)
qed

lemma coerce_order_item_quantity:
  "coerce_order_item OLD oi = Inr NEW \<Longrightarrow> oi_quantity NEW = oi_quantity oi"
  by (auto simp: coerce_order_item_def assign_integer_def int4_def split: sum.splits if_splits)

lemma coerce_order_item_unit_price:
  assumes "coerce_order_item OLD oi = Inr NEW" "oi_unit_price oi \<le> 0"
  shows "oi_unit_price NEW \<le> 0"
  using assms assign_decimal_nonpos [OF assms(2), of "map_option oi_unit_price OLD"]
  by (auto simp: coerce_order_item_def split: sum.splits)

lemma coerce_order_item_total_price:
  assumes "coerce_order_item OLD oi = Inr NEW" "oi_total_price oi \<le> 0"
  shows "oi_total_price NEW \<le> 0"
  using assms assign_decimal_nonpos [OF assms(2), of "map_option oi_total_price OLD"]
  by (auto simp: coerce_order_item_def split: sum.splits)

lemma order_items_check_nonpos:
  "oi_quantity NEW \<le> 0 \<or> oi_unit_price NEW \<le> 0 \<or> oi_total_price NEW \<le> 0
   \<Longrightarrow> \<exists>c. order_items_check NEW = Some (check_violation c)"
  by (auto simp: order_items_check_def)

lemma coerce_order_item_error:
  "coerce_order_item OLD oi = Inl e \<Longrightarrow> e = numeric_value_out_of_range"
  by (auto simp: coerce_order_item_def assign_decimal_def decimal_10_2_def Let_def
      assign_integer_def int4_def split: sum.splits if_splits)

lemma insert_order_item_nonpos:
  assumes "oi_quantity oi \<le> 0 \<or> oi_unit_price oi \<le> 0 \<or> oi_total_price oi \<le> 0"
  shows "\<exists>e. insert_order_item r db oi = Inl e
           \<and> (e = rls_error \<or> e = numeric_value_out_of_range \<or> (\<exists>c. e = check_violation c))"
proof (cases "coerce_order_item None oi")
  case (Inl e)
  then show ?thesis
    using coerce_order_item_error [OF Inl] by (simp add: insert_order_item_def)
next
  case (Inr NEW)
  have "oi_quantity NEW \<le> 0 \<or> oi_unit_price NEW \<le> 0 \<or> oi_total_price NEW \<le> 0"
    using assms coerce_order_item_quantity [OF Inr] coerce_order_item_unit_price [OF Inr]
      coerce_order_item_total_price [OF Inr] by auto
  from order_items_check_nonpos [OF this] obtain c
    where "order_items_check NEW = Some (check_violation c)" ..
  then show ?thesis
    using Inr by (auto simp: insert_order_item_def insert_row_def first_error_def)
qed

lemma update_order_items_nonpos:
  assumes "row \<in> set (order_items db)" "update_target order_items_policies r db wh row"
    and "oi_quantity (st row) \<le> 0 \<or> oi_unit_price (st row) \<le> 0 \<or> oi_total_price (st row) \<le> 0"
  shows "rejected db (update_order_items r db wh st)"
proof -
  have "isl (update_rows order_items_policies
             (\<lambda>OLD assigned. coerce_order_item (Some OLD) assigned)
             (\<lambda>OLD NEW. first_error (order_items_check NEW)
                           (order_items_keys db (Some OLD) NEW))
             r db wh st (order_items db))"
  proof (rule update_rows_fails [OF assms(1,2)])
    fix row' assume c: "coerce_order_item (Some row) (st row) = Inr row'"
    have "oi_quantity row' \<le> 0 \<or> oi_unit_price row' \<le> 0 \<or> oi_total_price row' \<le> 0"
      using assms(3) coerce_order_item_quantity [OF c] coerce_order_item_unit_price [OF c]
        coerce_order_item_total_price [OF c] by auto
    from order_items_check_nonpos [OF this]
    show "first_error (order_items_check row') (order_items_keys db (Some row) row') \<noteq> None"
      by (auto simp: first_error_def)
  qed
  then show ?thesis
    by (auto simp: update_order_items_def rejected_def outcome_def split: sum.splits)
qed

text \<open>
  C5. Every \<^verbatim>\<open>INSERT\<close> of a product, an order or an order item whose price, total amount,
  quantity, unit price or total price is not positive is rejected, and so is every
  \<^verbatim>\<open>UPDATE\<close> that assigns such a value to a row it selects; the database after the rejected
  statement is the database before it. (An \<^verbatim>\<open>UPDATE\<close> that selects no row writes nothing
  and succeeds.)
\<close>

theorem nonpositive_values_rejected:
  assumes "v \<le> 0" and "q \<le> 0"
  shows "rejected db (insert_product r db (p\<lparr>p_price := v\<rparr>))
       \<and> ((\<exists>row\<in>set (products db). update_target products_policies rp db whp row) \<longrightarrow>
            rejected db (update_products rp now db whp (\<lambda>x. (stp x)\<lparr>p_price := v\<rparr>)))
       \<and> rejected db (insert_order ret r db (od\<lparr>o_total_amount := v\<rparr>))
       \<and> ((\<exists>row\<in>set (orders db). update_target orders_policies ro db who row) \<longrightarrow>
            rejected db (update_orders ro now db who (\<lambda>x. (sto x)\<lparr>o_total_amount := v\<rparr>)))
       \<and> rejected db (insert_order_item r db (oi\<lparr>oi_quantity := q\<rparr>))
       \<and> rejected db (insert_order_item r db (oi\<lparr>oi_unit_price := v\<rparr>))
       \<and> rejected db (insert_order_item r db (oi\<lparr>oi_total_price := v\<rparr>))
       \<and> ((\<exists>row\<in>set (order_items db). update_target order_items_policies ri db whi row) \<longrightarrow>
            rejected db (update_order_items ri db whi (\<lambda>x. (sti x)\<lparr>oi_quantity := q\<rparr>))
          \<and> rejected db (update_order_items ri db whi (\<lambda>x. (sti x)\<lparr>oi_unit_price := v\<rparr>))
          \<and> rejected db (update_order_items ri db whi (\<lambda>x. (sti x)\<lparr>oi_total_price := v\<rparr>)))"
proof -
  have 1: "rejected db (insert_product r db (p\<lparr>p_price := v\<rparr>))"
    using insert_product_nonpos [OF assms(1), of r db p] by auto
  have 2: "rejected db (insert_order ret r db (od\<lparr>o_total_amount := v\<rparr>))"
    using insert_order_nonpos [OF assms(1), of ret r db od] by auto
  have 3: "rejected db (insert_order_item r db (oi\<lparr>oi_quantity := q\<rparr>))"
    using insert_order_item_nonpos [of "oi\<lparr>oi_quantity := q\<rparr>" r db] assms(2) by auto
  have 4: "rejected db (insert_order_item r db (oi\<lparr>oi_unit_price := v\<rparr>))"
    using insert_order_item_nonpos [of "oi\<lparr>oi_unit_price := v\<rparr>" r db] assms(1) by auto
  have 5: "rejected db (insert_order_item r db (oi\<lparr>oi_total_price := v\<rparr>))"
    using insert_order_item_nonpos [of "oi\<lparr>oi_total_price := v\<rparr>" r db] assms(1) by auto
  have 6: "rejected db (update_products rp now db whp (\<lambda>x. (stp x)\<lparr>p_price := v\<rparr>))"
    if "row \<in> set (products db)" "update_target products_policies rp db whp row" for row
    using update_products_nonpos [OF assms(1) that] .
  have 7: "rejected db (update_orders ro now db who (\<lambda>x. (sto x)\<lparr>o_total_amount := v\<rparr>))"
    if "row \<in> set (orders db)" "update_target orders_policies ro db who row" for row
    using update_orders_nonpos [OF assms(1) that] .
  have 8: "rejected db (update_order_items ri db whi (\<lambda>x. (sti x)\<lparr>oi_quantity := q\<rparr>))
         \<and> rejected db (update_order_items ri db whi (\<lambda>x. (sti x)\<lparr>oi_unit_price := v\<rparr>))
         \<and> rejected db (update_order_items ri db whi (\<lambda>x. (sti x)\<lparr>oi_total_price := v\<rparr>))"
    if "row \<in> set (order_items db)" "update_target order_items_policies ri db whi row" for row
    using update_order_items_nonpos [OF that] assms by simp
  show ?thesis
    using 1 2 3 4 5 6 7 8 by blast
qed

lemma shop_targets:
  "\<exists>row\<in>set (products shop). update_target products_policies (authenticated 1) shop (\<lambda>p. p_id p = 20) row"
  "\<exists>row\<in>set (orders shop). update_target orders_policies (authenticated 1) shop (\<lambda>x. o_id x = 30) row"
  "\<exists>row\<in>set (order_items shop). update_target order_items_policies service_role shop (\<lambda>x. oi_id x = 31) row"
  by (simp_all add: shop_def update_target_def rls_using_def products_policies_def
      orders_policies_def applies_def atlas_def atlas_order_def atlas_item_def
      is_true_def sql_eq_def auth_uid_def)

theorem nonpositive_values_rejected_witness:
  "(0::real) \<le> 0 \<and> (0::int) \<le> 0
   \<and> (\<exists>row\<in>set (products shop).
         update_target products_policies (authenticated 1) shop (\<lambda>p. p_id p = 20) row)
   \<and> (\<exists>row\<in>set (orders shop).
         update_target orders_policies (authenticated 1) shop (\<lambda>x. o_id x = 30) row)
   \<and> (\<exists>row\<in>set (order_items shop).
         update_target order_items_policies service_role shop (\<lambda>x. oi_id x = 31) row)
   \<and> rejected shop (insert_product (authenticated 1) shop (atlas\<lparr>p_price := 0\<rparr>))
   \<and> rejected shop (update_products (authenticated 1) 900 shop (\<lambda>p. p_id p = 20)
                      (\<lambda>x. x\<lparr>p_price := 0\<rparr>))
   \<and> rejected shop (insert_order False (authenticated 1) shop (atlas_order\<lparr>o_total_amount := 0\<rparr>))
   \<and> rejected shop (update_orders (authenticated 1) 900 shop (\<lambda>x. o_id x = 30)
                      (\<lambda>x. x\<lparr>o_total_amount := 0\<rparr>))
   \<and> rejected shop (insert_order_item (authenticated 1) shop (atlas_item\<lparr>oi_quantity := 0\<rparr>))
   \<and> rejected shop (update_order_items service_role shop (\<lambda>x. oi_id x = 31)
                      (\<lambda>x. x\<lparr>oi_total_price := 0\<rparr>))"
proof -
  have z: "(0::real) \<le> 0" "(0::int) \<le> 0" by simp_all
  show ?thesis
    using shop_targets z
      nonpositive_values_rejected [OF z, of shop "authenticated 1" atlas "authenticated 1"
        "\<lambda>p. p_id p = 20" 900 "\<lambda>x. x" False atlas_order "authenticated 1" "\<lambda>x. o_id x = 30"
        "\<lambda>x. x" atlas_item service_role "\<lambda>x. oi_id x = 31" "\<lambda>x. x"]
    by simp
qed

subsection \<open>Only the seller changes a product\<close>

lemma update_each_Inr:
  "update_each target upd rows = Inr rows' \<Longrightarrow>
     list_all2 (\<lambda>row row'. (target row \<longrightarrow> upd row = Inr row') \<and> (\<not> target row \<longrightarrow> row' = row))
       rows rows'"
proof (induction rows arbitrary: rows')
  case Nil
  then show ?case by simp
next
  case (Cons a rows)
  show ?case
  proof (cases "target a")
    case True
    with Cons.prems Cons.IH show ?thesis by (auto split: sum.splits)
  next
    case False
    with Cons.prems Cons.IH show ?thesis by (auto split: sum.splits)
  qed
qed

lemma products_update_target_owner:
  "update_target products_policies (authenticated u) db wh p \<Longrightarrow> p_seller_id p = u"
  by (auto simp: update_target_def rls_using_def products_policies_def applies_def
      is_true_def sql_eq_def auth_uid_def)

lemma products_delete_target_owner:
  "delete_target products_policies (authenticated u) db wh p \<Longrightarrow> p_seller_id p = u"
  by (auto simp: delete_target_def rls_using_def products_policies_def applies_def
      is_true_def sql_eq_def auth_uid_def)

lemma update_products_others:
  assumes "i < length (products db)" "p_seller_id (products db ! i) \<noteq> u"
  shows "length (products (outcome db (update_products (authenticated u) now db wh st)))
           = length (products db)
       \<and> products (outcome db (update_products (authenticated u) now db wh st)) ! i
           = products db ! i"
proof (cases "update_products (authenticated u) now db wh st")
  case (Inl e)
  then show ?thesis by (simp add: outcome_def)
next
  case (Inr db')
  then obtain tbl where tbl: "db' = db\<lparr>products := tbl\<rparr>"
    and "update_each (update_target products_policies (authenticated u) db wh)
           (\<lambda>row. case (case assign_decimal (Some (p_price row)) (p_price (st row)) of
                   Inl e \<Rightarrow> Inl e
                 | Inr v \<Rightarrow> Inr (trigger_products_location
                     (set_updated_at_products now ((st row)\<lparr>p_price := v\<rparr>)))) of
                 Inl e \<Rightarrow> Inl e
               | Inr row' \<Rightarrow>
                   if \<not> rls_with_check products_policies FOR_UPDATE (authenticated u) db row' then Inl rls_error
                   else if \<not> rls_using products_policies FOR_SELECT (authenticated u) db row' then Inl rls_error
                   else (case first_error (products_check row') (products_keys db (Some row) row') of
                           Some e \<Rightarrow> Inl e | None \<Rightarrow> Inr row'))
           (products db) = Inr tbl"
    by (auto simp: update_products_def update_rows_def split: sum.splits)
  from update_each_Inr [OF this(2)] assms products_update_target_owner [of u db wh "products db ! i"]
  have "length tbl = length (products db)" "tbl ! i = products db ! i"
    by (auto simp: list_all2_conv_all_nth)
  with Inr tbl show ?thesis by (simp add: outcome_def)
qed

lemma delete_products_others:
  "filter (\<lambda>p. p_seller_id p \<noteq> u)
      (products (outcome db (delete_products (authenticated u) db wh)))
   = filter (\<lambda>p. p_seller_id p \<noteq> u) (products db)"
proof -
  have "filter (\<lambda>p. p_seller_id p \<noteq> u)
          (delete_rows products_policies (authenticated u) db wh (products db))
        = filter (\<lambda>p. p_seller_id p \<noteq> u) (products db)"
    unfolding delete_rows_def filter_filter
    by (rule filter_cong) (auto dest: products_delete_target_owner)
  then show ?thesis
    by (simp add: delete_products_def outcome_def Let_def)
qed

text \<open>
  C6. For every authenticated identity \<open>u\<close>: an \<^verbatim>\<open>UPDATE\<close> or \<^verbatim>\<open>DELETE\<close> on \<^verbatim>\<open>products\<close>
  selects a row only when \<open>u\<close> is the row's \<^verbatim>\<open>seller_id\<close>; whatever the statement and whether
  it succeeds or fails, every row of another seller is afterwards where and what it was
  (an update keeps the table's length and the row at each such position, a delete keeps
  the sequence of the other sellers' rows).
\<close>

theorem products_owner_only:
  "(\<forall>p\<in>set (products db).
       (update_target products_policies (authenticated u) db wh p \<longrightarrow> p_seller_id p = u)
     \<and> (delete_target products_policies (authenticated u) db wh p \<longrightarrow> p_seller_id p = u))
   \<and> length (products (outcome db (update_products (authenticated u) now db wh st)))
       = length (products db)
   \<and> (\<forall>i < length (products db). p_seller_id (products db ! i) \<noteq> u \<longrightarrow>
        products (outcome db (update_products (authenticated u) now db wh st)) ! i
          = products db ! i)
   \<and> filter (\<lambda>p. p_seller_id p \<noteq> u)
        (products (outcome db (delete_products (authenticated u) db wh)))
       = filter (\<lambda>p. p_seller_id p \<noteq> u) (products db)"
proof -
  have len: "length (products (outcome db (update_products (authenticated u) now db wh st)))
       = length (products db)"
  proof (cases "\<exists>i < length (products db). p_seller_id (products db ! i) \<noteq> u")
    case True
    then show ?thesis using update_products_others by blast
  next
    case False
    show ?thesis
    proof (cases "update_products (authenticated u) now db wh st")
      case (Inl e)
      then show ?thesis by (simp add: outcome_def)
    next
      case (Inr db')
      then obtain tbl where "db' = db\<lparr>products := tbl\<rparr>"
        and "update_rows products_policies
           (\<lambda>OLD assigned.
                case assign_decimal (Some (p_price OLD)) (p_price assigned) of
                  Inl e \<Rightarrow> Inl e
                | Inr v \<Rightarrow> Inr (trigger_products_location
                                 (set_updated_at_products now (assigned\<lparr>p_price := v\<rparr>))))
             (\<lambda>OLD NEW. first_error (products_check NEW) (products_keys db (Some OLD) NEW))
             (authenticated u) db wh st (products db) = Inr tbl"
        by (auto simp: update_products_def split: sum.splits)
      from update_each_Inr [OF this(2) [unfolded update_rows_def]] this(1) Inr
      show ?thesis by (simp add: outcome_def list_all2_lengthD)
    qed
  qed
  show ?thesis
    using len update_products_others delete_products_others
      products_update_target_owner products_delete_target_owner
    by blast
qed

theorem products_owner_only_witness:
  "atlas \<in> set (products shop) \<and> p_seller_id atlas \<noteq> 2
   \<and> (0::nat) < length (products shop) \<and> products shop ! 0 = atlas
   \<and> \<not> update_target products_policies (authenticated 2) shop (\<lambda>p. p_id p = 20) atlas
   \<and> \<not> delete_target products_policies (authenticated 2) shop (\<lambda>p. p_id p = 20) atlas
   \<and> products (outcome shop (update_products (authenticated 2) 900 shop (\<lambda>p. p_id p = 20)
                (\<lambda>p. p\<lparr>p_price := 1\<rparr>))) ! 0 = atlas
   \<and> atlas \<in> set (products (outcome shop (delete_products (authenticated 2) shop
                (\<lambda>p. p_id p = 20))))"
proof -
  note T = products_owner_only [of shop 2 "\<lambda>p. p_id p = 20" 900 "\<lambda>p. p\<lparr>p_price := 1\<rparr>"]
  have m: "atlas \<in> set (products shop)" "p_seller_id atlas \<noteq> 2"
    "(0::nat) < length (products shop)" "products shop ! 0 = atlas"
    by (simp_all add: shop_def atlas_def)
  have u: "\<not> update_target products_policies (authenticated 2) shop (\<lambda>p. p_id p = 20) atlas"
    "\<not> delete_target products_policies (authenticated 2) shop (\<lambda>p. p_id p = 20) atlas"
    using T m(1,2) by blast+
  have k: "products (outcome shop (update_products (authenticated 2) 900 shop (\<lambda>p. p_id p = 20)
                (\<lambda>p. p\<lparr>p_price := 1\<rparr>))) ! 0 = atlas"
    using T m(2,3,4) by metis
  have "atlas \<in> set (filter (\<lambda>p. p_seller_id p \<noteq> 2) (products shop))"
    using m(1,2) by simp
  then have "atlas \<in> set (filter (\<lambda>p. p_seller_id p \<noteq> 2)
       (products (outcome shop (delete_products (authenticated 2) shop (\<lambda>p. p_id p = 20)))))"
    using T by simp
  then have d: "atlas \<in> set (products (outcome shop (delete_products (authenticated 2) shop
                (\<lambda>p. p_id p = 20))))"
    by simp
  from m u k d show ?thesis by blast
qed

lemma owner_update_example:
  "update_products (authenticated 1) 900 shop (\<lambda>p. p_id p = 20) (\<lambda>p. p\<lparr>p_price := 60\<rparr>)
     = Inr (shop\<lparr>products := [atlas\<lparr>p_price := 60, p_updated_at := Some 900\<rparr>, novel, diary]\<rparr>)"
  by (simp add: update_products_def update_rows_def update_target_def rls_using_def
      rls_with_check_def products_policies_def applies_def is_true_def sql_eq_def auth_uid_def
      shop_def atlas_def novel_def diary_def assign_decimal_def decimal_10_2_def Let_def
      trigger_products_location_def set_updated_at_products_def first_error_def
      products_check_def products_keys_def ST_MakePoint_def)

subsection \<open>Location synchronisation\<close>

lemma update_each_ok:
  assumes "\<forall>row\<in>set rows. target row \<longrightarrow> upd row = Inr (f row)"
  shows "update_each target upd rows = Inr (map (\<lambda>row. if target row then f row else row) rows)"
  using assms by (induction rows) auto

lemma synced_fields:
  "p_id (trigger_products_location
       (p\<lparr>p_city := up_city NEW, p_state := up_state NEW, p_pincode := up_pincode NEW,
          p_latitude := up_latitude NEW, p_longitude := up_longitude NEW,
          p_location_point := up_location_point NEW, p_updated_at := Some now\<rparr>)) = p_id p"
  "p_seller_id (trigger_products_location
       (p\<lparr>p_city := up_city NEW, p_state := up_state NEW, p_pincode := up_pincode NEW,
          p_latitude := up_latitude NEW, p_longitude := up_longitude NEW,
          p_location_point := up_location_point NEW, p_updated_at := Some now\<rparr>)) = p_seller_id p"
  "p_category_id (trigger_products_location
       (p\<lparr>p_city := up_city NEW, p_state := up_state NEW, p_pincode := up_pincode NEW,
          p_latitude := up_latitude NEW, p_longitude := up_longitude NEW,
          p_location_point := up_location_point NEW, p_updated_at := Some now\<rparr>)) = p_category_id p"
  "p_price (trigger_products_location
       (p\<lparr>p_city := up_city NEW, p_state := up_state NEW, p_pincode := up_pincode NEW,
          p_latitude := up_latitude NEW, p_longitude := up_longitude NEW,
          p_location_point := up_location_point NEW, p_updated_at := Some now\<rparr>)) = p_price p"
  "p_status (trigger_products_location
       (p\<lparr>p_city := up_city NEW, p_state := up_state NEW, p_pincode := up_pincode NEW,
          p_latitude := up_latitude NEW, p_longitude := up_longitude NEW,
          p_location_point := up_location_point NEW, p_updated_at := Some now\<rparr>)) = p_status p"
  by (simp_all add: trigger_products_location_def split: option.splits)

lemma sync_target:
  assumes "r = service_role \<or> r = authenticated (up_id NEW)"
  shows "update_target products_policies r db
           (\<lambda>p. p_seller_id p = up_id NEW \<and> p_status p = active) p
         = (p_seller_id p = up_id NEW \<and> p_status p = active)"
  using assms
  by (auto simp: update_target_def rls_using_def products_policies_def applies_def
      is_true_def sql_eq_def auth_uid_def)

lemma sync_product_location_result:
  assumes changed: "up_city OLD \<noteq> up_city NEW \<or> up_state OLD \<noteq> up_state NEW
        \<or> up_pincode OLD \<noteq> up_pincode NEW \<or> up_latitude OLD \<noteq> up_latitude NEW
        \<or> up_longitude OLD \<noteq> up_longitude NEW"
    and role: "r = service_role \<or> r = authenticated (up_id NEW)"
    and valid: "\<forall>p\<in>set (products db).
        p_seller_id p = up_id NEW \<and> p_status p = active \<longrightarrow> p_price p > 0"
  shows "sync_product_location r now ''UPDATE'' OLD NEW db =
           Inr (db\<lparr>products :=
                  map (\<lambda>p. if p_seller_id p = up_id NEW \<and> p_status p = active
                            then (trigger_products_location
       (p\<lparr>p_city := up_city NEW, p_state := up_state NEW, p_pincode := up_pincode NEW,
          p_latitude := up_latitude NEW, p_longitude := up_longitude NEW,
          p_location_point := up_location_point NEW, p_updated_at := Some now\<rparr>)) else p) (products db)\<rparr>)"
proof -
  let ?wh = "\<lambda>p. p_seller_id p = up_id NEW \<and> p_status p = active"
  let ?st = "\<lambda>p. p\<lparr>p_city := up_city NEW, p_state := up_state NEW, p_pincode := up_pincode NEW,
          p_latitude := up_latitude NEW, p_longitude := up_longitude NEW,
          p_location_point := up_location_point NEW, p_updated_at := Some now\<rparr>"
  let ?upd = "\<lambda>row. case (case assign_decimal (Some (p_price row)) (p_price (?st row)) of
                   Inl e \<Rightarrow> Inl e
                 | Inr v \<Rightarrow> Inr (trigger_products_location
                     (set_updated_at_products now ((?st row)\<lparr>p_price := v\<rparr>)))) of
                 Inl e \<Rightarrow> Inl e
               | Inr row' \<Rightarrow>
                   if \<not> rls_with_check products_policies FOR_UPDATE r db row' then Inl rls_error
                   else if \<not> rls_using products_policies FOR_SELECT r db row' then Inl rls_error
                   else (case first_error (products_check row') (products_keys db (Some row) row') of
                           Some e \<Rightarrow> Inl e | None \<Rightarrow> Inr row')"
  have before: "trigger_products_location (set_updated_at_products now (?st p))
        = (trigger_products_location
       (p\<lparr>p_city := up_city NEW, p_state := up_state NEW, p_pincode := up_pincode NEW,
          p_latitude := up_latitude NEW, p_longitude := up_longitude NEW,
          p_location_point := up_location_point NEW, p_updated_at := Some now\<rparr>))" for p
    by (simp add: set_updated_at_products_def)
  have upd: "?upd p = Inr (trigger_products_location
       (p\<lparr>p_city := up_city NEW, p_state := up_state NEW, p_pincode := up_pincode NEW,
          p_latitude := up_latitude NEW, p_longitude := up_longitude NEW,
          p_location_point := up_location_point NEW, p_updated_at := Some now\<rparr>))"
    if "p \<in> set (products db)" "?wh p" for p
  proof -
    have pos: "p_price p > 0" using valid that by blast
    have chk: "rls_with_check products_policies FOR_UPDATE r db (trigger_products_location
       (p\<lparr>p_city := up_city NEW, p_state := up_state NEW, p_pincode := up_pincode NEW,
          p_latitude := up_latitude NEW, p_longitude := up_longitude NEW,
          p_location_point := up_location_point NEW, p_updated_at := Some now\<rparr>))"
      "rls_using products_policies FOR_SELECT r db (trigger_products_location
       (p\<lparr>p_city := up_city NEW, p_state := up_state NEW, p_pincode := up_pincode NEW,
          p_latitude := up_latitude NEW, p_longitude := up_longitude NEW,
          p_location_point := up_location_point NEW, p_updated_at := Some now\<rparr>))"
      using role that(2)
      by (auto simp: rls_with_check_def rls_using_def products_policies_def applies_def
          is_true_def sql_eq_def auth_uid_def synced_fields)
    have cons: "first_error (products_check (trigger_products_location
       (p\<lparr>p_city := up_city NEW, p_state := up_state NEW, p_pincode := up_pincode NEW,
          p_latitude := up_latitude NEW, p_longitude := up_longitude NEW,
          p_location_point := up_location_point NEW, p_updated_at := Some now\<rparr>)))
                  (products_keys db (Some p) (trigger_products_location
       (p\<lparr>p_city := up_city NEW, p_state := up_state NEW, p_pincode := up_pincode NEW,
          p_latitude := up_latitude NEW, p_longitude := up_longitude NEW,
          p_location_point := up_location_point NEW, p_updated_at := Some now\<rparr>))) = None"
      using pos by (simp add: first_error_def products_check_def products_keys_def synced_fields)
    show ?thesis
      using chk cons by (simp add: assign_decimal_def before)
  qed
  have "update_each (update_target products_policies r db ?wh) ?upd (products db)
        = Inr (map (\<lambda>p. if update_target products_policies r db ?wh p then (trigger_products_location
       (p\<lparr>p_city := up_city NEW, p_state := up_state NEW, p_pincode := up_pincode NEW,
          p_latitude := up_latitude NEW, p_longitude := up_longitude NEW,
          p_location_point := up_location_point NEW, p_updated_at := Some now\<rparr>)) else p)
                 (products db))"
    by (rule update_each_ok) (use upd sync_target [OF role] in blast)
  then show ?thesis
    using changed
    by (simp add: sync_product_location_def is_distinct_from_def update_products_def
        update_rows_def sync_target [OF role])
qed

text \<open>
  C10. When an \<^verbatim>\<open>UPDATE\<close> of a user profile changed one of city, state, pincode, latitude
  or longitude, \<open>sync_product_location\<close> (run for the profile's owner or for a role that
  bypasses the policies, on a table whose rows of that seller satisfy the price constraint)
  succeeds and changes only the \<^verbatim>\<open>products\<close> table: each active product of that seller gets
  the profile's new city, state, pincode, latitude and longitude, the location point that
  the products' own trigger derives from them (the profile's point when a coordinate is
  missing) and a new \<^verbatim>\<open>updated_at\<close>, and keeps all its other fields; every other row, the
  seller's non-active products and the products of other sellers, is unchanged.
\<close>

theorem sync_product_location_spec:
  assumes changed: "up_city OLD \<noteq> up_city NEW \<or> up_state OLD \<noteq> up_state NEW
        \<or> up_pincode OLD \<noteq> up_pincode NEW \<or> up_latitude OLD \<noteq> up_latitude NEW
        \<or> up_longitude OLD \<noteq> up_longitude NEW"
    and role: "r = service_role \<or> r = authenticated (up_id NEW)"
    and valid: "\<forall>p\<in>set (products db).
        p_seller_id p = up_id NEW \<and> p_status p = active \<longrightarrow> p_price p > 0"
  shows "\<exists>tbl. sync_product_location r now ''UPDATE'' OLD NEW db = Inr (db\<lparr>products := tbl\<rparr>)
       \<and> length tbl = length (products db)
       \<and> (\<forall>i < length (products db).
            (p_seller_id (products db ! i) = up_id NEW \<and> p_status (products db ! i) = active
               \<longrightarrow> p_city (tbl ! i) = up_city NEW
                 \<and> p_state (tbl ! i) = up_state NEW
                 \<and> p_pincode (tbl ! i) = up_pincode NEW
                 \<and> p_latitude (tbl ! i) = up_latitude NEW
                 \<and> p_longitude (tbl ! i) = up_longitude NEW
                 \<and> tbl ! i = (products db ! i)
                     \<lparr>p_city := up_city NEW, p_state := up_state NEW,
                      p_pincode := up_pincode NEW, p_latitude := up_latitude NEW,
                      p_longitude := up_longitude NEW,
                      p_location_point :=
                        (case up_latitude NEW of
                        None \<Rightarrow> up_location_point NEW
                      | Some lat \<Rightarrow>
                          (case up_longitude NEW of
                             None \<Rightarrow> up_location_point NEW
                           | Some lon \<Rightarrow> Some (ST_MakePoint lon lat))),
                      p_updated_at := Some now\<rparr>)
          \<and> (\<not> (p_seller_id (products db ! i) = up_id NEW \<and> p_status (products db ! i) = active)
               \<longrightarrow> tbl ! i = products db ! i))"
proof -
  let ?tbl = "map (\<lambda>p. if p_seller_id p = up_id NEW \<and> p_status p = active
                            then (trigger_products_location
       (p\<lparr>p_city := up_city NEW, p_state := up_state NEW, p_pincode := up_pincode NEW,
          p_latitude := up_latitude NEW, p_longitude := up_longitude NEW,
          p_location_point := up_location_point NEW, p_updated_at := Some now\<rparr>)) else p) (products db)"
  have "sync_product_location r now ''UPDATE'' OLD NEW db = Inr (db\<lparr>products := ?tbl\<rparr>)"
    using sync_product_location_result [OF assms] .
  moreover have "length ?tbl = length (products db)" by simp
  moreover have "p_city (?tbl ! i) = up_city NEW
                 \<and> p_state (?tbl ! i) = up_state NEW
                 \<and> p_pincode (?tbl ! i) = up_pincode NEW
                 \<and> p_latitude (?tbl ! i) = up_latitude NEW
                 \<and> p_longitude (?tbl ! i) = up_longitude NEW
                 \<and> ?tbl ! i = (products db ! i)
                     \<lparr>p_city := up_city NEW, p_state := up_state NEW,
                      p_pincode := up_pincode NEW, p_latitude := up_latitude NEW,
                      p_longitude := up_longitude NEW,
                      p_location_point :=
                        (case up_latitude NEW of
                        None \<Rightarrow> up_location_point NEW
                      | Some lat \<Rightarrow>
                          (case up_longitude NEW of
                             None \<Rightarrow> up_location_point NEW
                           | Some lon \<Rightarrow> Some (ST_MakePoint lon lat))),
                      p_updated_at := Some now\<rparr>"
    if "i < length (products db)"
      "p_seller_id (products db ! i) = up_id NEW \<and> p_status (products db ! i) = active" for i
    using that by (simp add: trigger_products_location_def split: option.splits)
  moreover have "?tbl ! i = products db ! i"
    if "i < length (products db)"
      "\<not> (p_seller_id (products db ! i) = up_id NEW \<and> p_status (products db ! i) = active)" for i
    using that by auto
  ultimately show ?thesis by blast
qed

theorem sync_product_location_spec_witness:
  "up_city alice \<noteq> up_city (alice\<lparr>up_city := Some ''Mumbai''\<rparr>)
   \<and> (authenticated 1 = service_role
        \<or> authenticated 1 = authenticated (up_id (alice\<lparr>up_city := Some ''Mumbai''\<rparr>)))
   \<and> filter (\<lambda>p. p_seller_id p = up_id (alice\<lparr>up_city := Some ''Mumbai''\<rparr>)
                   \<and> p_status p = active) (products shop) = [atlas]
   \<and> p_price atlas > 0
   \<and> (\<exists>tbl. sync_product_location (authenticated 1) 900 ''UPDATE'' alice
                (alice\<lparr>up_city := Some ''Mumbai''\<rparr>) shop = Inr (shop\<lparr>products := tbl\<rparr>)
        \<and> length tbl = 3
        \<and> p_city (tbl ! 0) = Some ''Mumbai''
        \<and> tbl ! 0 = atlas\<lparr>p_city := Some ''Mumbai'', p_updated_at := Some 900\<rparr>
        \<and> tbl ! 1 = novel
        \<and> tbl ! 2 = diary)"
proof -
  let ?NEW = "alice\<lparr>up_city := Some ''Mumbai''\<rparr>"
  have h1: "up_city alice \<noteq> up_city ?NEW \<or> up_state alice \<noteq> up_state ?NEW
      \<or> up_pincode alice \<noteq> up_pincode ?NEW \<or> up_latitude alice \<noteq> up_latitude ?NEW
      \<or> up_longitude alice \<noteq> up_longitude ?NEW"
    by (simp add: alice_def)
  have h2: "authenticated 1 = service_role \<or> authenticated 1 = authenticated (up_id ?NEW)"
    by (simp add: alice_def)
  have h3: "\<forall>p\<in>set (products shop).
         p_seller_id p = up_id ?NEW \<and> p_status p = active \<longrightarrow> p_price p > 0"
    by (simp add: shop_def atlas_def novel_def diary_def alice_def)
  have rows: "length (products shop) = 3" "products shop ! 0 = atlas"
    "products shop ! 1 = novel" "products shop ! 2 = diary"
    by (simp_all add: shop_def)
  have own: "p_seller_id atlas = up_id ?NEW \<and> p_status atlas = active"
    "\<not> (p_seller_id novel = up_id ?NEW \<and> p_status novel = active)"
    "\<not> (p_seller_id diary = up_id ?NEW \<and> p_status diary = active)"
    by (simp_all add: atlas_def novel_def diary_def alice_def)
  from sync_product_location_spec [OF h1 h2 h3, of 900]
  obtain tbl where res: "sync_product_location (authenticated 1) 900 ''UPDATE'' alice ?NEW shop
        = Inr (shop\<lparr>products := tbl\<rparr>)"
    and len: "length tbl = length (products shop)"
    and each: "\<forall>i < length (products shop).
            (p_seller_id (products shop ! i) = up_id ?NEW \<and> p_status (products shop ! i) = active
               \<longrightarrow> p_city (tbl ! i) = up_city ?NEW
                 \<and> p_state (tbl ! i) = up_state ?NEW
                 \<and> p_pincode (tbl ! i) = up_pincode ?NEW
                 \<and> p_latitude (tbl ! i) = up_latitude ?NEW
                 \<and> p_longitude (tbl ! i) = up_longitude ?NEW
                 \<and> tbl ! i = (products shop ! i)
                     \<lparr>p_city := up_city ?NEW, p_state := up_state ?NEW,
                      p_pincode := up_pincode ?NEW, p_latitude := up_latitude ?NEW,
                      p_longitude := up_longitude ?NEW,
                      p_location_point :=
                        (case up_latitude ?NEW of
                        None \<Rightarrow> up_location_point ?NEW
                      | Some lat \<Rightarrow>
                          (case up_longitude ?NEW of
                             None \<Rightarrow> up_location_point ?NEW
                           | Some lon \<Rightarrow> Some (ST_MakePoint lon lat))),
                      p_updated_at := Some 900\<rparr>)
          \<and> (\<not> (p_seller_id (products shop ! i) = up_id ?NEW
                   \<and> p_status (products shop ! i) = active)
               \<longrightarrow> tbl ! i = products shop ! i)"
    by blast
  from each [rule_format, of 0] rows own(1)
  have a0: "p_city (tbl ! 0) = Some ''Mumbai''"
    and b0: "tbl ! 0 = atlas\<lparr>p_city := Some ''Mumbai'', p_updated_at := Some 900\<rparr>"
    by (simp_all add: alice_def atlas_def ST_MakePoint_def)
  from each [rule_format, of 1] rows own(2) have b1: "tbl ! 1 = novel" by simp
  from each [rule_format, of 2] rows own(3) have b2: "tbl ! 2 = diary" by simp
  from res len rows(1) a0 b0 b1 b2
  have "\<exists>tbl. sync_product_location (authenticated 1) 900 ''UPDATE'' alice ?NEW shop
                = Inr (shop\<lparr>products := tbl\<rparr>)
        \<and> length tbl = 3
        \<and> p_city (tbl ! 0) = Some ''Mumbai''
        \<and> tbl ! 0 = atlas\<lparr>p_city := Some ''Mumbai'', p_updated_at := Some 900\<rparr>
        \<and> tbl ! 1 = novel
        \<and> tbl ! 2 = diary"
    by auto
  moreover have "filter (\<lambda>p. p_seller_id p = up_id ?NEW \<and> p_status p = active)
      (products shop) = [atlas]" "p_price atlas > 0"
    by (simp_all add: shop_def atlas_def novel_def diary_def alice_def)
  moreover have "up_city alice \<noteq> up_city ?NEW"
    by (simp add: alice_def)
  ultimately show ?thesis using h2 by (intro conjI)
qed

subsection \<open>Nearby products\<close>

lemma set_insort_by [simp]: "set (insort_by le x xs) = insert x (set xs)"
  by (induction xs) auto

lemma set_order_by [simp]: "set (order_by le xs) = set xs"
  unfolding order_by_def by (induction xs) auto

lemma length_insort_by [simp]: "length (insort_by le x xs) = Suc (length xs)"
  by (induction xs) auto

lemma sorted_wrt_insort_by:
  assumes total: "\<And>a b. le a b \<or> le b a" and trans: "\<And>a b c. le a b \<Longrightarrow> le b c \<Longrightarrow> le a c"
    and "sorted_wrt le xs"
  shows "sorted_wrt le (insort_by le x xs)"
  using assms(3)
proof (induction xs)
  case Nil
  then show ?case by simp
next
  case (Cons y ys)
  show ?case
  proof (cases "le x y")
    case True
    with Cons.prems trans show ?thesis by auto
  next
    case False
    with total have "le y x" by blast
    with Cons False show ?thesis by auto
  qed
qed

lemma sorted_wrt_order_by:
  assumes total: "\<forall>a b. le a b \<or> le b a" and trans: "\<forall>a b c. le a b \<longrightarrow> le b c \<longrightarrow> le a c"
  shows "sorted_wrt le (order_by le xs)"
proof -
  have t: "\<And>a b. le a b \<or> le b a" using total by blast
  have tr: "\<And>a b c. le a b \<Longrightarrow> le b c \<Longrightarrow> le a c" using trans by blast
  show ?thesis
    unfolding order_by_def
    by (induction xs) (auto intro: sorted_wrt_insort_by [OF t tr])
qed

lemma desc_nulls_first_total: "desc_nulls_first a b \<or> desc_nulls_first b a"
  by (auto simp: desc_nulls_first_def split: option.splits)

lemma desc_nulls_first_trans:
  "desc_nulls_first a b \<Longrightarrow> desc_nulls_first b c \<Longrightarrow> desc_nulls_first a c"
  by (auto simp: desc_nulls_first_def split: option.splits)

lemma asc_nulls_last_total: "asc_nulls_last a b \<or> asc_nulls_last b a"
  by (auto simp: asc_nulls_last_def split: option.splits)

lemma asc_nulls_last_trans:
  "asc_nulls_last a b \<Longrightarrow> asc_nulls_last b c \<Longrightarrow> asc_nulls_last a c"
  by (auto simp: asc_nulls_last_def split: option.splits)

lemma nearby_le_total:
  "lex_le (\<lambda>a b. asc_nulls_last (f a) (f b)) (\<lambda>a b. desc_nulls_first (g a) (g b)) a b
   \<or> lex_le (\<lambda>a b. asc_nulls_last (f a) (f b)) (\<lambda>a b. desc_nulls_first (g a) (g b)) b a"
  unfolding lex_le_def using asc_nulls_last_total desc_nulls_first_total by blast

lemma nearby_le_trans:
  assumes "lex_le (\<lambda>a b. asc_nulls_last (f a) (f b)) (\<lambda>a b. desc_nulls_first (g a) (g b)) a b"
    and "lex_le (\<lambda>a b. asc_nulls_last (f a) (f b)) (\<lambda>a b. desc_nulls_first (g a) (g b)) b c"
  shows "lex_le (\<lambda>a b. asc_nulls_last (f a) (f b)) (\<lambda>a b. desc_nulls_first (g a) (g b)) a c"
  using assms unfolding lex_le_def
  by (meson asc_nulls_last_trans desc_nulls_first_trans)

lemma limit_Inr:
  assumes "limit n xs = Inr ys"
  shows "set ys \<subseteq> set xs" "sorted_wrt le xs \<Longrightarrow> sorted_wrt le ys"
    "\<And>k. n = Some k \<Longrightarrow> int (length ys) \<le> k"
  using assms
  by (auto simp: limit_def sorted_wrt_take split: option.splits if_splits dest: in_set_takeD)

lemma limit_total:
  "(\<forall>k. n = Some k \<longrightarrow> 0 \<le> k) \<Longrightarrow> \<exists>ys. limit n xs = Inr ys"
  by (auto simp: limit_def split: option.splits)

lemma products_joined_product:
  "(p, up, c) \<in> set (products_joined r db) \<Longrightarrow>
     p \<in> set (products db) \<and> up \<in> set (user_profiles db) \<and> c \<in> set (categories db)
     \<and> p_seller_id p = up_id up \<and> p_category_id p = c_id c"
  by (auto simp: products_joined_def select_rows_def)

lemma sorted_recent:
  "sorted_wrt (\<lambda>a b. desc_nulls_first (np_created_at a) (np_created_at b))
     (order_by (\<lambda>a b. desc_nulls_first (np_created_at a) (np_created_at b)) xs)"
  using desc_nulls_first_total desc_nulls_first_trans
  by (intro sorted_wrt_order_by) blast+

lemma sorted_nearby:
  "sorted_wrt
     (lex_le (\<lambda>a b. asc_nulls_last (np_distance_km a) (np_distance_km b))
             (\<lambda>a b. desc_nulls_first (np_created_at a) (np_created_at b)))
     (order_by
        (lex_le (\<lambda>a b. asc_nulls_last (np_distance_km a) (np_distance_km b))
                (\<lambda>a b. desc_nulls_first (np_created_at a) (np_created_at b))) xs)"
  using nearby_le_total [of np_distance_km np_created_at]
    nearby_le_trans [of np_distance_km np_created_at]
  by (intro sorted_wrt_order_by) blast+

lemma lex_le_Some:
  assumes "lex_le (\<lambda>a b. asc_nulls_last (np_distance_km a) (np_distance_km b))
             (\<lambda>a b. desc_nulls_first (np_created_at a) (np_created_at b)) a b"
    and "np_distance_km a = Some ka" "np_distance_km b = Some kb"
  shows "ka < kb \<or> (ka = kb \<and> desc_nulls_first (np_created_at a) (np_created_at b))"
  using assms by (auto simp: lex_le_def asc_nulls_last_def)

lemma np_fields [simp]:
  "np_status (nearby_row p up c d) = p_status p"
  "np_id (nearby_row p up c d) = p_id p"
  "np_distance_km (nearby_row p up c d) = d"
  "np_created_at (nearby_row p up c d) = p_created_at p"
  by (simp_all add: nearby_row_def)

lemma int4mul_Some:
  "int4mul a (Some 1000) = Inr (Some m) \<Longrightarrow> \<exists>R. a = Some R \<and> m = R * 1000"
  by (auto simp: int4mul_def split: option.splits if_splits)

lemma ST_DWithin_true:
  "is_true (ST_DWithin D a (Some h) t) \<Longrightarrow> \<exists>g m. a = Some g \<and> t = Some m \<and> D g h \<le> m"
  by (auto simp: is_true_def ST_DWithin_def split: option.splits)

lemma in_active_rows:
  "x \<in> set [f p up c. (p, up, c) \<leftarrow> J, P p up c]
     \<longleftrightarrow> (\<exists>p up c. (p, up, c) \<in> set J \<and> P p up c \<and> x = f p up c)"
  by auto

lemma mset_insort_by [simp]: "mset (insort_by le x xs) = add_mset x (mset xs)"
  by (induction xs) auto

lemma mset_order_by [simp]: "mset (order_by le xs) = mset xs"
  unfolding order_by_def by (induction xs) auto

lemma limit_Inr_prefix:
  assumes "limit n xs = Inr ys"
  shows "\<exists>rest. xs = ys @ rest \<and> (rest = [] \<or> n = Some (int (length ys)))"
proof (cases n)
  case None
  with assms show ?thesis by (simp add: limit_def)
next
  case (Some k)
  with assms have k: "0 \<le> k" and ys: "ys = take (nat k) xs"
    by (auto simp: limit_def split: if_splits)
  show ?thesis
  proof (cases "nat k \<le> length xs")
    case True
    have "xs = ys @ drop (nat k) xs" by (simp add: ys)
    moreover have "n = Some (int (length ys))" using True k by (simp add: ys Some)
    ultimately show ?thesis by blast
  next
    case False
    then have "xs = ys @ []" by (simp add: ys)
    then show ?thesis by blast
  qed
qed

lemma products_joined_complete:
  assumes "r \<noteq> anon" "p \<in> set (products db)" "p_status p = active"
    and "up \<in> set (user_profiles db)" "c \<in> set (categories db)"
    and "p_seller_id p = up_id up" "p_category_id p = c_id c"
  shows "(p, up, c) \<in> set (products_joined r db)"
proof -
  have "rls_using products_policies FOR_SELECT r db p"
    using assms(1,3) by (cases r) (simp_all add: rls_using_def products_policies_def applies_def)
  moreover have "rls_using user_profiles_policies FOR_SELECT r db up"
    using assms(1) by (cases r) (simp_all add: rls_using_def user_profiles_policies_def applies_def)
  moreover have "rls_using categories_policies FOR_SELECT r db c"
    using assms(1) by (cases r) (simp_all add: rls_using_def categories_policies_def applies_def)
  ultimately show ?thesis
    using assms(2,4-7) by (auto simp: products_joined_def select_rows_def)
qed

lemma get_nearby_products_recent:
  assumes "user_lat = None \<or> user_lon = None"
  shows "get_nearby_products D r db user_lat user_lon radius_km limit_count =
     limit limit_count
       (order_by (\<lambda>a b. desc_nulls_first (np_created_at a) (np_created_at b))
          [nearby_row p up c None. (p, up, c) \<leftarrow> products_joined r db, p_status p = active])"
  using assms by (cases user_lat; cases user_lon) (simp_all add: get_nearby_products_def)

lemma within_guard:
  assumes "int4mul radius_km (Some 1000) = Inr metres"
  shows "(p_location_point p \<noteq> None
          \<and> is_true (ST_DWithin D (p_location_point p) (Some h) (map_option real_of_int metres)))
       = (case p_location_point p of
            None \<Rightarrow> False
          | Some g \<Rightarrow> (case radius_km of
                         None \<Rightarrow> False
                       | Some R \<Rightarrow> D g h \<le> real_of_int R * 1000))"
  using assms
  by (auto simp: int4mul_def ST_DWithin_def is_true_def split: option.splits if_splits)

lemma get_nearby_products_within:
  assumes "int4mul radius_km (Some 1000) = Inr metres"
  shows "get_nearby_products D r db (Some lat) (Some lon) radius_km limit_count =
     limit limit_count
       (order_by
          (lex_le (\<lambda>a b. asc_nulls_last (np_distance_km a) (np_distance_km b))
                  (\<lambda>a b. desc_nulls_first (np_created_at a) (np_created_at b)))
          [nearby_row p up c
             (map_option (\<lambda>g. D g (ST_MakePoint lon lat) / 1000) (p_location_point p)).
             (p, up, c) \<leftarrow> products_joined r db,
             p_status p = active
             \<and> (case p_location_point p of
                   None \<Rightarrow> False
                 | Some g \<Rightarrow> (case radius_km of
                                None \<Rightarrow> False
                              | Some R \<Rightarrow> D g (ST_MakePoint lon lat) \<le> real_of_int R * 1000))])"
  by (simp only: get_nearby_products_def Let_def option.case assms sum.case
      within_guard [OF assms])

lemma get_nearby_products_metres:
  assumes "get_nearby_products D r db (Some lat) (Some lon) radius_km limit_count = Inr rows"
  shows "\<exists>metres. int4mul radius_km (Some 1000) = Inr metres"
  using assms by (cases "int4mul radius_km (Some 1000)") (simp_all add: get_nearby_products_def)

lemma recent_branch:
  assumes coords: "user_lat = None \<or> user_lon = None"
    and res: "get_nearby_products D r db user_lat user_lon radius_km limit_count = Inr rows"
  shows "\<forall>x\<in>set rows. np_status x = active \<and> np_distance_km x = None
            \<and> (\<exists>p\<in>set (products db). p_id p = np_id x \<and> p_status p = active)"
    and "sorted_wrt (\<lambda>a b. desc_nulls_first (np_created_at a) (np_created_at b)) rows"
    and "\<forall>k. limit_count = Some k \<longrightarrow> int (length rows) \<le> k"
    and "\<exists>rest. mset (rows @ rest)
                 = mset [nearby_row p up c None.
                           (p, up, c) \<leftarrow> products_joined r db, p_status p = active]
            \<and> sorted_wrt (\<lambda>a b. desc_nulls_first (np_created_at a) (np_created_at b))
                  (rows @ rest)
            \<and> (rest = [] \<or> limit_count = Some (int (length rows)))"
    and "\<forall>p\<in>set (products db). \<forall>up\<in>set (user_profiles db). \<forall>c\<in>set (categories db).
           r \<noteq> anon \<and> p_status p = active \<and> p_seller_id p = up_id up
             \<and> p_category_id p = c_id c \<longrightarrow>
           nearby_row p up c None \<in> set rows
           \<or> (limit_count = Some (int (length rows))
               \<and> (\<forall>x\<in>set rows. desc_nulls_first (np_created_at x) (p_created_at p)))"
proof -
  let ?xs = "[nearby_row p up c None. (p, up, c) \<leftarrow> products_joined r db, p_status p = active]"
  let ?le = "\<lambda>a b. desc_nulls_first (np_created_at a) (np_created_at b)"
  from res have lim: "limit limit_count (order_by ?le ?xs) = Inr rows"
    by (simp only: get_nearby_products_recent [OF coords])
  from limit_Inr_prefix [OF lim] obtain rest where split: "order_by ?le ?xs = rows @ rest"
    and full: "rest = [] \<or> limit_count = Some (int (length rows))" by blast
  have ms: "mset (rows @ rest) = mset ?xs"
    using mset_order_by [of ?le ?xs] by (simp only: split)
  have st: "sorted_wrt ?le (rows @ rest)"
    using sorted_recent [of ?xs] by (simp only: split)
  have sets: "set rows \<union> set rest = set ?xs"
    using set_order_by [of ?le ?xs] by (simp only: split set_append)
  have elem: "np_status x = active \<and> np_distance_km x = None
      \<and> (\<exists>p\<in>set (products db). p_id p = np_id x \<and> p_status p = active)"
    if "x \<in> set rows" for x
  proof -
    from that sets have "x \<in> set ?xs" by blast
    then obtain p up c where j: "(p, up, c) \<in> set (products_joined r db)"
      and a: "p_status p = active" and x: "x = nearby_row p up c None"
      unfolding in_active_rows by blast
    have "p \<in> set (products db)" using products_joined_product [OF j] by blast
    moreover have "np_status x = active" "p_id p = np_id x" "np_distance_km x = None"
      by (simp_all add: x a)
    ultimately show ?thesis using a by blast
  qed
  show "\<forall>x\<in>set rows. np_status x = active \<and> np_distance_km x = None
            \<and> (\<exists>p\<in>set (products db). p_id p = np_id x \<and> p_status p = active)"
    using elem by blast
  show "sorted_wrt ?le rows"
    using st by (simp only: sorted_wrt_append)
  show "\<forall>k. limit_count = Some k \<longrightarrow> int (length rows) \<le> k"
    using limit_Inr(3) [OF lim] by blast
  show "\<exists>rest. mset (rows @ rest) = mset ?xs \<and> sorted_wrt ?le (rows @ rest)
            \<and> (rest = [] \<or> limit_count = Some (int (length rows)))"
    using ms st full by blast
  show "\<forall>p\<in>set (products db). \<forall>up\<in>set (user_profiles db). \<forall>c\<in>set (categories db).
           r \<noteq> anon \<and> p_status p = active \<and> p_seller_id p = up_id up
             \<and> p_category_id p = c_id c \<longrightarrow>
           nearby_row p up c None \<in> set rows
           \<or> (limit_count = Some (int (length rows))
               \<and> (\<forall>x\<in>set rows. desc_nulls_first (np_created_at x) (p_created_at p)))"
  proof (intro ballI impI)
    fix p up c
    assume p: "p \<in> set (products db)" and up: "up \<in> set (user_profiles db)"
      and c: "c \<in> set (categories db)"
      and h: "r \<noteq> anon \<and> p_status p = active \<and> p_seller_id p = up_id up
             \<and> p_category_id p = c_id c"
    from h have h1: "r \<noteq> anon" and h2: "p_status p = active"
      and h3: "p_seller_id p = up_id up" and h4: "p_category_id p = c_id c" by blast+
    have j: "(p, up, c) \<in> set (products_joined r db)"
      using products_joined_complete [OF h1 p h2 up c h3 h4] .
    have "nearby_row p up c None \<in> set ?xs"
      unfolding in_active_rows using j h2 by blast
    with sets have mem: "nearby_row p up c None \<in> set rows \<or> nearby_row p up c None \<in> set rest"
      by blast
    show "nearby_row p up c None \<in> set rows
           \<or> (limit_count = Some (int (length rows))
               \<and> (\<forall>x\<in>set rows. desc_nulls_first (np_created_at x) (p_created_at p)))"
    proof (cases "nearby_row p up c None \<in> set rows")
      case True
      then show ?thesis by blast
    next
      case False
      with mem have y: "nearby_row p up c None \<in> set rest" by blast
      then have "rest \<noteq> []" by auto
      with full have f: "limit_count = Some (int (length rows))" by blast
      from st have "\<forall>x\<in>set rows. \<forall>y\<in>set rest. ?le x y"
        by (simp only: sorted_wrt_append) blast
      with y have "\<forall>x\<in>set rows. ?le x (nearby_row p up c None)" by blast
      then have "\<forall>x\<in>set rows. desc_nulls_first (np_created_at x) (p_created_at p)"
        by simp
      with f show ?thesis by blast
    qed
  qed
qed

lemma within_branch:
  assumes res: "get_nearby_products D r db (Some lat) (Some lon) radius_km limit_count = Inr rows"
  shows "\<forall>x\<in>set rows. np_status x = active
            \<and> (\<exists>p\<in>set (products db). \<exists>g km R.
                  p_id p = np_id x \<and> p_status p = active \<and> p_location_point p = Some g
                  \<and> np_distance_km x = Some km \<and> km = D g (ST_MakePoint lon lat) / 1000
                  \<and> radius_km = Some R \<and> km \<le> real_of_int R)"
    and "sorted_wrt (\<lambda>a b. \<exists>ka kb. np_distance_km a = Some ka \<and> np_distance_km b = Some kb
                       \<and> (ka < kb \<or> (ka = kb
                            \<and> desc_nulls_first (np_created_at a) (np_created_at b)))) rows"
    and "\<forall>k. limit_count = Some k \<longrightarrow> int (length rows) \<le> k"
    and "\<exists>rest. mset (rows @ rest)
                 = mset [nearby_row p up c
                           (map_option (\<lambda>g. D g (ST_MakePoint lon lat) / 1000)
                              (p_location_point p)).
                           (p, up, c) \<leftarrow> products_joined r db,
                           p_status p = active
                           \<and> (case p_location_point p of
                                 None \<Rightarrow> False
                               | Some g \<Rightarrow>
                                   (case radius_km of
                                      None \<Rightarrow> False
                                    | Some R \<Rightarrow> D g (ST_MakePoint lon lat)
                                                  \<le> real_of_int R * 1000))]
            \<and> sorted_wrt (\<lambda>a b. \<exists>ka kb. np_distance_km a = Some ka \<and> np_distance_km b = Some kb
                       \<and> (ka < kb \<or> (ka = kb
                            \<and> desc_nulls_first (np_created_at a) (np_created_at b))))
                  (rows @ rest)
            \<and> (rest = [] \<or> limit_count = Some (int (length rows)))"
    and "\<forall>p\<in>set (products db). \<forall>up\<in>set (user_profiles db). \<forall>c\<in>set (categories db).
         \<forall>g R. r \<noteq> anon \<and> p_status p = active \<and> p_seller_id p = up_id up
             \<and> p_category_id p = c_id c \<and> p_location_point p = Some g
             \<and> radius_km = Some R \<and> D g (ST_MakePoint lon lat) \<le> real_of_int R * 1000 \<longrightarrow>
           nearby_row p up c (Some (D g (ST_MakePoint lon lat) / 1000)) \<in> set rows
           \<or> (limit_count = Some (int (length rows))
               \<and> (\<forall>x\<in>set rows. \<exists>kx. np_distance_km x = Some kx
                      \<and> (kx < D g (ST_MakePoint lon lat) / 1000
                          \<or> (kx = D g (ST_MakePoint lon lat) / 1000
                              \<and> desc_nulls_first (np_created_at x) (p_created_at p)))))"
proof -
  let ?h = "ST_MakePoint lon lat"
  let ?le = "lex_le (\<lambda>a b. asc_nulls_last (np_distance_km a) (np_distance_km b))
                    (\<lambda>a b. desc_nulls_first (np_created_at a) (np_created_at b))"
  let ?rel = "\<lambda>a b. \<exists>ka kb. np_distance_km a = Some ka \<and> np_distance_km b = Some kb
                       \<and> (ka < kb \<or> (ka = kb
                            \<and> desc_nulls_first (np_created_at a) (np_created_at b)))"
  let ?xs = "[nearby_row p up c (map_option (\<lambda>g. D g ?h / 1000) (p_location_point p)).
                (p, up, c) \<leftarrow> products_joined r db,
                p_status p = active
                \<and> (case p_location_point p of
                      None \<Rightarrow> False
                    | Some g \<Rightarrow> (case radius_km of
                                   None \<Rightarrow> False
                                 | Some R \<Rightarrow> D g ?h \<le> real_of_int R * 1000))]"
  from get_nearby_products_metres [OF res] obtain metres
    where m: "int4mul radius_km (Some 1000) = Inr metres" by blast
  from res have lim: "limit limit_count (order_by ?le ?xs) = Inr rows"
    by (simp only: get_nearby_products_within [OF m])
  from limit_Inr_prefix [OF lim] obtain rest where split: "order_by ?le ?xs = rows @ rest"
    and full: "rest = [] \<or> limit_count = Some (int (length rows))" by blast
  have ms: "mset (rows @ rest) = mset ?xs"
    using mset_order_by [of ?le ?xs] by (simp only: split)
  have st: "sorted_wrt ?le (rows @ rest)"
    using sorted_nearby [of ?xs] by (simp only: split)
  have sets: "set (rows @ rest) = set ?xs"
    using set_order_by [of ?le ?xs] by (simp only: split)
  have elem: "np_status x = active
            \<and> (\<exists>p\<in>set (products db). \<exists>g km R.
                  p_id p = np_id x \<and> p_status p = active \<and> p_location_point p = Some g
                  \<and> np_distance_km x = Some km \<and> km = D g ?h / 1000
                  \<and> radius_km = Some R \<and> km \<le> real_of_int R)"
    if "x \<in> set (rows @ rest)" for x
  proof -
    from that sets have "x \<in> set ?xs" by blast
    then obtain p up c where j: "(p, up, c) \<in> set (products_joined r db)"
      and a: "p_status p = active"
      and w: "(case p_location_point p of
                      None \<Rightarrow> False
                    | Some g \<Rightarrow> (case radius_km of
                                   None \<Rightarrow> False
                                 | Some R \<Rightarrow> D g ?h \<le> real_of_int R * 1000))"
      and x: "x = nearby_row p up c (map_option (\<lambda>g. D g ?h / 1000) (p_location_point p))"
      unfolding in_active_rows by blast
    from w obtain g R where g: "p_location_point p = Some g" and R: "radius_km = Some R"
      and d: "D g ?h \<le> real_of_int R * 1000"
      by (cases "p_location_point p"; cases radius_km) simp_all
    have le: "D g ?h / 1000 \<le> real_of_int R" using d by simp
    have px: "p \<in> set (products db)"
      using products_joined_product [OF j] by blast
    have f: "np_status x = active" "p_id p = np_id x"
      "np_distance_km x = Some (D g ?h / 1000)"
      by (simp_all add: x a g)
    show ?thesis
      using f a g R le px
      by (intro conjI bexI [of _ p] exI [of _ g] exI [of _ "D g ?h / 1000"] exI [of _ R])
         simp_all
  qed
  have conv: "?rel a b" if "a \<in> set (rows @ rest)" "b \<in> set (rows @ rest)" "?le a b" for a b
  proof -
    from elem [OF that(1)] obtain ka where ka: "np_distance_km a = Some ka" by blast
    from elem [OF that(2)] obtain kb where kb: "np_distance_km b = Some kb" by blast
    from lex_le_Some [OF that(3) ka kb] ka kb show ?thesis by blast
  qed
  have srt: "sorted_wrt ?rel (rows @ rest)"
    using conv st by (rule sorted_wrt_mono_rel)
  show "\<forall>x\<in>set rows. np_status x = active
            \<and> (\<exists>p\<in>set (products db). \<exists>g km R.
                  p_id p = np_id x \<and> p_status p = active \<and> p_location_point p = Some g
                  \<and> np_distance_km x = Some km \<and> km = D g ?h / 1000
                  \<and> radius_km = Some R \<and> km \<le> real_of_int R)"
  proof
    fix x assume "x \<in> set rows"
    then have "x \<in> set (rows @ rest)" by simp
    from elem [OF this] show "np_status x = active
            \<and> (\<exists>p\<in>set (products db). \<exists>g km R.
                  p_id p = np_id x \<and> p_status p = active \<and> p_location_point p = Some g
                  \<and> np_distance_km x = Some km \<and> km = D g ?h / 1000
                  \<and> radius_km = Some R \<and> km \<le> real_of_int R)" .
  qed
  show "sorted_wrt ?rel rows"
    using srt by (simp only: sorted_wrt_append)
  show "\<forall>k. limit_count = Some k \<longrightarrow> int (length rows) \<le> k"
    using limit_Inr(3) [OF lim] by blast
  show "\<exists>rest. mset (rows @ rest) = mset ?xs \<and> sorted_wrt ?rel (rows @ rest)
            \<and> (rest = [] \<or> limit_count = Some (int (length rows)))"
    using ms srt full by blast
  show "\<forall>p\<in>set (products db). \<forall>up\<in>set (user_profiles db). \<forall>c\<in>set (categories db).
         \<forall>g R. r \<noteq> anon \<and> p_status p = active \<and> p_seller_id p = up_id up
             \<and> p_category_id p = c_id c \<and> p_location_point p = Some g
             \<and> radius_km = Some R \<and> D g ?h \<le> real_of_int R * 1000 \<longrightarrow>
           nearby_row p up c (Some (D g ?h / 1000)) \<in> set rows
           \<or> (limit_count = Some (int (length rows))
               \<and> (\<forall>x\<in>set rows. \<exists>kx. np_distance_km x = Some kx
                      \<and> (kx < D g ?h / 1000
                          \<or> (kx = D g ?h / 1000
                              \<and> desc_nulls_first (np_created_at x) (p_created_at p)))))"
  proof (intro ballI allI impI)
    fix p up c g R
    assume p: "p \<in> set (products db)" and up: "up \<in> set (user_profiles db)"
      and c: "c \<in> set (categories db)"
      and h: "r \<noteq> anon \<and> p_status p = active \<and> p_seller_id p = up_id up
             \<and> p_category_id p = c_id c \<and> p_location_point p = Some g
             \<and> radius_km = Some R \<and> D g ?h \<le> real_of_int R * 1000"
    from h have h1: "r \<noteq> anon" and h2: "p_status p = active"
      and h3: "p_seller_id p = up_id up" and h4: "p_category_id p = c_id c"
      and h5: "p_location_point p = Some g" and h6: "radius_km = Some R"
      and h7: "D g ?h \<le> real_of_int R * 1000" by blast+
    let ?y = "nearby_row p up c (Some (D g ?h / 1000))"
    have j: "(p, up, c) \<in> set (products_joined r db)"
      using products_joined_complete [OF h1 p h2 up c h3 h4] .
    have w: "(case p_location_point p of
                      None \<Rightarrow> False
                    | Some g \<Rightarrow> (case radius_km of
                                   None \<Rightarrow> False
                                 | Some R \<Rightarrow> D g ?h \<le> real_of_int R * 1000))"
      using h5 h6 h7 by simp
    have y: "?y = nearby_row p up c (map_option (\<lambda>g. D g ?h / 1000) (p_location_point p))"
      by (simp add: h5)
    have "?y \<in> set ?xs"
      unfolding in_active_rows using j h2 w y by blast
    then have "?y \<in> set (rows @ rest)" by (simp only: sets)
    then have mem: "?y \<in> set rows \<or> ?y \<in> set rest" by (simp only: set_append Un_iff)
    show "?y \<in> set rows
           \<or> (limit_count = Some (int (length rows))
               \<and> (\<forall>x\<in>set rows. \<exists>kx. np_distance_km x = Some kx
                      \<and> (kx < D g ?h / 1000
                          \<or> (kx = D g ?h / 1000
                              \<and> desc_nulls_first (np_created_at x) (p_created_at p)))))"
    proof (cases "?y \<in> set rows")
      case True
      then show ?thesis by blast
    next
      case False
      with mem have yr: "?y \<in> set rest" by blast
      then have "rest \<noteq> []" by auto
      with full have f: "limit_count = Some (int (length rows))" by blast
      from srt have "\<forall>x\<in>set rows. \<forall>y\<in>set rest. ?rel x y"
        by (simp only: sorted_wrt_append) blast
      with yr have before: "\<forall>x\<in>set rows. ?rel x ?y" by blast
      have dy: "np_distance_km ?y = Some (D g ?h / 1000)" "np_created_at ?y = p_created_at p"
        by (simp_all only: np_fields)
      have "\<exists>kx. np_distance_km x = Some kx
                      \<and> (kx < D g ?h / 1000
                          \<or> (kx = D g ?h / 1000
                              \<and> desc_nulls_first (np_created_at x) (p_created_at p)))"
        if "x \<in> set rows" for x
      proof -
        from before that obtain ka kb where k: "np_distance_km x = Some ka"
          "np_distance_km ?y = Some kb"
          "ka < kb \<or> (ka = kb \<and> desc_nulls_first (np_created_at x) (np_created_at ?y))"
          by blast
        from k(2) dy(1) have kb: "kb = D g ?h / 1000" by simp
        from k(1,3) show ?thesis unfolding dy(2) kb by blast
      qed
      with f show ?thesis by blast
    qed
  qed
qed

lemma get_nearby_products_returns:
  assumes "\<forall>k. limit_count = Some k \<longrightarrow> 0 \<le> k"
  shows "user_lat = None \<or> user_lon = None
         \<Longrightarrow> \<exists>rows. get_nearby_products D r db user_lat user_lon radius_km limit_count = Inr rows"
    and "(\<forall>R. radius_km = Some R \<longrightarrow> - (2 ^ 31) \<le> R * 1000 \<and> R * 1000 < 2 ^ 31)
         \<Longrightarrow> \<exists>rows. get_nearby_products D r db (Some lat) (Some lon) radius_km limit_count = Inr rows"
proof -
  assume "user_lat = None \<or> user_lon = None"
  then show "\<exists>rows. get_nearby_products D r db user_lat user_lon radius_km limit_count = Inr rows"
    using limit_total [OF assms] by (simp only: get_nearby_products_recent)
next
  assume "\<forall>R. radius_km = Some R \<longrightarrow> - (2 ^ 31) \<le> R * 1000 \<and> R * 1000 < 2 ^ 31"
  then obtain metres where "int4mul radius_km (Some 1000) = Inr metres"
    by (cases radius_km) (auto simp: int4mul_def)
  then show "\<exists>rows. get_nearby_products D r db (Some lat) (Some lon) radius_km limit_count = Inr rows"
    using limit_total [OF assms] by (simp only: get_nearby_products_within)
qed

lemma joined_shop:
  "products_joined (authenticated 1) shop
     = [(atlas, alice, books), (novel, bob, books), (diary, alice, books)]"
  by (simp add: products_joined_def select_rows_def rls_using_def products_policies_def
      user_profiles_policies_def categories_policies_def applies_def is_true_def sql_eq_def
      auth_uid_def shop_def atlas_def novel_def diary_def alice_def bob_def books_def)

lemma sample_products:
  "p_status atlas = active" "p_status novel = active" "p_status diary = sold"
  "p_created_at atlas = Some 100" "p_created_at novel = Some 200"
  "p_location_point atlas = Some (73, 18)" "p_location_point novel = Some (77, 28)"
  "p_seller_id atlas = up_id alice" "p_category_id atlas = c_id books"
  "p_seller_id novel = up_id bob" "p_category_id novel = c_id books"
  "atlas \<in> set (products shop)" "novel \<in> set (products shop)"
  "alice \<in> set (user_profiles shop)" "bob \<in> set (user_profiles shop)"
  "books \<in> set (categories shop)"
  by (simp_all add: atlas_def novel_def diary_def alice_def bob_def books_def shop_def)

lemma recent_shop:
  "[nearby_row p up c None.
      (p, up, c) \<leftarrow> products_joined (authenticated 1) shop, p_status p = active]
     = [nearby_row atlas alice books None, nearby_row novel bob books None]"
  by (simp add: joined_shop sample_products)

lemma recent_shop_1:
  "get_nearby_products geodesic_metres (authenticated 1) shop None None (Some 50) (Some 1)
     = Inr [nearby_row novel bob books None]"
  by (simp add: get_nearby_products_recent recent_shop limit_def order_by_def
      desc_nulls_first_def sample_products)

lemma within_shop_50:
  "get_nearby_products geodesic_metres (authenticated 1) shop (Some 18) (Some 73) (Some 50)
       (Some 20)
     = Inr [nearby_row atlas alice books (Some 0)]"
proof -
  have m: "int4mul (Some 50) (Some 1000) = Inr (Some 50000)" by (simp add: int4mul_def)
  show ?thesis
    by (simp add: get_nearby_products_within [OF m] joined_shop sample_products limit_def
        order_by_def ST_MakePoint_def geodesic_metres_def)
qed

lemma within_shop_2000:
  "[nearby_row p up c
      (map_option (\<lambda>g. geodesic_metres g (ST_MakePoint 73 18) / 1000) (p_location_point p)).
      (p, up, c) \<leftarrow> products_joined (authenticated 1) shop,
      p_status p = active
      \<and> (case p_location_point p of
            None \<Rightarrow> False
          | Some g \<Rightarrow> (case Some (2000 :: int) of
                         None \<Rightarrow> False
                       | Some R \<Rightarrow> geodesic_metres g (ST_MakePoint 73 18)
                                     \<le> real_of_int R * 1000))]
     = [nearby_row atlas alice books (Some 0),
        nearby_row novel bob books (Some (1180666 / 1000))]"
  by (simp add: joined_shop sample_products ST_MakePoint_def geodesic_metres_def)

lemma within_shop_2000_all:
  "get_nearby_products geodesic_metres (authenticated 1) shop (Some 18) (Some 73) (Some 2000)
       (Some 20)
     = Inr [nearby_row atlas alice books (Some 0),
            nearby_row novel bob books (Some (1180666 / 1000))]"
proof -
  have m: "int4mul (Some 2000) (Some 1000) = Inr (Some 2000000)" by (simp add: int4mul_def)
  show ?thesis
    unfolding get_nearby_products_within [OF m] within_shop_2000
    by (simp add: limit_def order_by_def lex_le_def asc_nulls_last_def desc_nulls_first_def)
qed

lemma within_shop_2000_1:
  "get_nearby_products geodesic_metres (authenticated 1) shop (Some 18) (Some 73) (Some 2000)
       (Some 1)
     = Inr [nearby_row atlas alice books (Some 0)]"
proof -
  have m: "int4mul (Some 2000) (Some 1000) = Inr (Some 2000000)" by (simp add: int4mul_def)
  show ?thesis
    unfolding get_nearby_products_within [OF m] within_shop_2000
    by (simp add: limit_def order_by_def lex_le_def asc_nulls_last_def desc_nulls_first_def)
qed

lemma sample_rows_distinct:
  "nearby_row atlas alice books d \<noteq> nearby_row novel bob books d'"
  by (simp add: nearby_row_def atlas_def novel_def)

text \<open>
  C1. Whenever \<open>get_nearby_products\<close> returns rows: without both coordinates every row is
  an active product and carries no distance, the rows are in descending order of creation
  time and there are at most \<^verbatim>\<open>limit_count\<close> of them; with both coordinates every row is an
  active product with a location whose distance to the given point, reported in
  kilometres, is at most \<^verbatim>\<open>radius_km\<close>, the rows are ordered by ascending distance and, at
  equal distance, by descending creation time, and there are at most \<^verbatim>\<open>limit_count\<close> of
  them. In both cases the rows are the first rows of an ordering of all the rows that
  qualify (the active products of the join, within the radius when coordinates are given),
  and all of them unless \<^verbatim>\<open>limit_count\<close> rows are returned: for a caller other than \<open>anon\<close>,
  every active product (within the radius) with its seller and category is returned, or
  else the limit is reached and every returned row comes before it in the order. The
  function does return rows when \<^verbatim>\<open>limit_count\<close> is not negative and, with coordinates,
  when \<^verbatim>\<open>radius_km * 1000\<close> is an \<^verbatim>\<open>INTEGER\<close>.
\<close>

theorem get_nearby_products_spec:
  "((user_lat = None \<or> user_lon = None)
      \<and> get_nearby_products D r db user_lat user_lon radius_km limit_count = Inr rows \<longrightarrow>
      (\<forall>x\<in>set rows. np_status x = active \<and> np_distance_km x = None
          \<and> (\<exists>p\<in>set (products db). p_id p = np_id x \<and> p_status p = active))
    \<and> sorted_wrt (\<lambda>a b. desc_nulls_first (np_created_at a) (np_created_at b)) rows
    \<and> (\<forall>k. limit_count = Some k \<longrightarrow> int (length rows) \<le> k)
    \<and> (\<exists>rest. mset (rows @ rest)
                 = mset [nearby_row p up c None.
                           (p, up, c) \<leftarrow> products_joined r db, p_status p = active]
            \<and> sorted_wrt (\<lambda>a b. desc_nulls_first (np_created_at a) (np_created_at b))
                  (rows @ rest)
            \<and> (rest = [] \<or> limit_count = Some (int (length rows))))
    \<and> (\<forall>p\<in>set (products db). \<forall>up\<in>set (user_profiles db). \<forall>c\<in>set (categories db).
           r \<noteq> anon \<and> p_status p = active \<and> p_seller_id p = up_id up
             \<and> p_category_id p = c_id c \<longrightarrow>
           nearby_row p up c None \<in> set rows
           \<or> (limit_count = Some (int (length rows))
               \<and> (\<forall>x\<in>set rows. desc_nulls_first (np_created_at x) (p_created_at p)))))
 \<and> (get_nearby_products D r db (Some lat) (Some lon) radius_km limit_count = Inr rows' \<longrightarrow>
      (\<forall>x\<in>set rows'. np_status x = active
          \<and> (\<exists>p\<in>set (products db). \<exists>g km R.
                p_id p = np_id x \<and> p_status p = active \<and> p_location_point p = Some g
                \<and> np_distance_km x = Some km \<and> km = D g (ST_MakePoint lon lat) / 1000
                \<and> radius_km = Some R \<and> km \<le> real_of_int R))
    \<and> sorted_wrt (\<lambda>a b. \<exists>ka kb. np_distance_km a = Some ka \<and> np_distance_km b = Some kb
                    \<and> (ka < kb \<or> (ka = kb
                         \<and> desc_nulls_first (np_created_at a) (np_created_at b)))) rows'
    \<and> (\<forall>k. limit_count = Some k \<longrightarrow> int (length rows') \<le> k)
    \<and> (\<exists>rest. mset (rows' @ rest)
                 = mset [nearby_row p up c
                           (map_option (\<lambda>g. D g (ST_MakePoint lon lat) / 1000)
                              (p_location_point p)).
                           (p, up, c) \<leftarrow> products_joined r db,
                           p_status p = active
                           \<and> (case p_location_point p of
                                 None \<Rightarrow> False
                               | Some g \<Rightarrow>
                                   (case radius_km of
                                      None \<Rightarrow> False
                                    | Some R \<Rightarrow> D g (ST_MakePoint lon lat)
                                                  \<le> real_of_int R * 1000))]
            \<and> sorted_wrt (\<lambda>a b. \<exists>ka kb. np_distance_km a = Some ka \<and> np_distance_km b = Some kb
                       \<and> (ka < kb \<or> (ka = kb
                            \<and> desc_nulls_first (np_created_at a) (np_created_at b))))
                  (rows' @ rest)
            \<and> (rest = [] \<or> limit_count = Some (int (length rows'))))
    \<and> (\<forall>p\<in>set (products db). \<forall>up\<in>set (user_profiles db). \<forall>c\<in>set (categories db).
         \<forall>g R. r \<noteq> anon \<and> p_status p = active \<and> p_seller_id p = up_id up
             \<and> p_category_id p = c_id c \<and> p_location_point p = Some g
             \<and> radius_km = Some R \<and> D g (ST_MakePoint lon lat) \<le> real_of_int R * 1000 \<longrightarrow>
           nearby_row p up c (Some (D g (ST_MakePoint lon lat) / 1000)) \<in> set rows'
           \<or> (limit_count = Some (int (length rows'))
               \<and> (\<forall>x\<in>set rows'. \<exists>kx. np_distance_km x = Some kx
                      \<and> (kx < D g (ST_MakePoint lon lat) / 1000
                          \<or> (kx = D g (ST_MakePoint lon lat) / 1000
                              \<and> desc_nulls_first (np_created_at x) (p_created_at p)))))))
 \<and> ((\<forall>k. limit_count = Some k \<longrightarrow> 0 \<le> k) \<and> (user_lat = None \<or> user_lon = None) \<longrightarrow>
      (\<exists>xs. get_nearby_products D r db user_lat user_lon radius_km limit_count = Inr xs))
 \<and> ((\<forall>k. limit_count = Some k \<longrightarrow> 0 \<le> k)
      \<and> (\<forall>R. radius_km = Some R \<longrightarrow> - (2 ^ 31) \<le> R * 1000 \<and> R * 1000 < 2 ^ 31) \<longrightarrow>
      (\<exists>xs. get_nearby_products D r db (Some lat) (Some lon) radius_km limit_count = Inr xs))"
proof -
  have combine: "?thesis" if a: "A \<Longrightarrow> A1 \<and> A2 \<and> A3 \<and> A4 \<and> A5" and b: "B \<Longrightarrow> B1 \<and> B2 \<and> B3 \<and> B4 \<and> B5"
    and c: "C \<Longrightarrow> C1" and d: "E \<Longrightarrow> E1"
    and eq: "?thesis = ((A \<longrightarrow> A1 \<and> A2 \<and> A3 \<and> A4 \<and> A5) \<and> (B \<longrightarrow> B1 \<and> B2 \<and> B3 \<and> B4 \<and> B5)
          \<and> (C \<longrightarrow> C1) \<and> (E \<longrightarrow> E1))" for A A1 A2 A3 A4 A5 B B1 B2 B3 B4 B5 C C1 E E1
    unfolding eq using a b c d by blast
  show ?thesis
  proof (rule combine [OF _ _ _ _ refl])
    assume h: "(user_lat = None \<or> user_lon = None)
      \<and> get_nearby_products D r db user_lat user_lon radius_km limit_count = Inr rows"
    note v = recent_branch [OF h [THEN conjunct1] h [THEN conjunct2]]
    from v(1) v(2) v(3) v(4) v(5)
    show "(\<forall>x\<in>set rows. np_status x = active \<and> np_distance_km x = None
          \<and> (\<exists>p\<in>set (products db). p_id p = np_id x \<and> p_status p = active))
    \<and> sorted_wrt (\<lambda>a b. desc_nulls_first (np_created_at a) (np_created_at b)) rows
    \<and> (\<forall>k. limit_count = Some k \<longrightarrow> int (length rows) \<le> k)
    \<and> (\<exists>rest. mset (rows @ rest)
                 = mset [nearby_row p up c None.
                           (p, up, c) \<leftarrow> products_joined r db, p_status p = active]
            \<and> sorted_wrt (\<lambda>a b. desc_nulls_first (np_created_at a) (np_created_at b))
                  (rows @ rest)
            \<and> (rest = [] \<or> limit_count = Some (int (length rows))))
    \<and> (\<forall>p\<in>set (products db). \<forall>up\<in>set (user_profiles db). \<forall>c\<in>set (categories db).
           r \<noteq> anon \<and> p_status p = active \<and> p_seller_id p = up_id up
             \<and> p_category_id p = c_id c \<longrightarrow>
           nearby_row p up c None \<in> set rows
           \<or> (limit_count = Some (int (length rows))
               \<and> (\<forall>x\<in>set rows. desc_nulls_first (np_created_at x) (p_created_at p))))"
      by (intro conjI)
  next
    assume h: "get_nearby_products D r db (Some lat) (Some lon) radius_km limit_count = Inr rows'"
    note w = within_branch [OF h]
    from w(1) w(2) w(3) w(4) w(5)
    show "(\<forall>x\<in>set rows'. np_status x = active
          \<and> (\<exists>p\<in>set (products db). \<exists>g km R.
                p_id p = np_id x \<and> p_status p = active \<and> p_location_point p = Some g
                \<and> np_distance_km x = Some km \<and> km = D g (ST_MakePoint lon lat) / 1000
                \<and> radius_km = Some R \<and> km \<le> real_of_int R))
    \<and> sorted_wrt (\<lambda>a b. \<exists>ka kb. np_distance_km a = Some ka \<and> np_distance_km b = Some kb
                    \<and> (ka < kb \<or> (ka = kb
                         \<and> desc_nulls_first (np_created_at a) (np_created_at b)))) rows'
    \<and> (\<forall>k. limit_count = Some k \<longrightarrow> int (length rows') \<le> k)
    \<and> (\<exists>rest. mset (rows' @ rest)
                 = mset [nearby_row p up c
                           (map_option (\<lambda>g. D g (ST_MakePoint lon lat) / 1000)
                              (p_location_point p)).
                           (p, up, c) \<leftarrow> products_joined r db,
                           p_status p = active
                           \<and> (case p_location_point p of
                                 None \<Rightarrow> False
                               | Some g \<Rightarrow>
                                   (case radius_km of
                                      None \<Rightarrow> False
                                    | Some R \<Rightarrow> D g (ST_MakePoint lon lat)
                                                  \<le> real_of_int R * 1000))]
            \<and> sorted_wrt (\<lambda>a b. \<exists>ka kb. np_distance_km a = Some ka \<and> np_distance_km b = Some kb
                       \<and> (ka < kb \<or> (ka = kb
                            \<and> desc_nulls_first (np_created_at a) (np_created_at b))))
                  (rows' @ rest)
            \<and> (rest = [] \<or> limit_count = Some (int (length rows'))))
    \<and> (\<forall>p\<in>set (products db). \<forall>up\<in>set (user_profiles db). \<forall>c\<in>set (categories db).
         \<forall>g R. r \<noteq> anon \<and> p_status p = active \<and> p_seller_id p = up_id up
             \<and> p_category_id p = c_id c \<and> p_location_point p = Some g
             \<and> radius_km = Some R \<and> D g (ST_MakePoint lon lat) \<le> real_of_int R * 1000 \<longrightarrow>
           nearby_row p up c (Some (D g (ST_MakePoint lon lat) / 1000)) \<in> set rows'
           \<or> (limit_count = Some (int (length rows'))
               \<and> (\<forall>x\<in>set rows'. \<exists>kx. np_distance_km x = Some kx
                      \<and> (kx < D g (ST_MakePoint lon lat) / 1000
                          \<or> (kx = D g (ST_MakePoint lon lat) / 1000
                              \<and> desc_nulls_first (np_created_at x) (p_created_at p))))))"
      by (intro conjI)
  next
    assume h: "(\<forall>k. limit_count = Some k \<longrightarrow> 0 \<le> k) \<and> (user_lat = None \<or> user_lon = None)"
    show "\<exists>xs. get_nearby_products D r db user_lat user_lon radius_km limit_count = Inr xs"
      using get_nearby_products_returns(1) [OF h [THEN conjunct1] h [THEN conjunct2]] .
  next
    assume h: "(\<forall>k. limit_count = Some k \<longrightarrow> 0 \<le> k)
      \<and> (\<forall>R. radius_km = Some R \<longrightarrow> - (2 ^ 31) \<le> R * 1000 \<and> R * 1000 < 2 ^ 31)"
    show "\<exists>xs. get_nearby_products D r db (Some lat) (Some lon) radius_km limit_count = Inr xs"
      using get_nearby_products_returns(2) [OF h [THEN conjunct1] h [THEN conjunct2]] .
  qed
qed

theorem get_nearby_products_spec_witness:
  "get_nearby_products geodesic_metres (authenticated 1) shop None None (Some 50) (Some 1)
     = Inr [nearby_row novel bob books None]
   \<and> list_all (\<lambda>x. np_status x = active \<and> np_distance_km x = None)
        [nearby_row novel bob books None]
   \<and> int (length [nearby_row novel bob books None]) \<le> 1
   \<and> (\<exists>rest. mset ([nearby_row novel bob books None] @ rest)
                 = mset [nearby_row atlas alice books None, nearby_row novel bob books None]
          \<and> sorted_wrt (\<lambda>a b. desc_nulls_first (np_created_at a) (np_created_at b))
               ([nearby_row novel bob books None] @ rest))
   \<and> list_all (\<lambda>x. desc_nulls_first (np_created_at x) (p_created_at atlas))
        [nearby_row novel bob books None]
   \<and> get_nearby_products geodesic_metres (authenticated 1) shop (Some 18) (Some 73) (Some 50)
        (Some 20)
     = Inr [nearby_row atlas alice books (Some 0)]
   \<and> list_all (\<lambda>x. np_status x = active \<and> (\<exists>km. np_distance_km x = Some km \<and> km \<le> 50))
        [nearby_row atlas alice books (Some 0)]
   \<and> get_nearby_products geodesic_metres (authenticated 1) shop (Some 18) (Some 73) (Some 2000)
        (Some 20)
     = Inr [nearby_row atlas alice books (Some 0),
            nearby_row novel bob books (Some (1180666 / 1000))]
   \<and> sorted_wrt (\<lambda>a b. \<exists>ka kb. np_distance_km a = Some ka \<and> np_distance_km b = Some kb
                    \<and> (ka < kb \<or> (ka = kb
                         \<and> desc_nulls_first (np_created_at a) (np_created_at b))))
        [nearby_row atlas alice books (Some 0),
         nearby_row novel bob books (Some (1180666 / 1000))]
   \<and> get_nearby_products geodesic_metres (authenticated 1) shop (Some 18) (Some 73) (Some 2000)
        (Some 1)
     = Inr [nearby_row atlas alice books (Some 0)]
   \<and> list_all (\<lambda>x. \<exists>kx. np_distance_km x = Some kx
                    \<and> (kx < 1180666 / 1000
                        \<or> (kx = 1180666 / 1000
                            \<and> desc_nulls_first (np_created_at x) (p_created_at novel))))
        [nearby_row atlas alice books (Some 0)]"
proof -
  let ?novel = "nearby_row novel bob books None"
  let ?atlas0 = "nearby_row atlas alice books (Some 0)"
  let ?novel1 = "nearby_row novel bob books (Some (1180666 / 1000))"
  have role: "authenticated 1 \<noteq> anon" by simp
  note T1 = get_nearby_products_spec [where D = geodesic_metres and r = "authenticated 1"
      and db = shop and user_lat = None and user_lon = None and radius_km = "Some 50"
      and limit_count = "Some 1" and rows = "[?novel]", THEN conjunct1, THEN mp,
      OF conjI [OF disjI1 [OF refl] recent_shop_1]]
  have a1: "list_all (\<lambda>x. np_status x = active \<and> np_distance_km x = None) [?novel]"
    unfolding list_all_iff using T1 [THEN conjunct1] by blast
  have a2: "int (length [?novel]) \<le> 1"
    using T1 [THEN conjunct2, THEN conjunct2, THEN conjunct1] by blast
  from T1 [THEN conjunct2, THEN conjunct2, THEN conjunct2, THEN conjunct1]
  have a3: "\<exists>rest. mset ([?novel] @ rest)
                 = mset [nearby_row atlas alice books None, ?novel]
          \<and> sorted_wrt (\<lambda>a b. desc_nulls_first (np_created_at a) (np_created_at b))
               ([?novel] @ rest)"
    unfolding recent_shop by blast
  from T1 [THEN conjunct2, THEN conjunct2, THEN conjunct2, THEN conjunct2,
      THEN bspec, OF sample_products(12), THEN bspec, OF sample_products(14),
      THEN bspec, OF sample_products(16), THEN mp,
      OF conjI [OF role conjI [OF sample_products(1)
           conjI [OF sample_products(8) sample_products(9)]]]]
  have "nearby_row atlas alice books None \<in> set [?novel]
           \<or> (Some 1 = Some (int (length [?novel]))
               \<and> (\<forall>x\<in>set [?novel]. desc_nulls_first (np_created_at x) (p_created_at atlas)))" .
  moreover have "nearby_row atlas alice books None \<notin> set [?novel]"
    using sample_rows_distinct by simp
  ultimately have a4: "list_all (\<lambda>x. desc_nulls_first (np_created_at x) (p_created_at atlas))
        [?novel]"
    unfolding list_all_iff by blast
  note T2 = get_nearby_products_spec [where D = geodesic_metres and r = "authenticated 1"
      and db = shop and lat = 18 and lon = 73 and radius_km = "Some 50"
      and limit_count = "Some 20" and rows' = "[?atlas0]", THEN conjunct2, THEN conjunct1,
      THEN mp, OF within_shop_50]
  have b1: "np_status x = active \<and> (\<exists>km. np_distance_km x = Some km \<and> km \<le> 50)"
    if "x \<in> set [?atlas0]" for x
  proof -
    from T2 [THEN conjunct1] that
    obtain km R where "np_status x = active" "np_distance_km x = Some km"
      "Some (50::int) = Some R" "km \<le> real_of_int R"
      by blast
    then show ?thesis by simp
  qed
  have b1': "list_all (\<lambda>x. np_status x = active \<and> (\<exists>km. np_distance_km x = Some km \<and> km \<le> 50))
        [?atlas0]"
    unfolding list_all_iff using b1 by blast
  note T3 = get_nearby_products_spec [where D = geodesic_metres and r = "authenticated 1"
      and db = shop and lat = 18 and lon = 73 and radius_km = "Some 2000"
      and limit_count = "Some 20" and rows' = "[?atlas0, ?novel1]", THEN conjunct2,
      THEN conjunct1, THEN mp, OF within_shop_2000_all]
  have c1: "sorted_wrt (\<lambda>a b. \<exists>ka kb. np_distance_km a = Some ka \<and> np_distance_km b = Some kb
                    \<and> (ka < kb \<or> (ka = kb
                         \<and> desc_nulls_first (np_created_at a) (np_created_at b))))
        [?atlas0, ?novel1]"
    using T3 [THEN conjunct2] by (rule conjunct1)
  note T4 = get_nearby_products_spec [where D = geodesic_metres and r = "authenticated 1"
      and db = shop and lat = 18 and lon = 73 and radius_km = "Some 2000"
      and limit_count = "Some 1" and rows' = "[?atlas0]", THEN conjunct2,
      THEN conjunct1, THEN mp, OF within_shop_2000_1]
  have near: "geodesic_metres (77, 28) (ST_MakePoint 73 18) \<le> real_of_int 2000 * 1000"
    and dist: "geodesic_metres (77, 28) (ST_MakePoint 73 18) / 1000 = 1180666 / 1000"
    by (simp_all add: geodesic_metres_def ST_MakePoint_def)
  from T4 [THEN conjunct2, THEN conjunct2, THEN conjunct2, THEN conjunct2,
      THEN bspec, OF sample_products(13), THEN bspec, OF sample_products(15),
      THEN bspec, OF sample_products(16), THEN spec, THEN spec, THEN mp,
      OF conjI [OF role conjI [OF sample_products(2)
           conjI [OF sample_products(10) conjI [OF sample_products(11)
             conjI [OF sample_products(7) conjI [OF refl near]]]]]]]
  have "?novel1 \<in> set [?atlas0]
           \<or> (Some 1 = Some (int (length [?atlas0]))
               \<and> (\<forall>x\<in>set [?atlas0]. \<exists>kx. np_distance_km x = Some kx
                      \<and> (kx < 1180666 / 1000
                          \<or> (kx = 1180666 / 1000
                              \<and> desc_nulls_first (np_created_at x) (p_created_at novel)))))"
    unfolding dist .
  moreover have "?novel1 \<notin> set [?atlas0]"
    using sample_rows_distinct [of "Some 0" "Some (1180666 / 1000)"] by simp
  ultimately have d1: "list_all (\<lambda>x. \<exists>kx. np_distance_km x = Some kx
                    \<and> (kx < 1180666 / 1000
                        \<or> (kx = 1180666 / 1000
                            \<and> desc_nulls_first (np_created_at x) (p_created_at novel))))
        [?atlas0]"
    unfolding list_all_iff by blast
  from recent_shop_1 a1 a2 a3 a4 within_shop_50 b1' within_shop_2000_all c1 within_shop_2000_1 d1
  show ?thesis by (intro conjI)
qed

subsection \<open>Conversation lookup and creation\<close>

text \<open>
  C3. With the default setting of \<^verbatim>\<open>plpgsql.variable_conflict\<close>, every call of
  \<open>get_or_create_conversation\<close>, whatever the participants, their order, the product, the
  role and the table, raises ``column reference "user1_id" is ambiguous'' at its \<^verbatim>\<open>SELECT\<close>:
  it resolves to no thread at all, in either order of the two participants.
\<close>

theorem get_or_create_conversation_ambiguous:
  "get_or_create_conversation conflict_error r i now db user1_id user2_id product_id
     = Inl (ambiguous_column ''user1_id'')"
  by (simp add: get_or_create_conversation_def Let_def)

text \<open>
  Under \<^verbatim>\<open>use_column\<close>, the reading in which the statement compares the columns, the
  function depends on the participants only through their ordered pair: both orders give
  the same result on the same database, and a call that follows a successful one, in either
  order, finds the thread that the first call found or created.
\<close>

lemma goc_found:
  assumes "vc \<noteq> conflict_error"
    and "filter (thread_where vc user1_id user2_id product_id)
           (select_rows conversations_policies r db (conversations db)) = cv # rest"
  shows "get_or_create_conversation vc r i now db user1_id user2_id product_id
           = Inr (cv_id cv, db)"
  using assms
  by (simp add: get_or_create_conversation_def Let_def thread_where_def [abs_def])

lemma ordered_Some:
  assumes "(if is_true (sql_lt user1_id user2_id) then user1_id else user2_id) = Some u1"
    and "(if is_true (sql_lt user1_id user2_id) then user2_id else user1_id) = Some u2"
  shows "\<exists>a b. user1_id = Some a \<and> user2_id = Some b \<and> u1 = min a b \<and> u2 = max a b"
  using assms
  by (cases user1_id; cases user2_id)
     (auto simp: is_true_def sql_lt_def min_def max_def split: if_splits)

lemma goc_Inr:
  assumes "get_or_create_conversation vc r i now db user1_id user2_id product_id = Inr (cid, db')"
  shows "vc \<noteq> conflict_error \<and>
     ((\<exists>cv rest. filter (thread_where vc user1_id user2_id product_id)
           (select_rows conversations_policies r db (conversations db)) = cv # rest
         \<and> cid = cv_id cv \<and> db' = db)
    \<or> (\<exists>a b. user1_id = Some a \<and> user2_id = Some b
         \<and> filter (thread_where vc user1_id user2_id product_id)
               (select_rows conversations_policies r db (conversations db)) = []
         \<and> cid = i
         \<and> insert_conversation r db
              \<lparr>cv_id = i, cv_user1_id = min a b, cv_user2_id = max a b,
               cv_product_id = product_id, cv_last_message_at = Some now,
               cv_created_at = Some now\<rparr> = Inr db'))"
proof -
  let ?o1 = "if is_true (sql_lt user1_id user2_id) then user1_id else user2_id"
  let ?o2 = "if is_true (sql_lt user1_id user2_id) then user2_id else user1_id"
  let ?sel = "filter (thread_where vc user1_id user2_id product_id)
           (select_rows conversations_policies r db (conversations db))"
  from assms have vc: "vc \<noteq> conflict_error"
    by (auto simp: get_or_create_conversation_def Let_def)
  show ?thesis
  proof (cases ?sel)
    case (Cons cv rest)
    from goc_found [OF vc Cons] assms Cons vc show ?thesis by auto
  next
    case Nil
    have eq: "get_or_create_conversation vc r i now db user1_id user2_id product_id =
        (case ?o1 of
           None \<Rightarrow> Inl (not_null_violation ''user1_id'')
         | Some u1 \<Rightarrow>
             (case ?o2 of
                None \<Rightarrow> Inl (not_null_violation ''user2_id'')
              | Some u2 \<Rightarrow>
                  (case insert_conversation r db
                          \<lparr>cv_id = i, cv_user1_id = u1, cv_user2_id = u2,
                           cv_product_id = product_id, cv_last_message_at = Some now,
                           cv_created_at = Some now\<rparr> of
                     Inl e \<Rightarrow> Inl e
                   | Inr db' \<Rightarrow> Inr (i, db'))))"
      using vc Nil
      by (simp add: get_or_create_conversation_def Let_def thread_where_def [abs_def])
    from assms [unfolded eq] obtain u1 where o1: "?o1 = Some u1"
      by (cases ?o1) simp_all
    from assms [unfolded eq o1] obtain u2 where o2: "?o2 = Some u2"
      by (cases ?o2) simp_all
    note o = o1 o2
    from assms [unfolded eq o1 o2]
    have ins: "insert_conversation r db
              \<lparr>cv_id = i, cv_user1_id = u1, cv_user2_id = u2,
               cv_product_id = product_id, cv_last_message_at = Some now,
               cv_created_at = Some now\<rparr> = Inr db'" and cid: "cid = i"
      by (simp_all split: sum.splits)
    from ordered_Some [OF o] obtain a b where "user1_id = Some a" "user2_id = Some b"
      "u1 = min a b" "u2 = max a b" by blast
    with Nil ins cid vc show ?thesis by blast
  qed
qed

lemma insert_conversation_Inr:
  assumes "insert_conversation r db c = Inr db'"
  shows "db' = db\<lparr>conversations := conversations db @ [c]\<rparr>"
    and "rls_with_check conversations_policies FOR_INSERT r db c"
    and "conversations_keys db c = None"
  using assms
  by (auto simp: insert_conversation_def insert_row_def split: if_splits option.splits)

lemma participant_qual:
  "is_true (sql_or (sql_eq (auth_uid r) (Some x)) (sql_eq (auth_uid r) (Some y)))
     = (auth_uid r = Some x \<or> auth_uid r = Some y)"
  by (cases "auth_uid r") (auto simp: is_true_def sql_or_def sql_eq_def)

lemma conversations_check_select:
  "rls_with_check conversations_policies FOR_INSERT r db c \<Longrightarrow>
   cv_user1_id x = cv_user1_id c \<Longrightarrow> cv_user2_id x = cv_user2_id c \<Longrightarrow>
   rls_using conversations_policies FOR_SELECT r db x"
  by (cases r)
     (simp_all add: rls_with_check_def rls_using_def conversations_policies_def applies_def
        participant_qual)

lemma thread_where_same:
  assumes "cv_user1_id x = min a b" "cv_user2_id x = max a b" "cv_product_id x = p"
  shows "thread_where use_column (Some a) (Some b) p x"
  using assms
  by (cases p)
     (auto simp: thread_where_def resolve_def is_true_def sql_and_def sql_or_def sql_eq_def
        sql_lt_def is_null_def min_def max_def)

lemma get_or_create_conversation_symmetric:
  assumes "a \<noteq> b"
  shows "get_or_create_conversation use_column r i now db (Some a) (Some b) p
       = get_or_create_conversation use_column r i now db (Some b) (Some a) p"
proof (cases "a < b")
  case True
  then have "\<not> b < a" by simp
  with True show ?thesis
    by (simp add: get_or_create_conversation_def Let_def resolve_def is_true_def sql_lt_def)
next
  case False
  with assms have "b < a" by simp
  with False show ?thesis
    by (simp add: get_or_create_conversation_def Let_def resolve_def is_true_def sql_lt_def)
qed

lemma no_duplicate_use_column:
  assumes sel: "filter (thread_where use_column (Some a) (Some b) p)
               (select_rows conversations_policies r db (conversations db)) = []"
    and ins: "insert_conversation r db c = Inr db'"
    and c: "cv_user1_id c = min a b" "cv_user2_id c = max a b" "cv_product_id c = p"
  shows "\<not> list_ex (same_thread c) (conversations db)"
proof
  assume "list_ex (same_thread c) (conversations db)"
  then obtain x where x: "x \<in> set (conversations db)" "same_thread c x"
    by (auto simp: list_ex_iff)
  then have f: "cv_user1_id x = cv_user1_id c" "cv_user2_id x = cv_user2_id c"
    "cv_product_id x = p"
    using c by (simp_all add: same_thread_def)
  have vis: "rls_using conversations_policies FOR_SELECT r db x"
    using conversations_check_select [OF insert_conversation_Inr(2) [OF ins] f(1,2)] .
  have "thread_where use_column (Some a) (Some b) p x"
    using f c by (intro thread_where_same) simp_all
  with vis x(1) have "x \<in> set (filter (thread_where use_column (Some a) (Some b) p)
               (select_rows conversations_policies r db (conversations db)))"
    by (simp add: select_rows_def)
  with sel show False by simp
qed

lemma min_le_max: "min a b \<le> max a (b::uuid)"
  by (metis min.cobounded1 max.cobounded1 order_trans)

lemma conversations_rls_db:
  "rls_using conversations_policies cmd r db x = rls_using conversations_policies cmd r db2 x"
  by (simp add: rls_using_def conversations_policies_def split: role.splits)

lemma get_or_create_conversation_again:
  assumes "get_or_create_conversation use_column r i now db (Some a) (Some b) p = Inr (cid, db')"
  shows "get_or_create_conversation use_column r i2 now2 db' (Some a) (Some b) p = Inr (cid, db')"
proof -
  let ?W = "thread_where use_column (Some a) (Some b) p"
  from goc_Inr [OF assms] consider
      (found) cv rest where "filter ?W (select_rows conversations_policies r db (conversations db))
          = cv # rest" "cid = cv_id cv" "db' = db"
    | (created) "filter ?W (select_rows conversations_policies r db (conversations db)) = []"
        "cid = i"
        "insert_conversation r db
              \<lparr>cv_id = i, cv_user1_id = min a b, cv_user2_id = max a b,
               cv_product_id = p, cv_last_message_at = Some now,
               cv_created_at = Some now\<rparr> = Inr db'"
    by auto
  then show ?thesis
  proof cases
    case found
    with goc_found [of use_column "Some a" "Some b" p r db cv rest i2 now2] show ?thesis by simp
  next
    case created
    let ?c = "\<lparr>cv_id = i, cv_user1_id = min a b, cv_user2_id = max a b,
               cv_product_id = p, cv_last_message_at = Some now,
               cv_created_at = Some now\<rparr>"
    note ins = insert_conversation_Inr [OF created(3)]
    have vis: "rls_using conversations_policies FOR_SELECT r db' ?c"
      using conversations_check_select [OF ins(2), of ?c] conversations_rls_db [of FOR_SELECT r db' ?c db]
      by simp
    have w: "?W ?c" by (rule thread_where_same) simp_all
    have "select_rows conversations_policies r db' (conversations db')
        = select_rows conversations_policies r db (conversations db) @ [?c]"
      using vis conversations_rls_db [of FOR_SELECT r db' _ db]
      by (simp add: select_rows_def ins(1) cong: filter_cong)
    then have "filter ?W (select_rows conversations_policies r db' (conversations db')) = [?c]"
      using created(1) w by simp
    from goc_found [OF _ this, of i2 now2] created(2) show ?thesis by simp
  qed
qed

lemma get_or_create_conversation_swapped:
  assumes "a \<noteq> b"
    and "get_or_create_conversation use_column r i now db (Some a) (Some b) p = Inr (cid, db')"
  shows "get_or_create_conversation use_column r i2 now2 db' (Some b) (Some a) p = Inr (cid, db')"
  using get_or_create_conversation_again [OF assms(2)]
    get_or_create_conversation_symmetric [OF assms(1), of r i2 now2 db' p]
  by simp

lemma create_in_shop:
  "get_or_create_conversation use_column (authenticated 1) 70 900 shop (Some 2) (Some 1)
       (Some 20)
     = Inr (70, shop\<lparr>conversations :=
                [\<lparr>cv_id = 70, cv_user1_id = 1, cv_user2_id = 2, cv_product_id = Some 20,
                  cv_last_message_at = Some 900, cv_created_at = Some 900\<rparr>]\<rparr>)"
  by (simp add: get_or_create_conversation_def Let_def resolve_def is_true_def sql_lt_def
      select_rows_def shop_def insert_conversation_def insert_row_def rls_with_check_def
      conversations_policies_def applies_def sql_or_def sql_eq_def auth_uid_def
      conversations_keys_def alice_def bob_def atlas_def novel_def diary_def)

text \<open>
  Under a setting other than the default, a call that succeeds either returns the
  identifier of an existing row and changes nothing, or appends exactly one row: that row
  has the returned identifier, the smaller participant identifier in \<^verbatim>\<open>user1_id\<close> and the
  larger in \<^verbatim>\<open>user2_id\<close>, the product given, and (unless unqualified names are read as the
  parameters, \<^verbatim>\<open>use_variable\<close>) no row of the table had the same participants and product
  before.
\<close>

lemma get_or_create_conversation_rows:
  assumes "get_or_create_conversation vc r i now db user1_id user2_id product_id
             = Inr (cid, db')"
  shows "(db' = db \<and> list_ex (\<lambda>cv. cv_id cv = cid) (conversations db))
       \<or> (\<exists>a b c. user1_id = Some a \<and> user2_id = Some b
             \<and> db' = db\<lparr>conversations := conversations db @ [c]\<rparr>
             \<and> cv_id c = cid
             \<and> cv_user1_id c = min a b \<and> cv_user2_id c = max a b
             \<and> cv_user1_id c \<le> cv_user2_id c
             \<and> cv_product_id c = product_id
             \<and> (vc \<noteq> use_variable \<longrightarrow> \<not> list_ex (same_thread c) (conversations db)))"
proof -
  let ?sel = "filter (thread_where vc user1_id user2_id product_id)
           (select_rows conversations_policies r db (conversations db))"
  from goc_Inr [OF assms] have vc: "vc \<noteq> conflict_error" by blast
  from goc_Inr [OF assms] consider
      (found) cv rest where "?sel = cv # rest" "cid = cv_id cv" "db' = db"
    | (created) a b where "user1_id = Some a" "user2_id = Some b" "?sel = []" "cid = i"
        "insert_conversation r db
              \<lparr>cv_id = i, cv_user1_id = min a b, cv_user2_id = max a b,
               cv_product_id = product_id, cv_last_message_at = Some now,
               cv_created_at = Some now\<rparr> = Inr db'"
    by blast
  then show ?thesis
  proof cases
    case found
    then have "cv \<in> set ?sel" by simp
    then have "cv \<in> set (conversations db)" by (simp add: select_rows_def)
    with found show ?thesis by (auto simp: list_ex_iff)
  next
    case created
    let ?c = "\<lparr>cv_id = i, cv_user1_id = min a b, cv_user2_id = max a b,
               cv_product_id = product_id, cv_last_message_at = Some now,
               cv_created_at = Some now\<rparr>"
    have db': "db' = db\<lparr>conversations := conversations db @ [?c]\<rparr>"
      using insert_conversation_Inr(1) [OF created(5)] .
    have nodup: "\<not> list_ex (same_thread ?c) (conversations db)" if "vc \<noteq> use_variable"
    proof -
      from that vc have "vc = use_column" by (cases vc) simp_all
      with created(1,2,3) have "filter (thread_where use_column (Some a) (Some b) product_id)
               (select_rows conversations_policies r db (conversations db)) = []" by simp
      from no_duplicate_use_column [OF this created(5)] show ?thesis by simp
    qed
    have "user1_id = Some a \<and> user2_id = Some b
             \<and> db' = db\<lparr>conversations := conversations db @ [?c]\<rparr>
             \<and> cv_id ?c = cid
             \<and> cv_user1_id ?c = min a b \<and> cv_user2_id ?c = max a b
             \<and> cv_user1_id ?c \<le> cv_user2_id ?c
             \<and> cv_product_id ?c = product_id
             \<and> (vc \<noteq> use_variable \<longrightarrow> \<not> list_ex (same_thread ?c) (conversations db))"
      using created(1,2,4) db' nodup min_le_max by simp
    then show ?thesis by blast
  qed
qed

lemma get_or_create_conversation_rows_in_shop:
  "get_or_create_conversation use_column (authenticated 1) 70 900 shop (Some 2) (Some 1)
       (Some 20)
     = Inr (70, shop\<lparr>conversations :=
                [\<lparr>cv_id = 70, cv_user1_id = 1, cv_user2_id = 2, cv_product_id = Some 20,
                  cv_last_message_at = Some 900, cv_created_at = Some 900\<rparr>]\<rparr>)
   \<and> use_column \<noteq> use_variable
   \<and> (\<exists>c. conversations shop @ [c] =
                [\<lparr>cv_id = 70, cv_user1_id = 1, cv_user2_id = 2, cv_product_id = Some 20,
                  cv_last_message_at = Some 900, cv_created_at = Some 900\<rparr>]
          \<and> cv_id c = 70 \<and> cv_user1_id c = 1 \<and> cv_user2_id c = 2
          \<and> cv_user1_id c \<le> cv_user2_id c
          \<and> \<not> list_ex (same_thread c) (conversations shop))"
proof -
  let ?row = "\<lparr>cv_id = 70, cv_user1_id = 1, cv_user2_id = 2, cv_product_id = Some 20,
                  cv_last_message_at = Some 900, cv_created_at = Some 900\<rparr>"
  have ev: "get_or_create_conversation use_column (authenticated 1) 70 900 shop (Some 2) (Some 1)
       (Some 20) = Inr (70, shop\<lparr>conversations := [?row]\<rparr>)"
    by (rule create_in_shop)
  have empty: "conversations shop = []" by (simp add: shop_def)
  from get_or_create_conversation_rows [OF ev]
  have "(shop\<lparr>conversations := [?row]\<rparr> = shop
           \<and> list_ex (\<lambda>cv. cv_id cv = 70) (conversations shop))
       \<or> (\<exists>a b c. Some (2::uuid) = Some a \<and> Some (1::uuid) = Some b
             \<and> shop\<lparr>conversations := [?row]\<rparr> = shop\<lparr>conversations := conversations shop @ [c]\<rparr>
             \<and> cv_id c = 70
             \<and> cv_user1_id c = min a b \<and> cv_user2_id c = max a b
             \<and> cv_user1_id c \<le> cv_user2_id c
             \<and> cv_product_id c = Some 20
             \<and> (use_column \<noteq> use_variable \<longrightarrow> \<not> list_ex (same_thread c) (conversations shop)))" .
  then obtain a b c where ab: "Some (2::uuid) = Some a" "Some (1::uuid) = Some b"
    and eq: "shop\<lparr>conversations := [?row]\<rparr> = shop\<lparr>conversations := conversations shop @ [c]\<rparr>"
    and c: "cv_id c = 70" "cv_user1_id c = min a b" "cv_user2_id c = max a b"
      "cv_user1_id c \<le> cv_user2_id c"
      "\<not> list_ex (same_thread c) (conversations shop)"
    using empty by auto
  from eq have "conversations (shop\<lparr>conversations := [?row]\<rparr>)
      = conversations (shop\<lparr>conversations := conversations shop @ [c]\<rparr>)" by (rule arg_cong)
  then have l: "conversations shop @ [c] = [?row]" by simp
  from ab c(2,3) have m: "cv_user1_id c = 1" "cv_user2_id c = 2"
    by (simp_all add: min_def max_def word_le_nat_alt)
  have "\<exists>c. conversations shop @ [c] = [?row]
          \<and> cv_id c = 70 \<and> cv_user1_id c = 1 \<and> cv_user2_id c = 2
          \<and> cv_user1_id c \<le> cv_user2_id c
          \<and> \<not> list_ex (same_thread c) (conversations shop)"
    using l c(1,4,5) m by blast
  with ev show ?thesis by simp
qed

text \<open>
  Under \<^verbatim>\<open>use_variable\<close> a call with the larger identifier first finds nothing and inserts;
  with no product the unique constraint does not stop a second row for the same pair.
\<close>

lemma use_variable_duplicate:
  "get_or_create_conversation use_variable service_role 71 900
       (shop\<lparr>conversations := [thread_general]\<rparr>) (Some 2) (Some 1) None
     = Inr (71, shop\<lparr>conversations :=
                [thread_general,
                 \<lparr>cv_id = 71, cv_user1_id = 1, cv_user2_id = 2, cv_product_id = None,
                  cv_last_message_at = Some 900, cv_created_at = Some 900\<rparr>]\<rparr>)"
  by (simp add: get_or_create_conversation_def Let_def resolve_def is_true_def sql_lt_def
      select_rows_def shop_def insert_conversation_def insert_row_def
      sql_or_def sql_and_def sql_eq_def is_null_def thread_general_def
      conversations_keys_def alice_def bob_def)


subsection \<open>Order totals\<close>

lemma decimal_100: "decimal_10_2 100 = Inr 100"
  by (simp add: decimal_10_2_def Let_def)

lemma decimal_5: "decimal_10_2 5 = Inr 5"
  by (simp add: decimal_10_2_def Let_def)

lemma stored_novel_order:
  "stored_order novel_order = Inr novel_order"
  by (simp add: stored_order_def novel_order_def decimal_100)

lemma insert_novel_order:
  "insert_order True (authenticated 1) shop novel_order
     = Inr (shop\<lparr>orders := [atlas_order, novel_order]\<rparr>)"
  by (simp add: insert_order_def stored_novel_order insert_row_def)
     (simp add: rls_with_check_def rls_using_def orders_policies_def applies_def is_true_def
        sql_eq_def auth_uid_def first_error_def orders_check_def orders_keys_def shop_def
        novel_order_def atlas_order_def alice_def bob_def)

lemma insert_novel_items:
  "insert_order_items (authenticated 1) (shop\<lparr>orders := [atlas_order, novel_order]\<rparr>)
       [novel_item]
     = Inr (shop\<lparr>orders := [atlas_order, novel_order], order_items := [atlas_item, novel_item]\<rparr>)"
proof -
  have c: "coerce_order_items [novel_item] = Inr [novel_item]"
    by (simp add: coerce_order_item_def assign_decimal_def assign_integer_def int4_def
        novel_item_def decimal_5)
  have a: "append_order_items (authenticated 1) (shop\<lparr>orders := [atlas_order, novel_order]\<rparr>)
             [atlas_item] [novel_item] = Inr [atlas_item, novel_item]"
    by (simp add: rls_with_check_def rls_using_def orders_policies_def order_items_policies_def
        applies_def is_true_def sql_eq_def auth_uid_def first_error_def order_items_check_def
        order_items_pkey_def shop_def novel_order_def atlas_order_def atlas_item_def
        novel_item_def)
  have f: "check_order_items_fkeys (shop\<lparr>orders := [atlas_order, novel_order]\<rparr>) [novel_item]
             = None"
    by (simp add: first_error_def order_items_fkeys_def shop_def novel_order_def
        atlas_order_def novel_item_def atlas_def novel_def diary_def)
  have t: "order_items (shop\<lparr>orders := [atlas_order, novel_order]\<rparr>) = [atlas_item]"
    by (simp add: shop_def)
  show ?thesis
    by (simp only: insert_order_items_def c t a f sum.case option.case)
qed

lemma createOrder_novel:
  "createOrder (authenticated 1) sample_ids 900 shop novel_request [novel_line]
     = (shop\<lparr>orders := [atlas_order, novel_order], order_items := [atlas_item, novel_item]\<rparr>,
        Inr novel_order)"
proof -
  have row: "\<lparr>o_id = sample_ids 0, o_buyer_id = 1,
                      o_seller_id = in_seller_id novel_request,
                      o_total_amount = in_total_amount novel_request,
                      o_status = pending,
                      o_delivery_address = in_delivery_address novel_request,
                      o_payment_method = in_payment_method novel_request,
                      o_notes = in_notes novel_request,
                      o_created_at = Some 900, o_updated_at = Some 900\<rparr> = novel_order"
    by (simp add: novel_order_def novel_request_def sample_ids_def)
  have items: "\<lparr>oi_id = sample_ids (Suc 0), oi_order_id = o_id novel_order,
                  oi_product_id = it_product_id novel_line,
                  oi_quantity = it_quantity novel_line,
                  oi_unit_price = it_unit_price novel_line,
                  oi_total_price = it_total_price novel_line,
                  oi_created_at = Some 900\<rparr> = novel_item"
    by (simp add: novel_item_def novel_line_def novel_order_def sample_ids_def)
  show ?thesis
    unfolding createOrder_def
    by (simp add: auth_uid_def Let_def row insert_novel_order stored_novel_order items
        insert_novel_items)
qed

text \<open>
  The database client's \<^verbatim>\<open>createOrder\<close> on a request whose total amount is 100 and whose
  single line has the total price 5: both inserts succeed, the stored order has the total
  amount 100 and its line items sum to 5.
\<close>

theorem createOrder_total_mismatch:
  "snd (createOrder (authenticated 1) sample_ids 900 shop novel_request [novel_line])
     = Inr novel_order
   \<and> o_total_amount novel_order = 100
   \<and> order_items_total
        (fst (createOrder (authenticated 1) sample_ids 900 shop novel_request [novel_line]))
        (o_id novel_order) = 5
   \<and> o_total_amount novel_order
       \<noteq> order_items_total
           (fst (createOrder (authenticated 1) sample_ids 900 shop novel_request
                   [novel_line]))
           (o_id novel_order)"
  by (simp add: createOrder_novel order_items_total_def)
     (simp add: novel_order_def novel_item_def atlas_item_def)

lemma insert_order_Inr:
  assumes "insert_order ret r db od = Inr db1"
  shows "\<exists>NEW. stored_order od = Inr NEW \<and> db1 = db\<lparr>orders := orders db @ [NEW]\<rparr>"
  using assms
  by (auto simp: insert_order_def insert_row_def split: sum.splits if_splits option.splits)

lemma stored_order_Inr:
  assumes "stored_order od = Inr NEW"
  shows "decimal_10_2 (o_total_amount od) = Inr (o_total_amount NEW)" "o_id NEW = o_id od"
  using assms by (auto simp: stored_order_def split: sum.splits)

lemma coerce_order_items_Inr:
  assumes "coerce_order_items ois = Inr NEWs"
  shows "list_all2 (\<lambda>oi n. coerce_order_item None oi = Inr n) ois NEWs"
  using assms
proof (induction ois arbitrary: NEWs)
  case Nil
  then show ?case by simp
next
  case (Cons oi ois)
  from Cons.prems obtain n ns where n: "coerce_order_item None oi = Inr n"
    and ns: "coerce_order_items ois = Inr ns" and eq: "NEWs = n # ns"
    by (auto split: sum.splits)
  from Cons.IH [OF ns] n eq show ?case by simp
qed

lemma append_order_items_Inr:
  assumes "append_order_items r db tbl NEWs = Inr tbl'"
  shows "tbl' = tbl @ NEWs"
  using assms
proof (induction NEWs arbitrary: tbl)
  case Nil
  then show ?case by simp
next
  case (Cons n ns)
  from Cons.prems have "append_order_items r db (tbl @ [n]) ns = Inr tbl'"
    by (auto split: if_splits option.splits)
  from Cons.IH [OF this] show ?case by simp
qed

lemma insert_order_items_Inr:
  assumes "insert_order_items r db ois = Inr db2"
  shows "\<exists>rows. db2 = db\<lparr>order_items := order_items db @ rows\<rparr>
           \<and> list_all2 (\<lambda>oi n. coerce_order_item None oi = Inr n) ois rows"
proof -
  from assms obtain NEWs where c: "coerce_order_items ois = Inr NEWs"
    by (cases "coerce_order_items ois") (simp_all add: insert_order_items_def)
  from assms c obtain tbl where a: "append_order_items r db (order_items db) NEWs = Inr tbl"
    by (cases "append_order_items r db (order_items db) NEWs")
       (simp_all add: insert_order_items_def)
  from assms c a have "db2 = db\<lparr>order_items := tbl\<rparr>"
    by (cases "check_order_items_fkeys db NEWs") (simp_all add: insert_order_items_def)
  with append_order_items_Inr [OF a] coerce_order_items_Inr [OF c] show ?thesis by blast
qed

lemma coerce_order_item_None:
  assumes "coerce_order_item None oi = Inr n"
  shows "decimal_10_2 (oi_total_price oi) = Inr (oi_total_price n)"
    and "decimal_10_2 (oi_unit_price oi) = Inr (oi_unit_price n)"
    and "oi_order_id n = oi_order_id oi" and "oi_quantity n = oi_quantity oi"
    and "oi_product_id n = oi_product_id oi" and "oi_id n = oi_id oi"
  using assms
  by (auto simp: coerce_order_item_def assign_decimal_def assign_integer_def int4_def
      split: sum.splits if_splits)

lemma createOrder_Inr:
  assumes "createOrder r gen now db orderInput lines = (db', Inr od)"
  shows "decimal_10_2 (in_total_amount orderInput) = Inr (o_total_amount od)
       \<and> orders db' = orders db @ [od]
       \<and> (\<exists>rows. order_items db' = order_items db @ rows
             \<and> list_all2 (\<lambda>line oi. oi_order_id oi = o_id od
                   \<and> oi_product_id oi = it_product_id line
                   \<and> oi_quantity oi = it_quantity line
                   \<and> decimal_10_2 (it_unit_price line) = Inr (oi_unit_price oi)
                   \<and> decimal_10_2 (it_total_price line) = Inr (oi_total_price oi)) lines rows)"
proof -
  from assms obtain user_id where u: "auth_uid r = Some user_id"
    by (cases "auth_uid r") (simp_all add: createOrder_def)
  let ?row = "\<lparr>o_id = gen 0, o_buyer_id = user_id,
                      o_seller_id = in_seller_id orderInput,
                      o_total_amount = in_total_amount orderInput,
                      o_status = pending,
                      o_delivery_address = in_delivery_address orderInput,
                      o_payment_method = in_payment_method orderInput,
                      o_notes = in_notes orderInput,
                      o_created_at = Some now, o_updated_at = Some now\<rparr>"
  let ?items = "\<lambda>orderData. map (\<lambda>(i, item).
                                     \<lparr>oi_id = gen (Suc i), oi_order_id = o_id orderData,
                                      oi_product_id = it_product_id item,
                                      oi_quantity = it_quantity item,
                                      oi_unit_price = it_unit_price item,
                                      oi_total_price = it_total_price item,
                                      oi_created_at = Some now\<rparr>)
                                (enumerate 0 lines)"
  from assms u obtain db1 where 1: "insert_order True r db ?row = Inr db1"
    by (cases "insert_order True r db ?row") (simp_all add: createOrder_def Let_def)
  from assms u 1 obtain orderData where 2: "stored_order ?row = Inr orderData"
    by (cases "stored_order ?row") (simp_all add: createOrder_def Let_def)
  from assms u 1 2 have 3: "insert_order_items r db1 (?items orderData) = Inr db'"
    and od: "od = orderData"
    by (simp_all add: createOrder_def Let_def split: sum.splits)
  from insert_order_Inr [OF 1] 2 have db1: "db1 = db\<lparr>orders := orders db @ [orderData]\<rparr>"
    by simp
  from insert_order_items_Inr [OF 3] obtain rows
    where rows: "db' = db1\<lparr>order_items := order_items db1 @ rows\<rparr>"
      "list_all2 (\<lambda>oi n. coerce_order_item None oi = Inr n) (?items orderData) rows"
    by blast
  have len: "length rows = length lines"
    using list_all2_lengthD [OF rows(2)] by simp
  have each: "oi_order_id (rows ! k) = o_id od
      \<and> oi_product_id (rows ! k) = it_product_id (lines ! k)
      \<and> oi_quantity (rows ! k) = it_quantity (lines ! k)
      \<and> decimal_10_2 (it_unit_price (lines ! k)) = Inr (oi_unit_price (rows ! k))
      \<and> decimal_10_2 (it_total_price (lines ! k)) = Inr (oi_total_price (rows ! k))"
    if "k < length lines" for k
  proof -
    from rows(2) that have "coerce_order_item None (?items orderData ! k) = Inr (rows ! k)"
      by (simp add: list_all2_conv_all_nth)
    moreover have "?items orderData ! k =
        \<lparr>oi_id = gen (Suc k), oi_order_id = o_id orderData,
         oi_product_id = it_product_id (lines ! k),
         oi_quantity = it_quantity (lines ! k),
         oi_unit_price = it_unit_price (lines ! k),
         oi_total_price = it_total_price (lines ! k),
         oi_created_at = Some now\<rparr>"
      using that by (simp add: nth_enumerate_eq)
    ultimately show ?thesis
      using coerce_order_item_None [of "?items orderData ! k" "rows ! k"] od by simp
  qed
  have "list_all2 (\<lambda>line oi. oi_order_id oi = o_id od
                   \<and> oi_product_id oi = it_product_id line
                   \<and> oi_quantity oi = it_quantity line
                   \<and> decimal_10_2 (it_unit_price line) = Inr (oi_unit_price oi)
                   \<and> decimal_10_2 (it_total_price line) = Inr (oi_total_price oi)) lines rows"
    using len each by (simp add: list_all2_conv_all_nth)
  moreover have "order_items db' = order_items db @ rows" "orders db' = orders db @ [od]"
    using rows(1) db1 od by simp_all
  moreover have "decimal_10_2 (in_total_amount orderInput) = Inr (o_total_amount od)"
    using stored_order_Inr(1) [OF 2] od by simp
  ultimately show ?thesis by blast
qed

lemma round_ties_to_even_of_int [simp]: "round_ties_to_even (of_int z) = z"
  by (simp add: round_ties_to_even_def)

lemma to_double_of_int:
  assumes "\<bar>n\<bar> \<le> 2 ^ 53"
  shows "to_double (of_int n) = Num (of_int n)"
proof (cases "n = 0")
  case True
  then show ?thesis by (simp add: to_double_def)
next
  case False
  define m where "m = \<bar>n\<bar>"
  define e where "e = bitlen m - 1"
  have m: "0 < m" "m \<le> 2 ^ 53" using False assms by (simp_all add: m_def)
  have ex: "binary_exponent (of_int n) = e"
  proof -
    have "\<bar>real_of_int n\<bar> = of_int m" by (simp add: m_def)
    moreover have "(1::real) \<le> of_int m" using m(1) by simp
    ultimately show ?thesis by (simp add: binary_exponent_def e_def)
  qed
  from bitlen_bounds [OF m(1)] have lo: "2 ^ nat e \<le> m" by (simp add: e_def)
  have e0: "0 \<le> e" using m(1) bitlen_eq_zero_iff [of m] bitlen_nonneg [of m]
    by (simp add: e_def)
  have le53: "(2::int) ^ nat e \<le> 2 ^ 53" using lo m(2) by linarith
  have e53: "nat e \<le> 53"
  proof (rule power_le_imp_le_exp)
    show "(1::int) < 2" by simp
    show "(2::int) ^ nat e \<le> 2 ^ 53" by (rule le53)
  qed
  have mx: "max e (- 1022) - 52 = e - 52" using e0 by simp
  have val: "of_int (round_ties_to_even (of_int n / pow2 (e - 52))) * pow2 (e - 52)
      = real_of_int n"
  proof (cases "e \<le> 52")
    case True
    define k where "k = nat (52 - e)"
    have p: "pow2 (e - 52) = 1 / 2 ^ k"
      using True by (auto simp: pow2_def k_def)
    have "real_of_int n / pow2 (e - 52) = of_int (n * 2 ^ k)" by (simp add: p)
    then have "round_ties_to_even (of_int n / pow2 (e - 52)) = n * 2 ^ k"
      by (simp only: round_ties_to_even_of_int)
    then show ?thesis by (simp add: p)
  next
    case False
    with e53 e0 have e: "e = 53" by linarith
    with lo m(2) have "m = 2 ^ 53" by simp
    then have "even m" by simp
    then have "even n" by (simp add: m_def)
    then obtain h where h: "n = 2 * h" by (auto elim: evenE)
    have p: "pow2 (e - 52) = 2" by (simp add: pow2_def e)
    have "real_of_int n / pow2 (e - 52) = of_int h" by (simp add: p h)
    then have "round_ties_to_even (of_int n / pow2 (e - 52)) = h"
      by (simp only: round_ties_to_even_of_int)
    then show ?thesis by (simp add: p h)
  qed
  have small: "\<not> (2::real) ^ 1024 \<le> \<bar>of_int n\<bar>"
  proof -
    have "\<bar>real_of_int n\<bar> \<le> 2 ^ 53" using assms by (metis of_int_abs of_int_le_iff of_int_numeral of_int_power)
    moreover have "(2::real) ^ 53 < 2 ^ 1024" by simp
    ultimately show ?thesis by linarith
  qed
  have nz: "real_of_int n \<noteq> 0" using False by simp
  show ?thesis
    unfolding to_double_def Let_def ex mx val using nz small by simp
qed

lemma js_exact:
  assumes "\<bar>a\<bar> + \<bar>p * q\<bar> \<le> 2 ^ 53"
  shows "js_add (Num (of_int a)) (js_mul (Num (of_int p)) (Num (of_int q)))
           = Num (of_int (a + p * q))"
proof -
  have "\<bar>p * q\<bar> \<le> 2 ^ 53" using assms by linarith
  from to_double_of_int [OF this]
  have m: "js_mul (Num (of_int p)) (Num (of_int q)) = Num (of_int (p * q))"
    by (simp add: js_mul_def)
  have "\<bar>a + p * q\<bar> \<le> 2 ^ 53" using assms by linarith
  from to_double_of_int [OF this]
  show ?thesis by (simp add: m js_add_def)
qed

lemma foldl_total:
  assumes "map (\<lambda>item. (ci_price item, ci_quantity item)) items
             = map (\<lambda>(p, q). (Num (of_int p), Num (of_int q))) amounts"
    and "\<bar>a\<bar> + (\<Sum>(p, q)\<leftarrow>amounts. \<bar>p * q\<bar>) \<le> 2 ^ 53"
  shows "foldl (\<lambda>total item. js_add total (js_mul (ci_price item) (ci_quantity item)))
           (Num (of_int a)) items
         = Num (of_int (a + (\<Sum>(p, q)\<leftarrow>amounts. p * q)))"
  using assms
proof (induction items arbitrary: a amounts)
  case Nil
  then show ?case by simp
next
  case (Cons item items)
  from Cons.prems(1) obtain p q rest where am: "amounts = (p, q) # rest"
    and pq: "ci_price item = Num (of_int p)" "ci_quantity item = Num (of_int q)"
    and tl: "map (\<lambda>item. (ci_price item, ci_quantity item)) items
             = map (\<lambda>(p, q). (Num (of_int p), Num (of_int q))) rest"
    by (cases amounts) auto
  have nn: "0 \<le> (\<Sum>(p, q)\<leftarrow>rest. \<bar>p * q\<bar>)"
    by (rule sum_list_nonneg) auto
  from Cons.prems(2) have bound: "\<bar>a\<bar> + \<bar>p * q\<bar> + (\<Sum>(p, q)\<leftarrow>rest. \<bar>p * q\<bar>) \<le> 2 ^ 53"
    by (simp add: am)
  have step: "js_add (Num (of_int a)) (js_mul (ci_price item) (ci_quantity item))
           = Num (of_int (a + p * q))"
    unfolding pq using bound nn by (intro js_exact) linarith
  have "\<bar>a + p * q\<bar> + (\<Sum>(p, q)\<leftarrow>rest. \<bar>p * q\<bar>) \<le> 2 ^ 53"
    using bound by linarith
  from Cons.IH [OF tl this] show ?case
    by (simp add: step am add.assoc)
qed

lemma OrderProvider_createOrder_total:
  "\<exists>newOrder. OrderProvider_createOrder now_id now_iso prev items deliveryAddress paymentMethod
        = (now_id, newOrder # prev)
     \<and> co_items newOrder = items
     \<and> co_totalAmount newOrder
         = foldl (\<lambda>total item. js_add total (js_mul (ci_price item) (ci_quantity item)))
             (Num 0) items
     \<and> (map (\<lambda>item. (ci_price item, ci_quantity item)) items
           = map (\<lambda>(p, q). (Num (of_int p), Num (of_int q))) amounts
         \<and> (\<Sum>(p, q)\<leftarrow>amounts. \<bar>p * q\<bar>) \<le> 2 ^ 53 \<longrightarrow>
         co_totalAmount newOrder = Num (of_int (\<Sum>(p, q)\<leftarrow>amounts. p * q)))"
proof -
  have "foldl (\<lambda>total item. js_add total (js_mul (ci_price item) (ci_quantity item)))
             (Num 0) items = Num (of_int (\<Sum>(p, q)\<leftarrow>amounts. p * q))"
    if "map (\<lambda>item. (ci_price item, ci_quantity item)) items
           = map (\<lambda>(p, q). (Num (of_int p), Num (of_int q))) amounts"
      and "(\<Sum>(p, q)\<leftarrow>amounts. \<bar>p * q\<bar>) \<le> 2 ^ 53"
    using foldl_total [OF that(1), of 0] that(2) by simp
  then show ?thesis
    by (simp add: OrderProvider_createOrder_def Let_def)
qed

text \<open>
  Three items at the price \<^verbatim>\<open>0.1\<close>: the total is the double \<^verbatim>\<open>0.30000000000000004\<close>, which
  is neither three tenths nor the double that the literal \<^verbatim>\<open>0.3\<close> denotes.
\<close>

lemma to_double_tenth: "to_double (1 / 10) = Num (3602879701896397 / 2 ^ 55)"
  by (simp add: to_double_def binary_exponent_def Let_def pow2_def round_ties_to_even_def
      bitlen_def compute_floorlog)

lemma to_double_three_tenths: "to_double (3 / 10) = Num (5404319552844595 / 2 ^ 54)"
  by (simp add: to_double_def binary_exponent_def Let_def pow2_def round_ties_to_even_def
      bitlen_def compute_floorlog)

lemma OrderProvider_createOrder_rounds:
  "\<exists>newOrder. OrderProvider_createOrder ''1'' ''2024'' [] [sweets] ''{}'' ''card''
        = (''1'', [newOrder])
     \<and> co_totalAmount newOrder = Num (5404319552844596 / 2 ^ 54)
     \<and> co_totalAmount newOrder \<noteq> Num (3 / 10)
     \<and> co_totalAmount newOrder \<noteq> to_double (3 / 10)"
proof -
  have total: "foldl (\<lambda>total item. js_add total (js_mul (ci_price item) (ci_quantity item)))
             (Num 0) [sweets] = Num (5404319552844596 / 2 ^ 54)"
    by (simp add: sweets_def to_double_tenth js_mul_def js_add_def to_double_def
        binary_exponent_def Let_def pow2_def round_ties_to_even_def bitlen_def
        compute_floorlog)
  have differ: "Num (5404319552844596 / 2 ^ 54) \<noteq> Num (3 / 10)"
    "Num (5404319552844596 / 2 ^ 54) \<noteq> Num (5404319552844595 / 2 ^ 54)"
    by simp_all
  show ?thesis
    unfolding to_double_three_tenths OrderProvider_createOrder_def Let_def total
    using differ by simp
qed

text \<open>
  C4. The order that \<open>OrderProvider_createOrder\<close> creates has, as its total amount, the
  sum that JavaScript computes: from 0 and in the order of the items, the running total
  plus price times quantity, every product and every sum rounded to the nearest double.
  When the prices and quantities are integers and the magnitudes of the products add up to
  at most \<open>2^53\<close>, this is exactly the sum of price times quantity. An order that the
  database client's \<open>createOrder\<close> creates has the total amount that the caller passed
  (rounded to two decimals), and its line items have the products, quantities, unit prices
  and total prices that the caller passed for them (the prices rounded to two decimals):
  the function relates neither to the other.
\<close>

theorem order_totals_at_creation:
  "(\<exists>newOrder.
       OrderProvider_createOrder now_id now_iso prev items deliveryAddress paymentMethod
         = (now_id, newOrder # prev)
     \<and> co_items newOrder = items
     \<and> co_totalAmount newOrder
         = foldl (\<lambda>total item. js_add total (js_mul (ci_price item) (ci_quantity item)))
             (Num 0) items
     \<and> (map (\<lambda>item. (ci_price item, ci_quantity item)) items
           = map (\<lambda>(p, q). (Num (of_int p), Num (of_int q))) amounts
         \<and> (\<Sum>(p, q)\<leftarrow>amounts. \<bar>p * q\<bar>) \<le> 2 ^ 53 \<longrightarrow>
         co_totalAmount newOrder = Num (of_int (\<Sum>(p, q)\<leftarrow>amounts. p * q))))
 \<and> (createOrder r gen now db orderInput lines = (db', Inr od) \<longrightarrow>
       decimal_10_2 (in_total_amount orderInput) = Inr (o_total_amount od)
     \<and> orders db' = orders db @ [od]
     \<and> (\<exists>rows. order_items db' = order_items db @ rows
           \<and> list_all2 (\<lambda>line oi. oi_order_id oi = o_id od
                 \<and> oi_product_id oi = it_product_id line
                 \<and> oi_quantity oi = it_quantity line
                 \<and> decimal_10_2 (it_unit_price line) = Inr (oi_unit_price oi)
                 \<and> decimal_10_2 (it_total_price line) = Inr (oi_total_price oi)) lines rows))"
proof (rule conjI)
  show "\<exists>newOrder.
       OrderProvider_createOrder now_id now_iso prev items deliveryAddress paymentMethod
         = (now_id, newOrder # prev)
     \<and> co_items newOrder = items
     \<and> co_totalAmount newOrder
         = foldl (\<lambda>total item. js_add total (js_mul (ci_price item) (ci_quantity item)))
             (Num 0) items
     \<and> (map (\<lambda>item. (ci_price item, ci_quantity item)) items
           = map (\<lambda>(p, q). (Num (of_int p), Num (of_int q))) amounts
         \<and> (\<Sum>(p, q)\<leftarrow>amounts. \<bar>p * q\<bar>) \<le> 2 ^ 53 \<longrightarrow>
         co_totalAmount newOrder = Num (of_int (\<Sum>(p, q)\<leftarrow>amounts. p * q)))"
    by (rule OrderProvider_createOrder_total)
  show "createOrder r gen now db orderInput lines = (db', Inr od) \<longrightarrow>
       decimal_10_2 (in_total_amount orderInput) = Inr (o_total_amount od)
     \<and> orders db' = orders db @ [od]
     \<and> (\<exists>rows. order_items db' = order_items db @ rows
           \<and> list_all2 (\<lambda>line oi. oi_order_id oi = o_id od
                 \<and> oi_product_id oi = it_product_id line
                 \<and> oi_quantity oi = it_quantity line
                 \<and> decimal_10_2 (it_unit_price line) = Inr (oi_unit_price oi)
                 \<and> decimal_10_2 (it_total_price line) = Inr (oi_total_price oi)) lines rows)"
    by (rule impI) (rule createOrder_Inr)
qed

theorem order_totals_at_creation_witness:
  "createOrder (authenticated 1) sample_ids 900 shop novel_request [novel_line]
     = (shop\<lparr>orders := [atlas_order, novel_order], order_items := [atlas_item, novel_item]\<rparr>,
        Inr novel_order)
   \<and> decimal_10_2 (in_total_amount novel_request) = Inr (o_total_amount novel_order)
   \<and> in_total_amount novel_request = 100
   \<and> (\<exists>rows. [atlas_item, novel_item] = [atlas_item] @ rows
         \<and> list_all2 (\<lambda>line oi. oi_order_id oi = o_id novel_order
                 \<and> oi_product_id oi = it_product_id line
                 \<and> oi_quantity oi = it_quantity line
                 \<and> decimal_10_2 (it_unit_price line) = Inr (oi_unit_price oi)
                 \<and> decimal_10_2 (it_total_price line) = Inr (oi_total_price oi))
               [novel_line] rows)
   \<and> map (\<lambda>item. (ci_price item, ci_quantity item)) [pens, pens]
       = map (\<lambda>(p, q). (Num (of_int p), Num (of_int q))) [(2, 3), (2, 3)]
   \<and> (\<Sum>(p, q)\<leftarrow>[(2, 3), (2, 3)]. \<bar>p * q\<bar>) \<le> (2 :: int) ^ 53
   \<and> (\<exists>newOrder. OrderProvider_createOrder ''1'' ''2024'' [] [pens, pens] ''{}'' ''card''
          = (''1'', [newOrder])
        \<and> co_totalAmount newOrder = Num 12)"
proof -
  note T = order_totals_at_creation [of "''1''" "''2024''" "[]" "[pens, pens]" "''{}''" "''card''"
      "[(2, 3), (2, 3)]" "authenticated 1" sample_ids 900 shop novel_request "[novel_line]"
      "shop\<lparr>orders := [atlas_order, novel_order], order_items := [atlas_item, novel_item]\<rparr>"
      novel_order]
  note D = T [THEN conjunct2, THEN mp, OF createOrder_novel]
  from D have a: "decimal_10_2 (in_total_amount novel_request) = Inr (o_total_amount novel_order)"
    by (rule conjunct1)
  from D [THEN conjunct2, THEN conjunct2]
  have d: "\<exists>rows. [atlas_item, novel_item] = [atlas_item] @ rows
         \<and> list_all2 (\<lambda>line oi. oi_order_id oi = o_id novel_order
                 \<and> oi_product_id oi = it_product_id line
                 \<and> oi_quantity oi = it_quantity line
                 \<and> decimal_10_2 (it_unit_price line) = Inr (oi_unit_price oi)
                 \<and> decimal_10_2 (it_total_price line) = Inr (oi_total_price oi))
               [novel_line] rows"
    by (simp add: shop_def)
  have e: "map (\<lambda>item. (ci_price item, ci_quantity item)) [pens, pens]
       = map (\<lambda>(p, q). (Num (of_int p), Num (of_int q))) [(2, 3), (2, 3)]"
    by (simp add: pens_def)
  have f: "(\<Sum>(p, q)\<leftarrow>[(2, 3), (2, 3)]. \<bar>p * q\<bar>) \<le> (2 :: int) ^ 53" by simp
  from T [THEN conjunct1] obtain newOrder where n:
    "OrderProvider_createOrder ''1'' ''2024'' [] [pens, pens] ''{}'' ''card'' = (''1'', [newOrder])"
    "map (\<lambda>item. (ci_price item, ci_quantity item)) [pens, pens]
           = map (\<lambda>(p, q). (Num (of_int p), Num (of_int q))) [(2, 3), (2, 3)]
         \<and> (\<Sum>(p, q)\<leftarrow>[(2, 3), (2, 3)]. \<bar>p * q\<bar>) \<le> (2 :: int) ^ 53 \<longrightarrow>
         co_totalAmount newOrder = Num (of_int (\<Sum>(p, q)\<leftarrow>[(2, 3), (2, 3)]. p * q))"
    by blast
  from n(2) [THEN mp, OF conjI [OF e f]] have "co_totalAmount newOrder = Num 12" by simp
  with n(1) have b: "\<exists>newOrder. OrderProvider_createOrder ''1'' ''2024'' [] [pens, pens] ''{}'' ''card''
          = (''1'', [newOrder]) \<and> co_totalAmount newOrder = Num 12"
    by blast
  have c: "in_total_amount novel_request = 100" by (simp add: novel_request_def)
  from createOrder_novel a c d e f b show ?thesis by (intro conjI)
qed

subsection \<open>The two message retrievals\<close>

lemma forum_by_pair:
  "getMessages_by_user_pair (authenticated 2) forum 1 None = Inr [hello, offer]"
  by (simp add: getMessages_by_user_pair_def auth_uid_def forum_def select_rows_def
      rls_using_def messages_policies_def applies_def is_true_def sql_or_def sql_eq_def
      order_by_def asc_nulls_last_def hello_def offer_def)

lemma forum_by_conversation:
  "getMessages_by_conversation (authenticated 2) forum 50 = Inr [hello]"
  "getMessages_by_conversation (authenticated 2) forum 51 = Inr [offer]"
  by (simp_all add: getMessages_by_conversation_def auth_uid_def forum_def select_rows_def
      rls_using_def messages_policies_def applies_def is_true_def sql_or_def sql_eq_def
      order_by_def asc_nulls_last_def hello_def offer_def)

text \<open>
  C8. There is a database state with a conversation between two users in which the
  retrieval by user pair and the retrieval by that conversation's identifier, run by the
  same user, return different sets of messages: in the sample state the pair retrieval
  returns the messages of both threads of the two users, the other retrieval those of one
  thread.
\<close>

theorem message_retrievals_diverge:
  "\<exists>db r u other cv ms ms'.
      auth_uid r = Some u
    \<and> cv \<in> set (conversations db)
    \<and> {cv_user1_id cv, cv_user2_id cv} = {u, other}
    \<and> getMessages_by_user_pair r db other None = Inr ms
    \<and> getMessages_by_conversation r db (cv_id cv) = Inr ms'
    \<and> set ms \<noteq> set ms'"
proof -
  have "auth_uid (authenticated 2) = Some 2" by (simp add: auth_uid_def)
  moreover have "thread_general \<in> set (conversations forum)" by (simp add: forum_def)
  moreover have "{cv_user1_id thread_general, cv_user2_id thread_general} = {2, 1}"
    by (auto simp: thread_general_def)
  moreover have "getMessages_by_conversation (authenticated 2) forum (cv_id thread_general)
      = Inr [hello]"
    using forum_by_conversation(1) by (simp add: thread_general_def)
  moreover have "set [hello, offer] \<noteq> set [hello]"
    by (simp add: hello_def offer_def)
  ultimately show ?thesis using forum_by_pair by blast
qed

subsection \<open>Location-filtered product search\<close>

lemma rpc_resolve_nearby:
  "rpc_resolve stored_procedures ''get_nearby_products'' [''user_city'', ''user_state'']
     = Inl (PGRST202 ''get_nearby_products'')"
  by (simp add: rpc_resolve_def stored_procedures_def)

lemma nearby_parameters:
  "map proargnames (filter (\<lambda>f. proname f = ''get_nearby_products'') stored_procedures)
     = [[''user_lat'', ''user_lon'', ''radius_km'', ''limit_count'']]"
  by (simp add: stored_procedures_def)

text \<open>
  C9. For every call of \<open>getProducts\<close> whose user location has a non-empty city and a
  non-empty state, the remote call names the arguments \<^verbatim>\<open>user_city\<close> and \<^verbatim>\<open>user_state\<close>, the
  only procedure called \<^verbatim>\<open>get_nearby_products\<close> declares \<^verbatim>\<open>user_lat\<close>, \<^verbatim>\<open>user_lon\<close>,
  \<^verbatim>\<open>radius_km\<close> and \<^verbatim>\<open>limit_count\<close>, so no procedure matches and \<open>getProducts\<close> fails with
  that error, whatever a matching procedure or the fallback query would have returned.
\<close>

theorem getProducts_location_fails:
  assumes "f_userLocation fs = Some loc"
    and "truthy_string (ul_city loc)" and "truthy_string (ul_state loc)"
  shows "getProducts stored_procedures run fallback fs
           = Inl (PGRST202 ''get_nearby_products'')
       \<and> map proargnames (filter (\<lambda>f. proname f = ''get_nearby_products'') stored_procedures)
           = [[''user_lat'', ''user_lon'', ''radius_km'', ''limit_count'']]
       \<and> ''user_city'' \<notin> set [''user_lat'', ''user_lon'', ''radius_km'', ''limit_count'']
       \<and> ''user_state'' \<notin> set [''user_lat'', ''user_lon'', ''radius_km'', ''limit_count'']"
proof -
  have "getProducts stored_procedures run fallback fs
           = Inl (PGRST202 ''get_nearby_products'')"
    using assms by (simp add: getProducts_def Let_def rpc_resolve_nearby)
  then show ?thesis using nearby_parameters by simp
qed

theorem getProducts_location_fails_witness:
  "f_userLocation pune_filters = Some \<lparr>ul_city = Some ''Pune'', ul_state = Some ''MH''\<rparr>
   \<and> truthy_string (ul_city \<lparr>ul_city = Some ''Pune'', ul_state = Some ''MH''\<rparr>)
   \<and> truthy_string (ul_state \<lparr>ul_city = Some ''Pune'', ul_state = Some ''MH''\<rparr>)
   \<and> getProducts stored_procedures (\<lambda>f args. Inr []) (\<lambda>fs. Inr ([] :: product list))
        pune_filters = Inl (PGRST202 ''get_nearby_products'')"
proof -
  have h: "f_userLocation pune_filters = Some \<lparr>ul_city = Some ''Pune'', ul_state = Some ''MH''\<rparr>"
    "truthy_string (ul_city \<lparr>ul_city = Some ''Pune'', ul_state = Some ''MH''\<rparr>)"
    "truthy_string (ul_state \<lparr>ul_city = Some ''Pune'', ul_state = Some ''MH''\<rparr>)"
    by (simp_all add: pune_filters_def truthy_string_def)
  from getProducts_location_fails [OF h, of "\<lambda>f args. Inr []" "\<lambda>fs. Inr ([] :: product list)"] h
  show ?thesis by simp
qed

end
